theory Spec2Isabelle
  imports Main
begin

section \<open>Lexer (server/parser.js, tokenize)\<close>

text \<open>
  Source text is a list of 8-bit code units; offsets are indices into that list.
  A token is the object \<^verbatim>\<open>{type, value, start, end}\<close> pushed by \<^verbatim>\<open>tokenize\<close>.
\<close>

datatype tokenType = STRING | NUMBER | IDENTIFIER | KEYWORD | OPERATOR | SYMBOL

record token =
  tok_type :: tokenType
  tok_value :: string
  tok_start :: nat
  tok_end :: nat

text \<open>
  A thrown JavaScript exception. \<open>Error m\<close> is \<^verbatim>\<open>new Error(m)\<close>. \<open>TypeError p\<close> is the
  engine's TypeError for reading property \<open>p\<close> of \<^verbatim>\<open>null\<close>, which the parser provokes
  whenever an error message interpolates \<^verbatim>\<open>this.currentToken().start\<close> at the end of the
  token list.
\<close>

datatype jsError = Error string | TypeError string

fun message :: "jsError \<Rightarrow> string" where
  "message (Error m) = m"
| "message (TypeError p) = ''Cannot read properties of null (reading '' @ [CHR 0x27] @ p @ [CHR 0x27] @ '')''"

text \<open>Decimal rendering of an offset inside a template literal.\<close>

fun showNat :: "nat \<Rightarrow> string" where
  "showNat n = (if n < 10 then [''0123456789'' ! n]
                else showNat (n div 10) @ [''0123456789'' ! (n mod 10)])"

declare showNat.simps [simp del]

text \<open>\<^verbatim>\<open>input[i]\<close>: \<^verbatim>\<open>undefined\<close> beyond the end.\<close>

definition charAt :: "string \<Rightarrow> nat \<Rightarrow> char option" where
  "charAt input i = (if i < length input then Some (input ! i) else None)"

text \<open>\<^verbatim>\<open>input.slice(a, b)\<close> for \<open>a \<le> b\<close>.\<close>

definition slice :: "string \<Rightarrow> nat \<Rightarrow> nat \<Rightarrow> string" where
  "slice input a b = take (b - a) (drop a input)"

text \<open>The regular expressions of the lexer, on 8-bit code units.\<close>

definition isWhitespace :: "char \<Rightarrow> bool" where
  "isWhitespace c = (c \<in> set [CHR 0x09, CHR 0x0A, CHR 0x0B, CHR 0x0C, CHR 0x0D, CHR 0x20, CHR 0xA0])"

definition isDigit :: "char \<Rightarrow> bool" where
  "isDigit c = (c \<in> set ''0123456789'')"

definition isDigitOrDot :: "char \<Rightarrow> bool" where
  "isDigitOrDot c = (isDigit c \<or> c = CHR ''.'')"

definition isIdentStart :: "char \<Rightarrow> bool" where
  "isIdentStart c = (c \<in> set ''abcdefghijklmnopqrstuvwxyzABCDEFGHIJKLMNOPQRSTUVWXYZ_$'')"

definition isIdentPart :: "char \<Rightarrow> bool" where
  "isIdentPart c = (isIdentStart c \<or> isDigit c)"

definition isKeyword :: "string \<Rightarrow> bool" where
  "isKeyword v = (v \<in> set
     [''var'', ''int'', ''float'', ''string'', ''bool'', ''array'', ''object'', ''any'',
      ''if'', ''elif'', ''else'', ''while'', ''for'', ''return'', ''break'', ''continue'',
      ''class'', ''fun'', ''this'', ''and'', ''or'', ''not'', ''in'', ''new'', ''match'',
      ''case'', ''default'', ''use'', ''using'', ''true'', ''false'', ''nil'', ''static''])"

text \<open>\<^verbatim>\<open>while (current < input.length && p(input[current])) current++\<close>\<close>

function scanWhile :: "(char \<Rightarrow> bool) \<Rightarrow> string \<Rightarrow> nat \<Rightarrow> nat" where
  "scanWhile p input current =
     (if current < length input \<and> p (input ! current)
      then scanWhile p input (current + 1) else current)"
  by pat_completeness auto
termination
  by (relation "measure (\<lambda>(p, input, current). length input - current)") auto

declare scanWhile.simps [simp del]

text \<open>The body of a block comment: stops on \<^verbatim>\<open>*/\<close> or one short of the end.\<close>

function scanBlockComment :: "string \<Rightarrow> nat \<Rightarrow> nat" where
  "scanBlockComment input current =
     (if current < length input - 1 \<and>
         \<not> (input ! current = CHR ''*'' \<and> charAt input (current + 1) = Some CHR ''/'')
      then scanBlockComment input (current + 1) else current)"
  by pat_completeness auto
termination
  by (relation "measure (\<lambda>(input, current). length input - current)") auto

declare scanBlockComment.simps [simp del]

text \<open>The body of a string literal: a backslash skips two code units.\<close>

function scanString :: "string \<Rightarrow> char \<Rightarrow> nat \<Rightarrow> nat" where
  "scanString input quote current =
     (if current < length input \<and> input ! current \<noteq> quote
      then (if input ! current = CHR 0x5C
            then scanString input quote (current + 2)
            else scanString input quote (current + 1))
      else current)"
  by pat_completeness auto
termination
  by (relation "measure (\<lambda>(input, quote, current). length input - current)") auto

declare scanString.simps [simp del]

definition mkToken :: "tokenType \<Rightarrow> string \<Rightarrow> nat \<Rightarrow> nat \<Rightarrow> token" where
  "mkToken t v s e = \<lparr>tok_type = t, tok_value = v, tok_start = s, tok_end = e\<rparr>"

text \<open>One iteration of the main loop of \<^verbatim>\<open>tokenize\<close> at a position inside the input:
  the exception, or the next position with the tokens pushed so far.\<close>

definition tokenizeStep :: "string \<Rightarrow> nat \<Rightarrow> token list \<Rightarrow> jsError + (nat \<times> token list)" where
  "tokenizeStep input current tokens =
    (let char = input ! current in
     if isWhitespace char then Inr (current + 1, tokens)
     else if char = CHR ''/'' \<and> charAt input (current + 1) = Some CHR ''/''
       then Inr (scanWhile (\<lambda>c. c \<noteq> CHR 0x0A) input current, tokens)
     else if char = CHR ''/'' \<and> charAt input (current + 1) = Some CHR ''*''
       then Inr (scanBlockComment input (current + 2) + 2, tokens)
     else if char = CHR 0x22 \<or> char = CHR 0x27 then
       (let e = scanString input char (current + 1) in
        if e \<ge> length input
        then Inl (Error (''Unterminated string at position '' @ showNat current))
        else Inr (e + 1, tokens @ [mkToken STRING (slice input current (e + 1)) current (e + 1)]))
     else if isDigit char then
       (let e = scanWhile isDigitOrDot input current in
        Inr (e, tokens @ [mkToken NUMBER (slice input current e) current e]))
     else if char = CHR ''-'' \<and> current + 1 < length input \<and> isDigit (input ! (current + 1)) then
       (let e = scanWhile isDigitOrDot input (current + 1) in
        Inr (e, tokens @ [mkToken NUMBER (slice input current e) current e]))
     else if isIdentStart char then
       (let e = scanWhile isIdentPart input current;
            v = slice input current e in
        Inr (e, tokens @ [mkToken (if isKeyword v then KEYWORD else IDENTIFIER) v current e]))
     else if char = CHR ''='' \<and> charAt input (current + 1) = Some CHR ''=''
       then Inr (current + 2, tokens @ [mkToken OPERATOR ''=='' current (current + 2)])
     else if char = CHR ''!'' \<and> charAt input (current + 1) = Some CHR ''=''
       then Inr (current + 2, tokens @ [mkToken OPERATOR ''!='' current (current + 2)])
     else if char = CHR ''>'' \<and> charAt input (current + 1) = Some CHR ''=''
       then Inr (current + 2, tokens @ [mkToken OPERATOR ''>='' current (current + 2)])
     else if char = CHR ''<'' \<and> charAt input (current + 1) = Some CHR ''=''
       then Inr (current + 2, tokens @ [mkToken OPERATOR ''<='' current (current + 2)])
     else if char = CHR ''&'' \<and> charAt input (current + 1) = Some CHR ''&''
       then Inr (current + 2, tokens @ [mkToken OPERATOR ''and'' current (current + 2)])
     else if char = CHR ''|'' \<and> charAt input (current + 1) = Some CHR ''|''
       then Inr (current + 2, tokens @ [mkToken OPERATOR ''or'' current (current + 2)])
     else Inr (current + 1, tokens @ [mkToken SYMBOL [char] current (current + 1)]))"

lemma scanWhile_ge: "current \<le> scanWhile p input current"
  by (induction p input current rule: scanWhile.induct)
     (subst scanWhile.simps, auto)

lemma scanWhile_gt:
  "current < length input \<Longrightarrow> p (input ! current) \<Longrightarrow> current < scanWhile p input current"
  using scanWhile_ge [of "current + 1" p input]
  by (subst scanWhile.simps) auto

lemma scanString_ge: "current \<le> scanString input quote current"
proof (induction input quote current rule: scanString.induct)
  case (1 input quote current)
  then show ?case by (subst scanString.simps) (auto simp: Suc_leD)
qed

lemma scanBlockComment_ge: "current \<le> scanBlockComment input current"
  by (induction input current rule: scanBlockComment.induct)
     (subst scanBlockComment.simps, auto simp: Suc_leD)

lemma tokenizeStep_progress:
  assumes "current < length input" and "tokenizeStep input current tokens = Inr (c', toks')"
  shows "current < c'"
proof -
  have a: "input ! current = CHR ''/'' \<Longrightarrow>
           current < scanWhile (\<lambda>c. c \<noteq> CHR 0x0A) input current"
    using assms(1) by (intro scanWhile_gt) auto
  have b: "isDigit (input ! current) \<Longrightarrow> current < scanWhile isDigitOrDot input current"
    using assms(1) by (intro scanWhile_gt) (auto simp: isDigitOrDot_def)
  have c: "current < scanWhile isDigitOrDot input (current + 1)"
    using scanWhile_ge [of "current + 1" isDigitOrDot input] by simp
  have d: "isIdentStart (input ! current) \<Longrightarrow> current < scanWhile isIdentPart input current"
    using assms(1) by (intro scanWhile_gt) (auto simp: isIdentPart_def)
  have e: "current < scanString input q (current + 1) + 1" for q
    using scanString_ge [of "current + 1" input q] by simp
  have f: "current < scanBlockComment input (current + 2) + 2"
    using scanBlockComment_ge [of "current + 2" input] by simp
  show ?thesis
    using assms(2) a b c d e f
    by (auto simp: tokenizeStep_def Let_def split: if_splits)
qed

text \<open>The main loop of \<^verbatim>\<open>tokenize\<close>, from position \<open>current\<close> with the tokens pushed so far.\<close>

function tokenizeFrom :: "string \<Rightarrow> nat \<Rightarrow> token list \<Rightarrow> jsError + token list" where
  "tokenizeFrom input current tokens =
     (if current < length input
      then (case tokenizeStep input current tokens of
              Inl e \<Rightarrow> Inl e
            | Inr (c', toks') \<Rightarrow> tokenizeFrom input c' toks')
      else Inr tokens)"
  by pat_completeness auto
termination
proof (relation "measure (\<lambda>(input, current, tokens). length input - current)")
  fix input :: string and current tokens x2 c' toks'
  assume "current < length input" and "tokenizeStep input current tokens = Inr x2"
    and "(c', toks') = x2"
  then have "current < c'"
    using tokenizeStep_progress [of current input tokens c' toks'] by simp
  with \<open>current < length input\<close>
  show "((input, c', toks'), (input, current, tokens))
          \<in> measure (\<lambda>(input, current, tokens). length input - current)"
    by simp
qed simp

declare tokenizeFrom.simps [simp del]

definition tokenize :: "string \<Rightarrow> jsError + token list" where
  "tokenize input = tokenizeFrom input 0 []"

section \<open>Parser state and AST (server/parser.js)\<close>

record parseError =
  pe_message :: string
  pe_start :: nat
  pe_end :: nat

text \<open>
  The fields of a \<^verbatim>\<open>NeutronParser\<close> instance. \<open>input\<close> is assigned by \<^verbatim>\<open>tokenize\<close>;
  \<open>errors\<close> is assigned by the constructor only.
\<close>

record parser =
  tokens :: "token list"
  position :: nat
  errors :: "parseError list"
  input :: string

definition newParser :: parser where
  "newParser = \<lparr>tokens = [], position = 0, errors = [], input = []\<rparr>"

definition currentToken :: "parser \<Rightarrow> token option" where
  "currentToken s = (if position s < length (tokens s) then Some (tokens s ! position s) else None)"

definition nextToken :: "parser \<Rightarrow> parser" where
  "nextToken s = (if position s < length (tokens s) then s\<lparr>position := position s + 1\<rparr> else s)"

definition addError :: "string \<Rightarrow> nat \<Rightarrow> nat \<Rightarrow> parser \<Rightarrow> parser" where
  "addError m a b s = s\<lparr>errors := errors s @ [\<lparr>pe_message = m, pe_start = a, pe_end = b\<rparr>]\<rparr>"

text \<open>The \<^verbatim>\<open>for\<close> loop of \<^verbatim>\<open>findEndOfLine\<close>.\<close>

function findEndOfLineFrom :: "string \<Rightarrow> nat \<Rightarrow> nat" where
  "findEndOfLineFrom inp i =
     (if i < length inp
      then (if inp ! i = CHR 0x0A \<or> inp ! i = CHR 0x0D then i else findEndOfLineFrom inp (i + 1))
      else length inp)"
  by pat_completeness auto
termination
  by (relation "measure (\<lambda>(inp, i). length inp - i)") auto

declare findEndOfLineFrom.simps [simp del]

definition findEndOfLine :: "parser \<Rightarrow> nat \<Rightarrow> nat" where
  "findEndOfLine s pos = findEndOfLineFrom (input s) pos"

text \<open>\<^verbatim>\<open>this.currentToken() && this.currentToken().value === v\<close>\<close>

definition curIs :: "string \<Rightarrow> parser \<Rightarrow> bool" where
  "curIs v s = (case currentToken s of None \<Rightarrow> False | Some t \<Rightarrow> tok_value t = v)"

text \<open>\<^verbatim>\<open>this.currentToken() && this.currentToken().value !== v\<close>\<close>

definition curIsNot :: "string \<Rightarrow> parser \<Rightarrow> bool" where
  "curIsNot v s = (case currentToken s of None \<Rightarrow> False | Some t \<Rightarrow> tok_value t \<noteq> v)"

text \<open>\<^verbatim>\<open>this.currentToken() && this.currentToken().type === 'IDENTIFIER'\<close>\<close>

definition curIsIdentifier :: "parser \<Rightarrow> bool" where
  "curIsIdentifier s = (case currentToken s of None \<Rightarrow> False | Some t \<Rightarrow> tok_type t = IDENTIFIER)"

text \<open>\<^verbatim>\<open>while (this.currentToken() && p(this.currentToken())) this.nextToken()\<close>:
  the token-skipping loops of the recovery paths.\<close>

function skipWhile :: "(token \<Rightarrow> bool) \<Rightarrow> parser \<Rightarrow> parser" where
  "skipWhile p s =
     (if position s < length (tokens s) \<and> p (tokens s ! position s)
      then skipWhile p (s\<lparr>position := position s + 1\<rparr>) else s)"
  by pat_completeness auto
termination
  by (relation "measure (\<lambda>(p, s). length (tokens s) - position s)") auto

declare skipWhile.simps [simp del]

definition isStatementStart :: "token \<Rightarrow> bool" where
  "isStatementStart t =
     (tok_value t \<in> set [''var'', ''if'', ''while'', ''do'', ''for'', ''fun'', ''class'',
                          ''return'', ''match'', ''retry'', ''try'']
      \<or> tok_type t = IDENTIFIER)"

function skipToNextStatement :: "parser \<Rightarrow> parser" where
  "skipToNextStatement s =
     (case currentToken s of
        None \<Rightarrow> s
      | Some t \<Rightarrow>
          if tok_value t = '';'' then nextToken s
          else if tok_value t = ''}'' \<or> tok_value t = ''{'' then s
          else if isStatementStart t then s
          else skipToNextStatement (nextToken s))"
  by pat_completeness auto
termination
  by (relation "measure (\<lambda>s. length (tokens s) - position s)")
     (auto simp: currentToken_def nextToken_def split: if_splits)

declare skipToNextStatement.simps [simp del]

definition isTypeKeyword :: "string \<Rightarrow> bool" where
  "isTypeKeyword v = (v \<in> set [''int'', ''float'', ''string'', ''bool'', ''array'', ''object'', ''any''])"

text \<open>
  The \<^verbatim>\<open>value\<close> of a Literal node. A number literal keeps the token text that
  \<^verbatim>\<open>Number(...)\<close> was applied to.
\<close>

datatype jsValue = JNumber string | JString string | JBool bool | JNull

text \<open>
  AST nodes, one constructor per \<^verbatim>\<open>type\<close> tag, fields in the order of the object
  literal that builds them. \<open>None\<close> in a \<open>node option\<close> field is \<^verbatim>\<open>null\<close>; the last two
  fields are \<^verbatim>\<open>start\<close> and \<^verbatim>\<open>end\<close>, where \<open>None\<close> is \<^verbatim>\<open>undefined\<close> (a
  BlockStatement has neither, and a node whose \<^verbatim>\<open>end\<close> is copied from a block gets
  \<^verbatim>\<open>undefined\<close>).
\<close>

datatype node =
    VariableDeclaration "string option" string "node option" bool "nat option" "nat option"
  | IfStatement "node option" "node option" "node option" "nat option" "nat option"
  | BlockStatement "node option list"
  | WhileStatement "node option" "node option" "nat option" "nat option"
  | DoWhileStatement node node "nat option" "nat option"
  | ForStatement "node option" "node option" "node option" node "nat option" "nat option"
  | FunctionDeclaration node "string list" node "nat option" "nat option"
  | ClassDeclaration node node "nat option" "nat option"
  | ReturnStatement "node option" "nat option" "nat option"
  | ThrowStatement "node option" "nat option" "nat option"
  | MatchStatement "node option" "node list" "nat option" "nat option"
  | MatchCase node node "nat option" "nat option"
  | MatchDefault node "nat option" "nat option"
  | RetryStatement node node "node option" "nat option" "nat option"
  | TryStatement node "node list" "node option" "nat option" "nat option"
  | CatchClause "node option" node "nat option" "nat option"
  | FinallyClause node "nat option" "nat option"
  | ExpressionStatement node "nat option" "nat option"
  | AssignmentExpression node node "nat option" "nat option"
  | Literal jsValue string "nat option" "nat option"
  | Identifier string "nat option" "nat option"
  | BinaryExpression string node node "nat option" "nat option"
  | LogicalExpression string node node "nat option" "nat option"
  | UnaryExpression string node "nat option" "nat option"
  | CallExpression node "node list" "nat option" "nat option"
  | MemberExpression node node "nat option" "nat option"
  | ArrayExpression "node list" "nat option" "nat option"
  | ObjectExpression "node list" "nat option" "nat option"
  | Property token node "nat option" "nat option"

text \<open>\<^verbatim>\<open>node.start\<close> and \<^verbatim>\<open>node.end\<close>.\<close>

fun nodeStart :: "node \<Rightarrow> nat option" where
  "nodeStart (VariableDeclaration _ _ _ _ a b) = a"
| "nodeStart (IfStatement _ _ _ a b) = a"
| "nodeStart (BlockStatement _) = None"
| "nodeStart (WhileStatement _ _ a b) = a"
| "nodeStart (DoWhileStatement _ _ a b) = a"
| "nodeStart (ForStatement _ _ _ _ a b) = a"
| "nodeStart (FunctionDeclaration _ _ _ a b) = a"
| "nodeStart (ClassDeclaration _ _ a b) = a"
| "nodeStart (ReturnStatement _ a b) = a"
| "nodeStart (ThrowStatement _ a b) = a"
| "nodeStart (MatchStatement _ _ a b) = a"
| "nodeStart (MatchCase _ _ a b) = a"
| "nodeStart (MatchDefault _ a b) = a"
| "nodeStart (RetryStatement _ _ _ a b) = a"
| "nodeStart (TryStatement _ _ _ a b) = a"
| "nodeStart (CatchClause _ _ a b) = a"
| "nodeStart (FinallyClause _ a b) = a"
| "nodeStart (ExpressionStatement _ a b) = a"
| "nodeStart (AssignmentExpression _ _ a b) = a"
| "nodeStart (Literal _ _ a b) = a"
| "nodeStart (Identifier _ a b) = a"
| "nodeStart (BinaryExpression _ _ _ a b) = a"
| "nodeStart (LogicalExpression _ _ _ a b) = a"
| "nodeStart (UnaryExpression _ _ a b) = a"
| "nodeStart (CallExpression _ _ a b) = a"
| "nodeStart (MemberExpression _ _ a b) = a"
| "nodeStart (ArrayExpression _ a b) = a"
| "nodeStart (ObjectExpression _ a b) = a"
| "nodeStart (Property _ _ a b) = a"

fun nodeEnd :: "node \<Rightarrow> nat option" where
  "nodeEnd (VariableDeclaration _ _ _ _ a b) = b"
| "nodeEnd (IfStatement _ _ _ a b) = b"
| "nodeEnd (BlockStatement _) = None"
| "nodeEnd (WhileStatement _ _ a b) = b"
| "nodeEnd (DoWhileStatement _ _ a b) = b"
| "nodeEnd (ForStatement _ _ _ _ a b) = b"
| "nodeEnd (FunctionDeclaration _ _ _ a b) = b"
| "nodeEnd (ClassDeclaration _ _ a b) = b"
| "nodeEnd (ReturnStatement _ a b) = b"
| "nodeEnd (ThrowStatement _ a b) = b"
| "nodeEnd (MatchStatement _ _ a b) = b"
| "nodeEnd (MatchCase _ _ a b) = b"
| "nodeEnd (MatchDefault _ a b) = b"
| "nodeEnd (RetryStatement _ _ _ a b) = b"
| "nodeEnd (TryStatement _ _ _ a b) = b"
| "nodeEnd (CatchClause _ _ a b) = b"
| "nodeEnd (FinallyClause _ a b) = b"
| "nodeEnd (ExpressionStatement _ a b) = b"
| "nodeEnd (AssignmentExpression _ _ a b) = b"
| "nodeEnd (Literal _ _ a b) = b"
| "nodeEnd (Identifier _ a b) = b"
| "nodeEnd (BinaryExpression _ _ _ a b) = b"
| "nodeEnd (LogicalExpression _ _ _ a b) = b"
| "nodeEnd (UnaryExpression _ _ a b) = b"
| "nodeEnd (CallExpression _ _ a b) = b"
| "nodeEnd (MemberExpression _ _ a b) = b"
| "nodeEnd (ArrayExpression _ a b) = b"
| "nodeEnd (ObjectExpression _ a b) = b"
| "nodeEnd (Property _ _ a b) = b"

section \<open>Parsing functions\<close>

text \<open>
  A parsing method either returns a value, or throws, or does not return. The parser
  state is threaded through the first two; a thrown exception keeps the state reached
  when it was thrown, since \<^verbatim>\<open>parseStatement\<close> catches it and goes on from there.
  Every method takes a fuel argument that each call decrements; \<open>OutOfFuel\<close> stands for
  a computation that needs more calls than the fuel allows.
\<close>

datatype 'a outcome = Normal 'a parser | Thrown jsError parser | OutOfFuel

definition andThen :: "'a outcome \<Rightarrow> ('a \<Rightarrow> parser \<Rightarrow> 'b outcome) \<Rightarrow> 'b outcome" where
  "andThen r k = (case r of Normal v s \<Rightarrow> k v s | Thrown e s \<Rightarrow> Thrown e s | OutOfFuel \<Rightarrow> OutOfFuel)"

definition quoted :: "string \<Rightarrow> string" where
  "quoted x = [CHR 0x27] @ x @ [CHR 0x27]"

text \<open>\<^verbatim>\<open>throw new Error(`msg${this.currentToken().start}`)\<close>: with no current token the
  interpolation itself raises the TypeError.\<close>

definition throwAtCurrent :: "string \<Rightarrow> parser \<Rightarrow> 'a outcome" where
  "throwAtCurrent msg s =
     (case currentToken s of
        None \<Rightarrow> Thrown (TypeError ''start'') s
      | Some t \<Rightarrow> Thrown (Error (msg @ showNat (tok_start t))) s)"

text \<open>Reading a property of a token saved earlier with \<^verbatim>\<open>const t = this.currentToken()\<close>.\<close>

definition withToken :: "token option \<Rightarrow> string \<Rightarrow> parser \<Rightarrow> (token \<Rightarrow> 'a outcome) \<Rightarrow> 'a outcome" where
  "withToken t prop s k = (case t of None \<Rightarrow> Thrown (TypeError prop) s | Some tok \<Rightarrow> k tok)"

text \<open>\<^verbatim>\<open>str.includes(sub)\<close>\<close>

fun includesStr :: "string \<Rightarrow> string \<Rightarrow> bool" where
  "includesStr sub [] = (sub = [])"
| "includesStr sub (c # cs) = (take (length sub) (c # cs) = sub \<or> includesStr sub cs)"

definition parseTemplateLiteral :: "token \<Rightarrow> node" where
  "parseTemplateLiteral t =
     Literal (JString (tok_value t)) (tok_value t) (Some (tok_start t)) (Some (tok_end t))"

text \<open>
  The parsing methods call one another recursively, and whether they return depends on
  the token list. They are therefore defined by recursion on the fuel: \<open>exprMethodsAt n\<close>
  holds the expression-parsing methods as they behave with fuel \<open>n\<close>, and the body of
  each method (\<open>..._body\<close>) reaches the others through \<open>this\<close>, the methods with one unit
  of fuel less. \<open>m_parseX this s\<close> is the call \<^verbatim>\<open>this.parseX()\<close> in state \<open>s\<close>.
\<close>

record exprMethods =
  m_parseExpression :: "parser \<Rightarrow> node outcome"
  m_parseLogicalOr :: "parser \<Rightarrow> node outcome"
  m_parseLogicalOrLoop :: "node \<Rightarrow> parser \<Rightarrow> node outcome"
  m_parseLogicalAnd :: "parser \<Rightarrow> node outcome"
  m_parseLogicalAndLoop :: "node \<Rightarrow> parser \<Rightarrow> node outcome"
  m_parseEquality :: "parser \<Rightarrow> node outcome"
  m_parseEqualityLoop :: "node \<Rightarrow> parser \<Rightarrow> node outcome"
  m_parseRelational :: "parser \<Rightarrow> node outcome"
  m_parseRelationalLoop :: "node \<Rightarrow> parser \<Rightarrow> node outcome"
  m_parseAdditive :: "parser \<Rightarrow> node outcome"
  m_parseAdditiveLoop :: "node \<Rightarrow> parser \<Rightarrow> node outcome"
  m_parseMultiplicative :: "parser \<Rightarrow> node outcome"
  m_parseMultiplicativeLoop :: "node \<Rightarrow> parser \<Rightarrow> node outcome"
  m_parseUnary :: "parser \<Rightarrow> node outcome"
  m_parsePrimary :: "parser \<Rightarrow> node outcome"
  m_parseCallExpression :: "node \<Rightarrow> parser \<Rightarrow> node outcome"
  m_parseCommaExpressions :: "node list \<Rightarrow> parser \<Rightarrow> node list outcome"
  m_parseMemberExpression :: "node \<Rightarrow> parser \<Rightarrow> node outcome"
  m_parseArrayExpression :: "parser \<Rightarrow> node outcome"
  m_parseObjectExpression :: "parser \<Rightarrow> node outcome"
  m_parseCommaProperties :: "node list \<Rightarrow> parser \<Rightarrow> node list outcome"
  m_parseObjectProperty :: "parser \<Rightarrow> node outcome"
  m_parseThrowStatement :: "parser \<Rightarrow> node outcome"

text \<open>
  The expression ladder. Each \<^verbatim>\<open>while\<close> loop that folds operands into a node is the
  \<open>...Loop\<close> method of its method; \<open>parseCommaExpressions\<close> is the loop
  \<^verbatim>\<open>while (current is ',') { nextToken(); list.push(parseExpression()) }\<close> of call
  arguments and of array elements, \<open>parseCommaProperties\<close> that of object properties.
\<close>

definition parseExpression_body :: "exprMethods \<Rightarrow> parser \<Rightarrow> node outcome" where
  "parseExpression_body this s = m_parseLogicalOr this s"

definition parseLogicalOr_body :: "exprMethods \<Rightarrow> parser \<Rightarrow> node outcome" where
  "parseLogicalOr_body this s = andThen (m_parseLogicalAnd this s) (m_parseLogicalOrLoop this)"

definition parseLogicalOrLoop_body :: "exprMethods \<Rightarrow> node \<Rightarrow> parser \<Rightarrow> node outcome" where
  "parseLogicalOrLoop_body this expr s =
     (if curIs ''or'' s
      then andThen (m_parseLogicalAnd this (nextToken s))
             (\<lambda>right. m_parseLogicalOrLoop this
                (LogicalExpression ''or'' expr right (nodeStart expr) (nodeEnd right)))
      else Normal expr s)"

definition parseLogicalAnd_body :: "exprMethods \<Rightarrow> parser \<Rightarrow> node outcome" where
  "parseLogicalAnd_body this s = andThen (m_parseEquality this s) (m_parseLogicalAndLoop this)"

definition parseLogicalAndLoop_body :: "exprMethods \<Rightarrow> node \<Rightarrow> parser \<Rightarrow> node outcome" where
  "parseLogicalAndLoop_body this expr s =
     (if curIs ''and'' s
      then andThen (m_parseEquality this (nextToken s))
             (\<lambda>right. m_parseLogicalAndLoop this
                (LogicalExpression ''and'' expr right (nodeStart expr) (nodeEnd right)))
      else Normal expr s)"

definition parseEquality_body :: "exprMethods \<Rightarrow> parser \<Rightarrow> node outcome" where
  "parseEquality_body this s = andThen (m_parseRelational this s) (m_parseEqualityLoop this)"

definition parseEqualityLoop_body :: "exprMethods \<Rightarrow> node \<Rightarrow> parser \<Rightarrow> node outcome" where
  "parseEqualityLoop_body this expr s =
     (case currentToken s of
        None \<Rightarrow> Normal expr s
      | Some opToken \<Rightarrow>
          if tok_value opToken = ''=='' \<or> tok_value opToken = ''!=''
          then andThen (m_parseRelational this (nextToken s))
                 (\<lambda>right. m_parseEqualityLoop this
                    (BinaryExpression (tok_value opToken) expr right (nodeStart expr) (nodeEnd right)))
          else Normal expr s)"

definition parseRelational_body :: "exprMethods \<Rightarrow> parser \<Rightarrow> node outcome" where
  "parseRelational_body this s = andThen (m_parseAdditive this s) (m_parseRelationalLoop this)"

definition parseRelationalLoop_body :: "exprMethods \<Rightarrow> node \<Rightarrow> parser \<Rightarrow> node outcome" where
  "parseRelationalLoop_body this expr s =
     (case currentToken s of
        None \<Rightarrow> Normal expr s
      | Some opToken \<Rightarrow>
          if tok_value opToken \<in> set [''<'', ''<='', ''>'', ''>='']
          then andThen (m_parseAdditive this (nextToken s))
                 (\<lambda>right. m_parseRelationalLoop this
                    (BinaryExpression (tok_value opToken) expr right (nodeStart expr) (nodeEnd right)))
          else Normal expr s)"

definition parseAdditive_body :: "exprMethods \<Rightarrow> parser \<Rightarrow> node outcome" where
  "parseAdditive_body this s = andThen (m_parseMultiplicative this s) (m_parseAdditiveLoop this)"

definition parseAdditiveLoop_body :: "exprMethods \<Rightarrow> node \<Rightarrow> parser \<Rightarrow> node outcome" where
  "parseAdditiveLoop_body this expr s =
     (case currentToken s of
        None \<Rightarrow> Normal expr s
      | Some opToken \<Rightarrow>
          if tok_value opToken = ''+'' \<or> tok_value opToken = ''-''
          then andThen (m_parseMultiplicative this (nextToken s))
                 (\<lambda>right. m_parseAdditiveLoop this
                    (BinaryExpression (tok_value opToken) expr right (nodeStart expr) (nodeEnd right)))
          else Normal expr s)"

definition parseMultiplicative_body :: "exprMethods \<Rightarrow> parser \<Rightarrow> node outcome" where
  "parseMultiplicative_body this s = andThen (m_parseUnary this s) (m_parseMultiplicativeLoop this)"

definition parseMultiplicativeLoop_body :: "exprMethods \<Rightarrow> node \<Rightarrow> parser \<Rightarrow> node outcome" where
  "parseMultiplicativeLoop_body this expr s =
     (case currentToken s of
        None \<Rightarrow> Normal expr s
      | Some opToken \<Rightarrow>
          if tok_value opToken \<in> set [''*'', ''/'', ''%'']
          then andThen (m_parseUnary this (nextToken s))
                 (\<lambda>right. m_parseMultiplicativeLoop this
                    (BinaryExpression (tok_value opToken) expr right (nodeStart expr) (nodeEnd right)))
          else Normal expr s)"

definition parseUnary_body :: "exprMethods \<Rightarrow> parser \<Rightarrow> node outcome" where
  "parseUnary_body this s =
     (case currentToken s of
        None \<Rightarrow> m_parsePrimary this s
      | Some opToken \<Rightarrow>
          if tok_value opToken = ''not''
          then andThen (m_parseUnary this (nextToken s))
                 (\<lambda>argument. Normal
                    (UnaryExpression ''not'' argument (Some (tok_start opToken)) (nodeEnd argument)))
          else m_parsePrimary this s)"

definition parsePrimary_body :: "exprMethods \<Rightarrow> parser \<Rightarrow> node outcome" where
  "parsePrimary_body this s =
     (case currentToken s of
        None \<Rightarrow> Thrown (Error ''Unexpected end of input'') s
      | Some t \<Rightarrow>
          if tok_type t = NUMBER then
            Normal (Literal (JNumber (tok_value t)) (tok_value t)
                      (Some (tok_start t)) (Some (tok_end t))) (nextToken s)
          else if tok_type t = STRING then
            (if includesStr ''${'' (tok_value t)
             then Normal (parseTemplateLiteral t) (nextToken s)
             else Normal (Literal (JString (tok_value t)) (tok_value t)
                            (Some (tok_start t)) (Some (tok_end t))) (nextToken s))
          else if tok_value t = ''true'' \<or> tok_value t = ''false'' then
            Normal (Literal (JBool (tok_value t = ''true'')) (tok_value t)
                      (Some (tok_start t)) (Some (tok_end t))) (nextToken s)
          else if tok_value t = ''nil'' then
            Normal (Literal JNull (tok_value t) (Some (tok_start t)) (Some (tok_end t)))
              (nextToken s)
          else if tok_type t = IDENTIFIER then
            (let identifier = Identifier (tok_value t) (Some (tok_start t)) (Some (tok_end t)) in
             if curIs ''('' (nextToken s) then m_parseCallExpression this identifier (nextToken s)
             else if curIs ''.'' (nextToken s) then m_parseMemberExpression this identifier (nextToken s)
             else Normal identifier (nextToken s))
          else if tok_value t = ''('' then
            andThen (m_parseExpression this (nextToken s))
              (\<lambda>expr s'. if \<not> curIs '')'' s'
                 then throwAtCurrent (''Expected '' @ quoted '')'' @ '' at position '') s'
                 else Normal expr (nextToken s'))
          else if tok_value t = ''throw'' then m_parseThrowStatement this s
          else if tok_value t = ''['' then m_parseArrayExpression this s
          else if tok_value t = ''{'' then m_parseObjectExpression this s
          else Thrown (Error (''Unexpected token '' @ quoted (tok_value t) @ '' at position ''
                              @ showNat (tok_start t))) s)"

definition parseCallExpression_body :: "exprMethods \<Rightarrow> node \<Rightarrow> parser \<Rightarrow> node outcome" where
  "parseCallExpression_body this callee s =
     (if \<not> curIs ''('' s
      then throwAtCurrent (''Expected '' @ quoted ''('' @ '' for function call at position '') s
      else andThen
             (if curIsNot '')'' (nextToken s)
              then andThen (m_parseExpression this (nextToken s)) (\<lambda>a. m_parseCommaExpressions this [a])
              else Normal [] (nextToken s))
             (\<lambda>args s'.
                if \<not> curIs '')'' s'
                then throwAtCurrent
                       (''Expected '' @ quoted '')'' @ '' to close function call at position '') s'
                else withToken (currentToken s') ''end'' s'
                       (\<lambda>endToken. Normal
                          (CallExpression callee args (nodeStart callee) (Some (tok_end endToken)))
                          (nextToken s'))))"

definition parseCommaExpressions_body :: "exprMethods \<Rightarrow> node list \<Rightarrow> parser \<Rightarrow> node list outcome" where
  "parseCommaExpressions_body this acc s =
     (if curIs '','' s
      then andThen (m_parseExpression this (nextToken s)) (\<lambda>e. m_parseCommaExpressions this (acc @ [e]))
      else Normal acc s)"

definition parseMemberExpression_body :: "exprMethods \<Rightarrow> node \<Rightarrow> parser \<Rightarrow> node outcome" where
  "parseMemberExpression_body this object s =
     (if \<not> curIs ''.'' s
      then throwAtCurrent (''Expected '' @ quoted ''.'' @ '' for member access at position '') s
      else if \<not> curIsIdentifier (nextToken s)
      then throwAtCurrent (''Expected identifier after '' @ quoted ''.'' @ '' at position '')
             (nextToken s)
      else withToken (currentToken (nextToken s)) ''value'' (nextToken s)
             (\<lambda>t. let property = Identifier (tok_value t) (Some (tok_start t)) (Some (tok_end t));
                      member = MemberExpression object property (nodeStart object) (nodeEnd property);
                      s' = nextToken (nextToken s)
                  in if curIs ''('' s' then m_parseCallExpression this member s' else Normal member s'))"

definition parseArrayExpression_body :: "exprMethods \<Rightarrow> parser \<Rightarrow> node outcome" where
  "parseArrayExpression_body this s =
     (let startToken = currentToken s in
      andThen
        (if curIsNot '']'' (nextToken s)
         then andThen (m_parseExpression this (nextToken s)) (\<lambda>a. m_parseCommaExpressions this [a])
         else Normal [] (nextToken s))
        (\<lambda>elements s'.
           if \<not> curIs '']'' s'
           then throwAtCurrent (''Expected '' @ quoted '']'' @ '' to close array at position '') s'
           else withToken startToken ''start'' (nextToken s')
                  (\<lambda>st. withToken (currentToken s') ''end'' (nextToken s')
                     (\<lambda>endToken. Normal
                        (ArrayExpression elements (Some (tok_start st)) (Some (tok_end endToken)))
                        (nextToken s')))))"

definition parseObjectExpression_body :: "exprMethods \<Rightarrow> parser \<Rightarrow> node outcome" where
  "parseObjectExpression_body this s =
     (let startToken = currentToken s in
      andThen
        (if curIsNot ''}'' (nextToken s)
         then andThen (m_parseObjectProperty this (nextToken s)) (\<lambda>a. m_parseCommaProperties this [a])
         else Normal [] (nextToken s))
        (\<lambda>properties s'.
           if \<not> curIs ''}'' s'
           then throwAtCurrent (''Expected '' @ quoted ''}'' @ '' to close object at position '') s'
           else withToken startToken ''start'' (nextToken s')
                  (\<lambda>st. withToken (currentToken s') ''end'' (nextToken s')
                     (\<lambda>endToken. Normal
                        (ObjectExpression properties (Some (tok_start st)) (Some (tok_end endToken)))
                        (nextToken s')))))"

definition parseCommaProperties_body :: "exprMethods \<Rightarrow> node list \<Rightarrow> parser \<Rightarrow> node list outcome" where
  "parseCommaProperties_body this acc s =
     (if curIs '','' s
      then andThen (m_parseObjectProperty this (nextToken s)) (\<lambda>e. m_parseCommaProperties this (acc @ [e]))
      else Normal acc s)"

definition parseObjectProperty_body :: "exprMethods \<Rightarrow> parser \<Rightarrow> node outcome" where
  "parseObjectProperty_body this s =
     (case currentToken s of
        None \<Rightarrow> Thrown (TypeError ''start'') s
      | Some key \<Rightarrow>
          if tok_type key \<noteq> STRING
          then Thrown (Error (''Expected string key for object property at position ''
                              @ showNat (tok_start key))) s
          else if \<not> curIs '':'' (nextToken s)
          then throwAtCurrent
                 (''Expected '' @ quoted '':'' @ '' after object property key at position '')
                 (nextToken s)
          else andThen (m_parseExpression this (nextToken (nextToken s)))
                 (\<lambda>v. Normal (Property key v (Some (tok_start key)) (nodeEnd v))))"

definition parseThrowStatement_body :: "exprMethods \<Rightarrow> parser \<Rightarrow> node outcome" where
  "parseThrowStatement_body this s =
     (let startToken = currentToken s in
      andThen
        (if curIsNot '';'' (nextToken s) \<and> curIsNot ''}'' (nextToken s)
            \<and> curIsNot [CHR 0x0A] (nextToken s)
         then andThen (m_parseExpression this (nextToken s)) (\<lambda>a. Normal (Some a))
         else Normal None (nextToken s))
        (\<lambda>argument s'.
           let s'' = (if curIs '';'' s' then nextToken s' else s') in
           withToken startToken ''start'' s''
             (\<lambda>st. Normal
                (ThrowStatement argument (Some (tok_start st))
                   (case argument of Some a \<Rightarrow> nodeEnd a | None \<Rightarrow> Some (tok_end st + 5)))
                s'')))"

primrec exprMethodsAt :: "nat \<Rightarrow> exprMethods" where
  "exprMethodsAt 0 = \<lparr>
     m_parseExpression = (\<lambda>_. OutOfFuel),
     m_parseLogicalOr = (\<lambda>_. OutOfFuel),
     m_parseLogicalOrLoop = (\<lambda>_ _. OutOfFuel),
     m_parseLogicalAnd = (\<lambda>_. OutOfFuel),
     m_parseLogicalAndLoop = (\<lambda>_ _. OutOfFuel),
     m_parseEquality = (\<lambda>_. OutOfFuel),
     m_parseEqualityLoop = (\<lambda>_ _. OutOfFuel),
     m_parseRelational = (\<lambda>_. OutOfFuel),
     m_parseRelationalLoop = (\<lambda>_ _. OutOfFuel),
     m_parseAdditive = (\<lambda>_. OutOfFuel),
     m_parseAdditiveLoop = (\<lambda>_ _. OutOfFuel),
     m_parseMultiplicative = (\<lambda>_. OutOfFuel),
     m_parseMultiplicativeLoop = (\<lambda>_ _. OutOfFuel),
     m_parseUnary = (\<lambda>_. OutOfFuel),
     m_parsePrimary = (\<lambda>_. OutOfFuel),
     m_parseCallExpression = (\<lambda>_ _. OutOfFuel),
     m_parseCommaExpressions = (\<lambda>_ _. OutOfFuel),
     m_parseMemberExpression = (\<lambda>_ _. OutOfFuel),
     m_parseArrayExpression = (\<lambda>_. OutOfFuel),
     m_parseObjectExpression = (\<lambda>_. OutOfFuel),
     m_parseCommaProperties = (\<lambda>_ _. OutOfFuel),
     m_parseObjectProperty = (\<lambda>_. OutOfFuel),
     m_parseThrowStatement = (\<lambda>_. OutOfFuel)\<rparr>"
| "exprMethodsAt (Suc n) = (let this = exprMethodsAt n in \<lparr>
     m_parseExpression = parseExpression_body this,
     m_parseLogicalOr = parseLogicalOr_body this,
     m_parseLogicalOrLoop = parseLogicalOrLoop_body this,
     m_parseLogicalAnd = parseLogicalAnd_body this,
     m_parseLogicalAndLoop = parseLogicalAndLoop_body this,
     m_parseEquality = parseEquality_body this,
     m_parseEqualityLoop = parseEqualityLoop_body this,
     m_parseRelational = parseRelational_body this,
     m_parseRelationalLoop = parseRelationalLoop_body this,
     m_parseAdditive = parseAdditive_body this,
     m_parseAdditiveLoop = parseAdditiveLoop_body this,
     m_parseMultiplicative = parseMultiplicative_body this,
     m_parseMultiplicativeLoop = parseMultiplicativeLoop_body this,
     m_parseUnary = parseUnary_body this,
     m_parsePrimary = parsePrimary_body this,
     m_parseCallExpression = parseCallExpression_body this,
     m_parseCommaExpressions = parseCommaExpressions_body this,
     m_parseMemberExpression = parseMemberExpression_body this,
     m_parseArrayExpression = parseArrayExpression_body this,
     m_parseObjectExpression = parseObjectExpression_body this,
     m_parseCommaProperties = parseCommaProperties_body this,
     m_parseObjectProperty = parseObjectProperty_body this,
     m_parseThrowStatement = parseThrowStatement_body this\<rparr>)"

declare exprMethodsAt.simps [simp del]

definition parseExpression :: "nat \<Rightarrow> parser \<Rightarrow> node outcome" where
  "parseExpression n = m_parseExpression (exprMethodsAt n)"

definition parseLogicalOr :: "nat \<Rightarrow> parser \<Rightarrow> node outcome" where
  "parseLogicalOr n = m_parseLogicalOr (exprMethodsAt n)"

definition parseLogicalOrLoop :: "nat \<Rightarrow> node \<Rightarrow> parser \<Rightarrow> node outcome" where
  "parseLogicalOrLoop n = m_parseLogicalOrLoop (exprMethodsAt n)"

definition parseLogicalAnd :: "nat \<Rightarrow> parser \<Rightarrow> node outcome" where
  "parseLogicalAnd n = m_parseLogicalAnd (exprMethodsAt n)"

definition parseLogicalAndLoop :: "nat \<Rightarrow> node \<Rightarrow> parser \<Rightarrow> node outcome" where
  "parseLogicalAndLoop n = m_parseLogicalAndLoop (exprMethodsAt n)"

definition parseEquality :: "nat \<Rightarrow> parser \<Rightarrow> node outcome" where
  "parseEquality n = m_parseEquality (exprMethodsAt n)"

definition parseEqualityLoop :: "nat \<Rightarrow> node \<Rightarrow> parser \<Rightarrow> node outcome" where
  "parseEqualityLoop n = m_parseEqualityLoop (exprMethodsAt n)"

definition parseRelational :: "nat \<Rightarrow> parser \<Rightarrow> node outcome" where
  "parseRelational n = m_parseRelational (exprMethodsAt n)"

definition parseRelationalLoop :: "nat \<Rightarrow> node \<Rightarrow> parser \<Rightarrow> node outcome" where
  "parseRelationalLoop n = m_parseRelationalLoop (exprMethodsAt n)"

definition parseAdditive :: "nat \<Rightarrow> parser \<Rightarrow> node outcome" where
  "parseAdditive n = m_parseAdditive (exprMethodsAt n)"

definition parseAdditiveLoop :: "nat \<Rightarrow> node \<Rightarrow> parser \<Rightarrow> node outcome" where
  "parseAdditiveLoop n = m_parseAdditiveLoop (exprMethodsAt n)"

definition parseMultiplicative :: "nat \<Rightarrow> parser \<Rightarrow> node outcome" where
  "parseMultiplicative n = m_parseMultiplicative (exprMethodsAt n)"

definition parseMultiplicativeLoop :: "nat \<Rightarrow> node \<Rightarrow> parser \<Rightarrow> node outcome" where
  "parseMultiplicativeLoop n = m_parseMultiplicativeLoop (exprMethodsAt n)"

definition parseUnary :: "nat \<Rightarrow> parser \<Rightarrow> node outcome" where
  "parseUnary n = m_parseUnary (exprMethodsAt n)"

definition parsePrimary :: "nat \<Rightarrow> parser \<Rightarrow> node outcome" where
  "parsePrimary n = m_parsePrimary (exprMethodsAt n)"

definition parseCallExpression :: "nat \<Rightarrow> node \<Rightarrow> parser \<Rightarrow> node outcome" where
  "parseCallExpression n = m_parseCallExpression (exprMethodsAt n)"

definition parseCommaExpressions :: "nat \<Rightarrow> node list \<Rightarrow> parser \<Rightarrow> node list outcome" where
  "parseCommaExpressions n = m_parseCommaExpressions (exprMethodsAt n)"

definition parseMemberExpression :: "nat \<Rightarrow> node \<Rightarrow> parser \<Rightarrow> node outcome" where
  "parseMemberExpression n = m_parseMemberExpression (exprMethodsAt n)"

definition parseArrayExpression :: "nat \<Rightarrow> parser \<Rightarrow> node outcome" where
  "parseArrayExpression n = m_parseArrayExpression (exprMethodsAt n)"

definition parseObjectExpression :: "nat \<Rightarrow> parser \<Rightarrow> node outcome" where
  "parseObjectExpression n = m_parseObjectExpression (exprMethodsAt n)"

definition parseCommaProperties :: "nat \<Rightarrow> node list \<Rightarrow> parser \<Rightarrow> node list outcome" where
  "parseCommaProperties n = m_parseCommaProperties (exprMethodsAt n)"

definition parseObjectProperty :: "nat \<Rightarrow> parser \<Rightarrow> node outcome" where
  "parseObjectProperty n = m_parseObjectProperty (exprMethodsAt n)"

definition parseThrowStatement :: "nat \<Rightarrow> parser \<Rightarrow> node outcome" where
  "parseThrowStatement n = m_parseThrowStatement (exprMethodsAt n)"

section \<open>Statements\<close>

definition someNode :: "node outcome \<Rightarrow> node option outcome" where
  "someNode r = andThen r (\<lambda>v. Normal (Some v))"

text \<open>\<^verbatim>\<open>try { r } catch (e) { h }\<close>\<close>

definition catchError :: "'a outcome \<Rightarrow> (jsError \<Rightarrow> parser \<Rightarrow> 'a outcome) \<Rightarrow> 'a outcome" where
  "catchError r h = (case r of Thrown e s \<Rightarrow> h e s | Normal v s \<Rightarrow> Normal v s | OutOfFuel \<Rightarrow> OutOfFuel)"

text \<open>\<^verbatim>\<open>this.currentToken() ? this.currentToken().start : this.tokens.length - 1\<close>.
  (With an empty token list JavaScript gives -1 where this gives 0; the methods that
  compute it are entered on a current token only.)\<close>

definition errorPos :: "parser \<Rightarrow> nat" where
  "errorPos s = (case currentToken s of Some t \<Rightarrow> tok_start t | None \<Rightarrow> length (tokens s) - 1)"

text \<open>\<^verbatim>\<open>this.currentToken() ? this.currentToken().end : dflt\<close>\<close>

definition curEndOr :: "parser \<Rightarrow> nat option \<Rightarrow> nat option" where
  "curEndOr s dflt = (case currentToken s of Some t \<Rightarrow> Some (tok_end t) | None \<Rightarrow> dflt)"

text \<open>
  The closing parenthesis of a condition, as \<^verbatim>\<open>parseIfStatement\<close>,
  \<^verbatim>\<open>parseWhileStatement\<close> and \<^verbatim>\<open>parseMatchStatement\<close> each spell it out: skip it when
  it is there; otherwise record \<open>msg\<close>, skip tokens up to one of \<open>stops\<close>, and skip the
  parenthesis if that is where the skipping stopped.
\<close>

definition expectCloseParen :: "string \<Rightarrow> string list \<Rightarrow> parser \<Rightarrow> parser" where
  "expectCloseParen msg stops s =
     (if \<not> curIs '')'' s
      then (let s' = skipWhile (\<lambda>t. tok_value t \<notin> set stops)
                       (addError msg (errorPos s) (errorPos s + 1) s)
            in if curIs '')'' s' then nextToken s' else s')
      else nextToken s)"

definition parseVariableDeclaration :: "nat \<Rightarrow> parser \<Rightarrow> node outcome" where
  "parseVariableDeclaration n s =
     withToken (currentToken s) ''value'' s (\<lambda>startToken.
       andThen
         (if tok_value startToken = ''static''
          then (if curIsNot ''var'' (nextToken s)
                then throwAtCurrent (''Expected '' @ quoted ''var'' @ '' after '' @ quoted ''static''
                                     @ '' at position '') (nextToken s)
                else Normal True (nextToken (nextToken s)))
          else Normal False (nextToken s))
         (\<lambda>isStatic s1.
            andThen
              (case currentToken s1 of
                 None \<Rightarrow> Normal None s1
               | Some t \<Rightarrow> if isTypeKeyword (tok_value t)
                           then Normal (Some (tok_value t)) (nextToken s1)
                           else Normal None s1)
              (\<lambda>declaredType s2.
                 if \<not> curIsIdentifier s2
                 then throwAtCurrent ''Expected identifier at position '' s2
                 else withToken (currentToken s2) ''value'' s2 (\<lambda>nameToken.
                   andThen
                     (if curIs ''='' (nextToken s2)
                      then someNode (parseExpression n (nextToken (nextToken s2)))
                      else Normal None (nextToken s2))
                     (\<lambda>init s3.
                        if curIs '';'' s3
                        then Normal
                               (VariableDeclaration declaredType (tok_value nameToken) init isStatic
                                  (Some (tok_start startToken))
                                  (case currentToken (nextToken s3) of
                                     Some t \<Rightarrow> Some (tok_start t)
                                   | None \<Rightarrow> Some (tok_end nameToken + 1)))
                               (nextToken s3)
                        else Normal
                               (VariableDeclaration declaredType (tok_value nameToken) init isStatic
                                  (Some (tok_start startToken)) (Some (tok_end nameToken)))
                               (addError ''Missing semicolon at end of variable declaration''
                                  (tok_end nameToken) (findEndOfLine s3 (tok_end nameToken)) s3))))))"

text \<open>\<^verbatim>\<open>x + 1\<close> on a \<^verbatim>\<open>start\<close> or \<^verbatim>\<open>end\<close> field (not a number when the field is
  \<^verbatim>\<open>undefined\<close>).\<close>

definition plusOne :: "nat option \<Rightarrow> nat option" where
  "plusOne x = map_option (\<lambda>e. e + 1) x"

definition parseAssignmentExpression :: "nat \<Rightarrow> node \<Rightarrow> parser \<Rightarrow> node outcome" where
  "parseAssignmentExpression n left s =
     (if \<not> curIs ''='' s
      then throwAtCurrent (''Expected '' @ quoted ''='' @ '' in assignment at position '') s
      else andThen (parseExpression n (nextToken s))
             (\<lambda>right s1.
                if curIs '';'' s1
                then Normal
                       (AssignmentExpression left right (nodeStart left)
                          (case currentToken (nextToken s1) of
                             Some t \<Rightarrow> Some (tok_start t)
                           | None \<Rightarrow> plusOne (nodeEnd right)))
                       (nextToken s1)
                else Normal (AssignmentExpression left right (nodeStart left) (nodeEnd right)) s1))"

fun isIdentifierNode :: "node \<Rightarrow> bool" where
  "isIdentifierNode (Identifier _ _ _) = True"
| "isIdentifierNode _ = False"

definition parseExpressionStatement :: "nat \<Rightarrow> parser \<Rightarrow> node outcome" where
  "parseExpressionStatement n s =
     andThen (parseExpression n s)
       (\<lambda>expr s1.
          if isIdentifierNode expr \<and> curIs ''='' s1 then parseAssignmentExpression n expr s1
          else if curIs '';'' s1
          then Normal
                 (ExpressionStatement expr (nodeStart expr)
                    (case currentToken (nextToken s1) of
                       Some t \<Rightarrow> Some (tok_start t)
                     | None \<Rightarrow> plusOne (nodeEnd expr)))
                 (nextToken s1)
          else Normal (ExpressionStatement expr (nodeStart expr) (nodeEnd expr)) s1)"

definition parseReturnStatement :: "nat \<Rightarrow> parser \<Rightarrow> node outcome" where
  "parseReturnStatement n s =
     (let startToken = currentToken s in
      andThen
        (if curIsNot '';'' (nextToken s) \<and> curIsNot ''}'' (nextToken s)
            \<and> curIsNot [CHR 0x0A] (nextToken s)
         then someNode (parseExpression n (nextToken s))
         else Normal None (nextToken s))
        (\<lambda>argument s'.
           let s'' = (if curIs '';'' s' then nextToken s' else s') in
           withToken startToken ''start'' s''
             (\<lambda>st. Normal
                (ReturnStatement argument (Some (tok_start st))
                   (case argument of Some a \<Rightarrow> nodeEnd a | None \<Rightarrow> Some (tok_end st + 6)))
                s'')))"

text \<open>The parameter loop of \<^verbatim>\<open>parseFunctionDeclaration\<close>:
  \<^verbatim>\<open>while (current is ',') { nextToken(); if (current is an identifier) { push; nextToken() } }\<close>\<close>

function parseParamsLoop :: "string list \<Rightarrow> parser \<Rightarrow> string list \<times> parser" where
  "parseParamsLoop params s =
     (case currentToken s of
        None \<Rightarrow> (params, s)
      | Some t \<Rightarrow>
          if tok_value t = '',''
          then (case currentToken (nextToken s) of
                  None \<Rightarrow> parseParamsLoop params (nextToken s)
                | Some p \<Rightarrow>
                    if tok_type p = IDENTIFIER
                    then parseParamsLoop (params @ [tok_value p]) (nextToken (nextToken s))
                    else parseParamsLoop params (nextToken s))
          else (params, s))"
  by pat_completeness auto
termination
  by (relation "measure (\<lambda>(params, s). length (tokens s) - position s)")
     (auto simp: currentToken_def nextToken_def split: if_splits)

declare parseParamsLoop.simps [simp del]

text \<open>
  The statement-parsing methods, which call one another through \<^verbatim>\<open>parseStatement\<close> and
  \<^verbatim>\<open>parseBlock\<close>. As for expressions, \<open>this\<close> holds the methods with one unit of fuel
  less, and \<open>n\<close> is the fuel left for the expression parser.
\<close>

record stmtMethods =
  m_parseStatement :: "parser \<Rightarrow> node option outcome"
  m_parseBlock :: "parser \<Rightarrow> node outcome"
  m_parseBlockLoop :: "node option list \<Rightarrow> parser \<Rightarrow> node option list outcome"
  m_parseIfStatement :: "parser \<Rightarrow> node outcome"
  m_parseWhileStatement :: "parser \<Rightarrow> node outcome"
  m_parseForStatement :: "parser \<Rightarrow> node outcome"
  m_parseFunctionDeclaration :: "parser \<Rightarrow> node outcome"
  m_parseClassDeclaration :: "parser \<Rightarrow> node outcome"
  m_parseDoWhileStatement :: "parser \<Rightarrow> node outcome"
  m_parseMatchStatement :: "parser \<Rightarrow> node outcome"
  m_parseMatchLoop :: "node list \<Rightarrow> parser \<Rightarrow> node list outcome"
  m_parseMatchCase :: "parser \<Rightarrow> node outcome"
  m_parseMatchDefault :: "parser \<Rightarrow> node outcome"
  m_parseRetryStatement :: "parser \<Rightarrow> node outcome"
  m_parseTryStatement :: "parser \<Rightarrow> node outcome"
  m_parseCatchClause :: "parser \<Rightarrow> node outcome"
  m_parseFinallyClause :: "parser \<Rightarrow> node outcome"

definition parseStatement_body :: "nat \<Rightarrow> stmtMethods \<Rightarrow> parser \<Rightarrow> node option outcome" where
  "parseStatement_body n this s =
     (case currentToken s of
        None \<Rightarrow> Normal None s
      | Some t \<Rightarrow>
          catchError
            (if tok_value t = ''static'' \<or> tok_value t = ''var''
               then someNode (parseVariableDeclaration n s)
             else if tok_value t = ''if'' then someNode (m_parseIfStatement this s)
             else if tok_value t = ''while'' then someNode (m_parseWhileStatement this s)
             else if tok_value t = ''do'' then someNode (m_parseDoWhileStatement this s)
             else if tok_value t = ''for'' then someNode (m_parseForStatement this s)
             else if tok_value t = ''fun'' then someNode (m_parseFunctionDeclaration this s)
             else if tok_value t = ''class'' then someNode (m_parseClassDeclaration this s)
             else if tok_value t = ''return'' then someNode (parseReturnStatement n s)
             else if tok_value t = ''match'' then someNode (m_parseMatchStatement this s)
             else if tok_value t = ''retry'' then someNode (m_parseRetryStatement this s)
             else if tok_value t = ''try'' then someNode (m_parseTryStatement this s)
             else if tok_type t = IDENTIFIER then someNode (parseExpressionStatement n s)
             else Normal None (skipToNextStatement s))
            (\<lambda>e s'. Normal None
               (skipToNextStatement (addError (message e) (tok_start t) (tok_end t) s'))))"

definition parseBlock_body :: "nat \<Rightarrow> stmtMethods \<Rightarrow> parser \<Rightarrow> node outcome" where
  "parseBlock_body n this s =
     (if curIs ''{'' s
      then andThen (m_parseBlockLoop this [] (nextToken s))
             (\<lambda>body s'. Normal (BlockStatement body)
                (if currentToken s' \<noteq> None then nextToken s' else s'))
      else andThen (m_parseStatement this s) (\<lambda>stmt. Normal (BlockStatement [stmt])))"

definition parseBlockLoop_body ::
  "nat \<Rightarrow> stmtMethods \<Rightarrow> node option list \<Rightarrow> parser \<Rightarrow> node option list outcome" where
  "parseBlockLoop_body n this body s =
     (if position s < length (tokens s) \<and> curIsNot ''}'' s
      then andThen (m_parseStatement this s)
             (\<lambda>stmt. m_parseBlockLoop this
                (case stmt of Some x \<Rightarrow> body @ [Some x] | None \<Rightarrow> body))
      else Normal body s)"

definition parseIfStatement_body :: "nat \<Rightarrow> stmtMethods \<Rightarrow> parser \<Rightarrow> node outcome" where
  "parseIfStatement_body n this s =
     (let startToken = currentToken s in
      andThen
        (if \<not> curIs ''('' (nextToken s)
         then (let s1 = skipWhile
                          (\<lambda>t. tok_value t \<noteq> ''('' \<and> tok_value t \<noteq> ''{'' \<and> tok_value t \<noteq> '';'')
                          (addError (''Expected '' @ quoted ''('' @ '' after '' @ quoted ''if'')
                             (errorPos (nextToken s)) (errorPos (nextToken s) + 1) (nextToken s))
               in if currentToken s1 = None
                  then withToken startToken ''start'' s1
                         (\<lambda>st. Normal
                            (Some (IfStatement None None None (Some (tok_start st)) (Some (tok_end st))))
                            s1)
                  else Normal None s1)
         else Normal None (nextToken s))
        (\<lambda>early s1.
           case early of
             Some result \<Rightarrow> Normal result s1
           | None \<Rightarrow>
               andThen (parseExpression n (nextToken s1))
                 (\<lambda>test s2.
                    andThen
                      (m_parseBlock this
                         (expectCloseParen (''Expected '' @ quoted '')'' @ '' after if condition'')
                            ['')'', ''{'', '';''] s2))
                      (\<lambda>consequent s3.
                         andThen
                           (if curIs ''else'' s3
                            then (if curIs ''if'' (nextToken s3)
                                  then someNode (m_parseIfStatement this (nextToken s3))
                                  else someNode (m_parseBlock this (nextToken s3)))
                            else Normal None s3)
                           (\<lambda>alternate s4.
                              withToken startToken ''start'' s4
                                (\<lambda>st. Normal
                                   (IfStatement (Some test) (Some consequent) alternate
                                      (Some (tok_start st)) (curEndOr s4 (nodeEnd consequent)))
                                   s4))))))"

definition parseWhileStatement_body :: "nat \<Rightarrow> stmtMethods \<Rightarrow> parser \<Rightarrow> node outcome" where
  "parseWhileStatement_body n this s =
     (let startToken = currentToken s in
      andThen
        (if \<not> curIs ''('' (nextToken s)
         then (let s1 = skipWhile
                          (\<lambda>t. tok_value t \<noteq> ''('' \<and> tok_value t \<noteq> ''{'' \<and> tok_value t \<noteq> '';'')
                          (addError (''Expected '' @ quoted ''('' @ '' after '' @ quoted ''while'')
                             (errorPos (nextToken s)) (errorPos (nextToken s) + 1) (nextToken s))
               in if currentToken s1 = None
                  then withToken startToken ''start'' s1
                         (\<lambda>st. Normal
                            (Some (WhileStatement None None (Some (tok_start st)) (Some (tok_end st))))
                            s1)
                  else Normal None s1)
         else Normal None (nextToken s))
        (\<lambda>early s1.
           case early of
             Some result \<Rightarrow> Normal result s1
           | None \<Rightarrow>
               andThen (parseExpression n (nextToken s1))
                 (\<lambda>test s2.
                    andThen
                      (m_parseBlock this
                         (expectCloseParen (''Expected '' @ quoted '')'' @ '' after while condition'')
                            ['')'', ''{'', '';''] s2))
                      (\<lambda>body s3.
                         withToken startToken ''start'' s3
                           (\<lambda>st. Normal
                              (WhileStatement (Some test) (Some body)
                                 (Some (tok_start st)) (curEndOr s3 (nodeEnd body)))
                              s3)))))"

text \<open>A clause of the \<^verbatim>\<open>for\<close> header: \<^verbatim>\<open>if (this.currentToken().value !== stop) ...\<close>,
  which reads \<^verbatim>\<open>value\<close> without testing for a token.\<close>

definition forClause :: "string \<Rightarrow> parser \<Rightarrow> (parser \<Rightarrow> node outcome) \<Rightarrow> node option outcome" where
  "forClause stop s k =
     withToken (currentToken s) ''value'' s
       (\<lambda>t. if tok_value t \<noteq> stop then someNode (k s) else Normal None s)"

definition parseForStatement_body :: "nat \<Rightarrow> stmtMethods \<Rightarrow> parser \<Rightarrow> node outcome" where
  "parseForStatement_body n this s =
     (let startToken = currentToken s in
      if \<not> curIs ''('' (nextToken s)
      then throwAtCurrent (''Expected '' @ quoted ''('' @ '' after '' @ quoted ''for'' @ '' at position '')
             (nextToken s)
      else
        andThen
          (forClause '';'' (nextToken (nextToken s))
             (\<lambda>s'. if curIs ''var'' s' then parseVariableDeclaration n s' else parseExpression n s'))
          (\<lambda>init s1.
             if \<not> curIs '';'' s1
             then throwAtCurrent (''Expected '' @ quoted '';'' @ '' after for init at position '') s1
             else
               andThen (forClause '';'' (nextToken s1) (parseExpression n))
                 (\<lambda>test s2.
                    if \<not> curIs '';'' s2
                    then throwAtCurrent
                           (''Expected '' @ quoted '';'' @ '' after for test at position '') s2
                    else
                      andThen (forClause '')'' (nextToken s2) (parseExpression n))
                        (\<lambda>update s3.
                           if \<not> curIs '')'' s3
                           then throwAtCurrent
                                  (''Expected '' @ quoted '')'' @ '' after for update at position '') s3
                           else
                             andThen (m_parseBlock this (nextToken s3))
                               (\<lambda>body s4.
                                  withToken startToken ''start'' s4
                                    (\<lambda>st. Normal
                                       (ForStatement init test update body (Some (tok_start st))
                                          (curEndOr s4 (Some (tok_end st))))
                                       s4))))))"

definition parseFunctionDeclaration_body :: "nat \<Rightarrow> stmtMethods \<Rightarrow> parser \<Rightarrow> node outcome" where
  "parseFunctionDeclaration_body n this s =
     (let startToken = currentToken s in
      if \<not> curIsIdentifier (nextToken s)
      then throwAtCurrent (''Expected function name after '' @ quoted ''fun'' @ '' at position '')
             (nextToken s)
      else withToken (currentToken (nextToken s)) ''value'' (nextToken s) (\<lambda>nameToken.
        if \<not> curIs ''('' (nextToken (nextToken s))
        then throwAtCurrent (''Expected '' @ quoted ''('' @ '' after function name at position '')
               (nextToken (nextToken s))
        else
          (let s1 = nextToken (nextToken (nextToken s));
               (params, s2) =
                 (if curIsNot '')'' s1
                  then (case currentToken s1 of
                          None \<Rightarrow> parseParamsLoop [] s1
                        | Some p \<Rightarrow>
                            if tok_type p = IDENTIFIER
                            then parseParamsLoop [tok_value p] (nextToken s1)
                            else parseParamsLoop [] s1)
                  else ([], s1))
           in if \<not> curIs '')'' s2
              then throwAtCurrent
                     (''Expected '' @ quoted '')'' @ '' after function parameters at position '') s2
              else
                andThen (m_parseBlock this (nextToken s2))
                  (\<lambda>body s3.
                     withToken startToken ''start'' s3
                       (\<lambda>st. Normal
                          (FunctionDeclaration
                             (Identifier (tok_value nameToken)
                                (Some (tok_start nameToken)) (Some (tok_end nameToken)))
                             params body (Some (tok_start st)) (curEndOr s3 (Some (tok_end st))))
                          s3)))))"

definition parseClassDeclaration_body :: "nat \<Rightarrow> stmtMethods \<Rightarrow> parser \<Rightarrow> node outcome" where
  "parseClassDeclaration_body n this s =
     (let startToken = currentToken s in
      if \<not> curIsIdentifier (nextToken s)
      then throwAtCurrent (''Expected class name after '' @ quoted ''class'' @ '' at position '')
             (nextToken s)
      else withToken (currentToken (nextToken s)) ''value'' (nextToken s) (\<lambda>nameToken.
        if \<not> curIs ''{'' (nextToken (nextToken s))
        then throwAtCurrent (''Expected '' @ quoted ''{'' @ '' to start class body at position '')
               (nextToken (nextToken s))
        else
          andThen (m_parseBlock this (nextToken (nextToken s)))
            (\<lambda>body s1.
               withToken startToken ''start'' s1
                 (\<lambda>st. Normal
                    (ClassDeclaration
                       (Identifier (tok_value nameToken)
                          (Some (tok_start nameToken)) (Some (tok_end nameToken)))
                       body (Some (tok_start st)) (curEndOr s1 (Some (tok_end st))))
                    s1))))"

definition parseDoWhileStatement_body :: "nat \<Rightarrow> stmtMethods \<Rightarrow> parser \<Rightarrow> node outcome" where
  "parseDoWhileStatement_body n this s =
     (let startToken = currentToken s in
      andThen (m_parseBlock this (nextToken s))
        (\<lambda>body s1.
           if \<not> curIs ''while'' s1
           then throwAtCurrent (''Expected '' @ quoted ''while'' @ '' after '' @ quoted ''do''
                                @ '' block at position '') s1
           else if \<not> curIs ''('' (nextToken s1)
           then throwAtCurrent (''Expected '' @ quoted ''('' @ '' after '' @ quoted ''while''
                                @ '' in do-while at position '') (nextToken s1)
           else
             andThen (parseExpression n (nextToken (nextToken s1)))
               (\<lambda>test s2.
                  if \<not> curIs '')'' s2
                  then throwAtCurrent
                         (''Expected '' @ quoted '')'' @ '' after while condition at position '') s2
                  else
                    (let s3 = (if curIs '';'' (nextToken s2)
                               then nextToken (nextToken s2) else nextToken s2)
                     in withToken startToken ''start'' s3
                          (\<lambda>st. Normal
                             (DoWhileStatement test body (Some (tok_start st))
                                (curEndOr s3 (Some (tok_end st))))
                             s3)))))"

definition parseMatchStatement_body :: "nat \<Rightarrow> stmtMethods \<Rightarrow> parser \<Rightarrow> node outcome" where
  "parseMatchStatement_body n this s =
     (let startToken = currentToken s in
      andThen
        (if \<not> curIs ''('' (nextToken s)
         then (let s1 = skipWhile (\<lambda>t. tok_value t \<noteq> ''('' \<and> tok_value t \<noteq> ''{'')
                          (addError (''Expected '' @ quoted ''('' @ '' after '' @ quoted ''match'')
                             (errorPos (nextToken s)) (errorPos (nextToken s) + 1) (nextToken s))
               in if currentToken s1 = None
                  then withToken startToken ''start'' s1
                         (\<lambda>st. Normal
                            (Some (MatchStatement None [] (Some (tok_start st)) (Some (tok_end st))))
                            s1)
                  else Normal None s1)
         else Normal None (nextToken s))
        (\<lambda>early s1.
           case early of
             Some result \<Rightarrow> Normal result s1
           | None \<Rightarrow>
               andThen (parseExpression n (nextToken s1))
                 (\<lambda>discriminant s2.
                    let s3 = expectCloseParen
                               (''Expected '' @ quoted '')'' @ '' after match expression'')
                               ['')'', ''{''] s2
                    in
                    andThen
                      (if \<not> curIs ''{'' s3
                       then (let s4 = skipWhile (\<lambda>t. tok_value t \<noteq> ''{'')
                                        (addError (''Expected '' @ quoted ''{'' @ '' to start match body'')
                                           (errorPos s3) (errorPos s3 + 1) s3)
                             in if currentToken s4 = None
                                then withToken startToken ''start'' s4
                                       (\<lambda>st. Normal
                                          (Some (MatchStatement (Some discriminant) []
                                                   (Some (tok_start st)) (Some (tok_end st))))
                                          s4)
                                else Normal None s4)
                       else Normal None s3)
                      (\<lambda>early2 s4.
                         case early2 of
                           Some result \<Rightarrow> Normal result s4
                         | None \<Rightarrow>
                             andThen (m_parseMatchLoop this [] (nextToken s4))
                               (\<lambda>cases s5.
                                  let s6 = (if \<not> curIs ''}'' s5
                                            then addError
                                                   (''Expected '' @ quoted ''}'' @ '' to end match statement'')
                                                   (errorPos s5) (errorPos s5 + 1) s5
                                            else nextToken s5)
                                  in withToken startToken ''start'' s6
                                       (\<lambda>st. Normal
                                          (MatchStatement (Some discriminant) cases
                                             (Some (tok_start st))
                                             (curEndOr s6
                                                (if length (tokens s6) > 0
                                                 then Some (tok_end (tokens s6 ! (length (tokens s6) - 1)))
                                                 else Some (tok_end st))))
                                          s6))))))"

definition parseMatchLoop_body ::
  "nat \<Rightarrow> stmtMethods \<Rightarrow> node list \<Rightarrow> parser \<Rightarrow> node list outcome" where
  "parseMatchLoop_body n this cases s =
     (case currentToken s of
        None \<Rightarrow> Normal cases s
      | Some t \<Rightarrow>
          if tok_value t = ''}'' then Normal cases s
          else if tok_value t = ''case''
          then andThen (m_parseMatchCase this s) (\<lambda>c. m_parseMatchLoop this (cases @ [c]))
          else if tok_value t = ''default''
          then andThen (m_parseMatchDefault this s) (\<lambda>c. m_parseMatchLoop this (cases @ [c]))
          else
            (let s1 = skipWhile
                        (\<lambda>t. tok_value t \<noteq> ''case'' \<and> tok_value t \<noteq> ''default''
                              \<and> tok_value t \<noteq> ''}'')
                        (addError (''Expected '' @ quoted ''case'' @ '' or '' @ quoted ''default''
                                   @ '' in match statement'')
                           (tok_start t) (tok_start t + 1) s)
             in if curIs ''case'' s1
                then andThen (m_parseMatchCase this s1) (\<lambda>c. m_parseMatchLoop this (cases @ [c]))
                else if curIs ''default'' s1
                then andThen (m_parseMatchDefault this s1) (\<lambda>c. m_parseMatchLoop this (cases @ [c]))
                else m_parseMatchLoop this cases s1))"

text \<open>The consequent of a match arm: a block after \<^verbatim>\<open>{\<close>, a statement otherwise; a
  \<^verbatim>\<open>null\<close> statement makes \<^verbatim>\<open>consequent.end\<close> raise.\<close>

definition parseMatchCase_body :: "nat \<Rightarrow> stmtMethods \<Rightarrow> parser \<Rightarrow> node outcome" where
  "parseMatchCase_body n this s =
     (let startToken = currentToken s in
      andThen (parseExpression n (nextToken s))
        (\<lambda>test s1.
           if \<not> curIs ''=>'' s1
           then throwAtCurrent (''Expected '' @ quoted ''=>'' @ '' after match case at position '') s1
           else
             andThen
               (if curIs ''{'' (nextToken s1)
                then someNode (m_parseBlock this (nextToken s1))
                else m_parseStatement this (nextToken s1))
               (\<lambda>consequent s2.
                  withToken startToken ''start'' s2
                    (\<lambda>st. case consequent of
                            None \<Rightarrow> Thrown (TypeError ''end'') s2
                          | Some c \<Rightarrow>
                              Normal (MatchCase test c (Some (tok_start st)) (nodeEnd c)) s2))))"

definition parseMatchDefault_body :: "nat \<Rightarrow> stmtMethods \<Rightarrow> parser \<Rightarrow> node outcome" where
  "parseMatchDefault_body n this s =
     (let startToken = currentToken s in
      if \<not> curIs ''=>'' (nextToken s)
      then throwAtCurrent (''Expected '' @ quoted ''=>'' @ '' after '' @ quoted ''default''
                           @ '' in match statement at position '') (nextToken s)
      else
        andThen
          (if curIs ''{'' (nextToken (nextToken s))
           then someNode (m_parseBlock this (nextToken (nextToken s)))
           else m_parseStatement this (nextToken (nextToken s)))
          (\<lambda>consequent s2.
             withToken startToken ''start'' s2
               (\<lambda>st. case consequent of
                       None \<Rightarrow> Thrown (TypeError ''end'') s2
                     | Some c \<Rightarrow> Normal (MatchDefault c (Some (tok_start st)) (nodeEnd c)) s2)))"

definition parseRetryStatement_body :: "nat \<Rightarrow> stmtMethods \<Rightarrow> parser \<Rightarrow> node outcome" where
  "parseRetryStatement_body n this s =
     (let startToken = currentToken s in
      if \<not> curIs ''('' (nextToken s)
      then throwAtCurrent (''Expected '' @ quoted ''('' @ '' after '' @ quoted ''retry''
                           @ '' at position '') (nextToken s)
      else
        andThen (parseExpression n (nextToken (nextToken s)))
          (\<lambda>count s1.
             if \<not> curIs '')'' s1
             then throwAtCurrent (''Expected '' @ quoted '')'' @ '' after retry count at position '') s1
             else
               andThen (m_parseBlock this (nextToken s1))
                 (\<lambda>body s2.
                    andThen
                      (if curIs ''catch'' s2 then someNode (m_parseCatchClause this s2)
                       else Normal None s2)
                      (\<lambda>handler s3.
                         withToken startToken ''start'' s3
                           (\<lambda>st. Normal
                              (RetryStatement count body handler (Some (tok_start st))
                                 (curEndOr s3 (Some (tok_end st))))
                              s3)))))"

definition parseTryStatement_body :: "nat \<Rightarrow> stmtMethods \<Rightarrow> parser \<Rightarrow> node outcome" where
  "parseTryStatement_body n this s =
     (let startToken = currentToken s in
      andThen (m_parseBlock this (nextToken s))
        (\<lambda>block s1.
           andThen
             (if curIs ''catch'' s1
              then andThen (m_parseCatchClause this s1) (\<lambda>h. Normal [h])
              else Normal [] s1)
             (\<lambda>handlers s2.
                andThen
                  (if curIs ''finally'' s2 then someNode (m_parseFinallyClause this s2)
                   else Normal None s2)
                  (\<lambda>finalizer s3.
                     withToken startToken ''start'' s3
                       (\<lambda>st. Normal
                          (TryStatement block handlers finalizer (Some (tok_start st))
                             (curEndOr s3 (Some (tok_end st))))
                          s3)))))"

definition parseCatchClause_body :: "nat \<Rightarrow> stmtMethods \<Rightarrow> parser \<Rightarrow> node outcome" where
  "parseCatchClause_body n this s =
     (let startToken = currentToken s in
      if \<not> curIs ''('' (nextToken s)
      then throwAtCurrent (''Expected '' @ quoted ''('' @ '' after '' @ quoted ''catch''
                           @ '' at position '') (nextToken s)
      else
        (let s1 = nextToken (nextToken s);
             (param, s2) =
               (case currentToken s1 of
                  None \<Rightarrow> (None, s1)
                | Some t \<Rightarrow>
                    if tok_type t = IDENTIFIER
                    then (Some (Identifier (tok_value t) (Some (tok_start t)) (Some (tok_end t))),
                          nextToken s1)
                    else (None, s1))
         in if \<not> curIs '')'' s2
            then throwAtCurrent
                   (''Expected '' @ quoted '')'' @ '' after catch parameter at position '') s2
            else
              andThen (m_parseBlock this (nextToken s2))
                (\<lambda>body s3.
                   withToken startToken ''start'' s3
                     (\<lambda>st. Normal (CatchClause param body (Some (tok_start st)) (nodeEnd body)) s3))))"

definition parseFinallyClause_body :: "nat \<Rightarrow> stmtMethods \<Rightarrow> parser \<Rightarrow> node outcome" where
  "parseFinallyClause_body n this s =
     (let startToken = currentToken s in
      andThen (m_parseBlock this (nextToken s))
        (\<lambda>body s1.
           withToken startToken ''start'' s1
             (\<lambda>st. Normal (FinallyClause body (Some (tok_start st)) (nodeEnd body)) s1)))"

primrec stmtMethodsAt :: "nat \<Rightarrow> stmtMethods" where
  "stmtMethodsAt 0 = \<lparr>
     m_parseStatement = (\<lambda>_. OutOfFuel),
     m_parseBlock = (\<lambda>_. OutOfFuel),
     m_parseBlockLoop = (\<lambda>_ _. OutOfFuel),
     m_parseIfStatement = (\<lambda>_. OutOfFuel),
     m_parseWhileStatement = (\<lambda>_. OutOfFuel),
     m_parseForStatement = (\<lambda>_. OutOfFuel),
     m_parseFunctionDeclaration = (\<lambda>_. OutOfFuel),
     m_parseClassDeclaration = (\<lambda>_. OutOfFuel),
     m_parseDoWhileStatement = (\<lambda>_. OutOfFuel),
     m_parseMatchStatement = (\<lambda>_. OutOfFuel),
     m_parseMatchLoop = (\<lambda>_ _. OutOfFuel),
     m_parseMatchCase = (\<lambda>_. OutOfFuel),
     m_parseMatchDefault = (\<lambda>_. OutOfFuel),
     m_parseRetryStatement = (\<lambda>_. OutOfFuel),
     m_parseTryStatement = (\<lambda>_. OutOfFuel),
     m_parseCatchClause = (\<lambda>_. OutOfFuel),
     m_parseFinallyClause = (\<lambda>_. OutOfFuel)\<rparr>"
| "stmtMethodsAt (Suc n) = (let this = stmtMethodsAt n in \<lparr>
     m_parseStatement = parseStatement_body n this,
     m_parseBlock = parseBlock_body n this,
     m_parseBlockLoop = parseBlockLoop_body n this,
     m_parseIfStatement = parseIfStatement_body n this,
     m_parseWhileStatement = parseWhileStatement_body n this,
     m_parseForStatement = parseForStatement_body n this,
     m_parseFunctionDeclaration = parseFunctionDeclaration_body n this,
     m_parseClassDeclaration = parseClassDeclaration_body n this,
     m_parseDoWhileStatement = parseDoWhileStatement_body n this,
     m_parseMatchStatement = parseMatchStatement_body n this,
     m_parseMatchLoop = parseMatchLoop_body n this,
     m_parseMatchCase = parseMatchCase_body n this,
     m_parseMatchDefault = parseMatchDefault_body n this,
     m_parseRetryStatement = parseRetryStatement_body n this,
     m_parseTryStatement = parseTryStatement_body n this,
     m_parseCatchClause = parseCatchClause_body n this,
     m_parseFinallyClause = parseFinallyClause_body n this\<rparr>)"

declare stmtMethodsAt.simps [simp del]

definition parseStatement :: "nat \<Rightarrow> parser \<Rightarrow> node option outcome" where
  "parseStatement n = m_parseStatement (stmtMethodsAt n)"

definition parseBlock :: "nat \<Rightarrow> parser \<Rightarrow> node outcome" where
  "parseBlock n = m_parseBlock (stmtMethodsAt n)"

definition parseBlockLoop :: "nat \<Rightarrow> node option list \<Rightarrow> parser \<Rightarrow> node option list outcome" where
  "parseBlockLoop n = m_parseBlockLoop (stmtMethodsAt n)"

definition parseIfStatement :: "nat \<Rightarrow> parser \<Rightarrow> node outcome" where
  "parseIfStatement n = m_parseIfStatement (stmtMethodsAt n)"

definition parseWhileStatement :: "nat \<Rightarrow> parser \<Rightarrow> node outcome" where
  "parseWhileStatement n = m_parseWhileStatement (stmtMethodsAt n)"

definition parseForStatement :: "nat \<Rightarrow> parser \<Rightarrow> node outcome" where
  "parseForStatement n = m_parseForStatement (stmtMethodsAt n)"

definition parseFunctionDeclaration :: "nat \<Rightarrow> parser \<Rightarrow> node outcome" where
  "parseFunctionDeclaration n = m_parseFunctionDeclaration (stmtMethodsAt n)"

definition parseClassDeclaration :: "nat \<Rightarrow> parser \<Rightarrow> node outcome" where
  "parseClassDeclaration n = m_parseClassDeclaration (stmtMethodsAt n)"

definition parseDoWhileStatement :: "nat \<Rightarrow> parser \<Rightarrow> node outcome" where
  "parseDoWhileStatement n = m_parseDoWhileStatement (stmtMethodsAt n)"

definition parseMatchStatement :: "nat \<Rightarrow> parser \<Rightarrow> node outcome" where
  "parseMatchStatement n = m_parseMatchStatement (stmtMethodsAt n)"

definition parseMatchLoop :: "nat \<Rightarrow> node list \<Rightarrow> parser \<Rightarrow> node list outcome" where
  "parseMatchLoop n = m_parseMatchLoop (stmtMethodsAt n)"

definition parseMatchCase :: "nat \<Rightarrow> parser \<Rightarrow> node outcome" where
  "parseMatchCase n = m_parseMatchCase (stmtMethodsAt n)"

definition parseMatchDefault :: "nat \<Rightarrow> parser \<Rightarrow> node outcome" where
  "parseMatchDefault n = m_parseMatchDefault (stmtMethodsAt n)"

definition parseRetryStatement :: "nat \<Rightarrow> parser \<Rightarrow> node outcome" where
  "parseRetryStatement n = m_parseRetryStatement (stmtMethodsAt n)"

definition parseTryStatement :: "nat \<Rightarrow> parser \<Rightarrow> node outcome" where
  "parseTryStatement n = m_parseTryStatement (stmtMethodsAt n)"

definition parseCatchClause :: "nat \<Rightarrow> parser \<Rightarrow> node outcome" where
  "parseCatchClause n = m_parseCatchClause (stmtMethodsAt n)"

definition parseFinallyClause :: "nat \<Rightarrow> parser \<Rightarrow> node outcome" where
  "parseFinallyClause n = m_parseFinallyClause (stmtMethodsAt n)"

section \<open>The entry point \<^verbatim>\<open>parse\<close>\<close>

text \<open>The returned Program object: \<^verbatim>\<open>{type, body}\<close> for blank input (no \<^verbatim>\<open>errors\<close>
  field), \<^verbatim>\<open>{type, body, errors}\<close> otherwise, where \<^verbatim>\<open>errors\<close> is the parser's own
  array at the time of return.\<close>

record program =
  body :: "node list"
  prog_errors :: "parseError list option"

text \<open>\<^verbatim>\<open>!input || input.trim() === ''\<close>\<close>

definition isBlank :: "string \<Rightarrow> bool" where
  "isBlank inp = list_all isWhitespace inp"

text \<open>The loop \<^verbatim>\<open>while (this.position < this.tokens.length)\<close> of \<^verbatim>\<open>parse\<close>.\<close>

fun parseLoop :: "nat \<Rightarrow> node list \<Rightarrow> parser \<Rightarrow> node list outcome" where
  "parseLoop 0 statements s = OutOfFuel"
| "parseLoop (Suc n) statements s =
     (if position s < length (tokens s)
      then andThen (parseStatement n s)
             (\<lambda>stmt. parseLoop n (case stmt of Some x \<Rightarrow> statements @ [x] | None \<Rightarrow> statements))
      else Normal statements s)"

text \<open>\<^verbatim>\<open>parse(input)\<close> on the parser instance \<open>s\<close>.\<close>

definition parse :: "nat \<Rightarrow> parser \<Rightarrow> string \<Rightarrow> program outcome" where
  "parse n s inp =
     (if isBlank inp then Normal \<lparr>body = [], prog_errors = None\<rparr> s
      else case tokenize inp of
             Inl e \<Rightarrow> Thrown e (s\<lparr>input := inp\<rparr>)
           | Inr toks \<Rightarrow>
               andThen (parseLoop n [] (s\<lparr>input := inp, tokens := toks, position := 0\<rparr>))
                 (\<lambda>statements s'. Normal \<lparr>body = statements, prog_errors = Some (errors s')\<rparr> s'))"

section \<open>Type checker (server/typeChecker.js)\<close>

record textPosition =
  pos_line :: nat
  pos_character :: nat

record diagnostic =
  d_severity :: nat
  d_start :: textPosition
  d_end :: textPosition
  d_message :: string

text \<open>The fields of a \<^verbatim>\<open>TypeChecker\<close> instance; \<open>ck_errors\<close> is the caller's array.\<close>

record checker =
  symbolTable :: "string \<rightharpoonup> string"
  staticVariables :: "string set"
  assignedVariables :: "string set"
  ck_errors :: "diagnostic list"

text \<open>\<^verbatim>\<open>getPositionFromIndex(document, index)\<close>; with \<^verbatim>\<open>index\<close> undefined the loop does
  not run.\<close>

definition getPositionFromIndex :: "string \<Rightarrow> nat option \<Rightarrow> textPosition" where
  "getPositionFromIndex text idx =
     (case idx of
        None \<Rightarrow> \<lparr>pos_line = 0, pos_character = 0\<rparr>
      | Some i \<Rightarrow>
          foldl (\<lambda>p c. if c = CHR 0x0A
                        then \<lparr>pos_line = pos_line p + 1, pos_character = 0\<rparr>
                        else p\<lparr>pos_character := pos_character p + 1\<rparr>)
            \<lparr>pos_line = 0, pos_character = 0\<rparr> (take i text))"

definition pushError :: "string \<Rightarrow> nat option \<Rightarrow> nat option \<Rightarrow> string \<Rightarrow> checker \<Rightarrow> checker" where
  "pushError document a b msg s =
     s\<lparr>ck_errors := ck_errors s @
          [\<lparr>d_severity = 1, d_start = getPositionFromIndex document a,
            d_end = getPositionFromIndex document b, d_message = msg\<rparr>]\<rparr>"

text \<open>The value of a run of decimal digits.\<close>

definition decimalValue :: "string \<Rightarrow> nat" where
  "decimalValue ds = foldl (\<lambda>v c. 10 * v + (of_char c - 48)) 0 ds"

text \<open>
  \<^verbatim>\<open>Number.isInteger(Number(txt))\<close> for the text of a NUMBER token without a decimal
  point (an optional minus sign and digits): the conversion gives an integer unless it
  overflows to Infinity, which round-to-nearest does from \<open>2^1024 - 2^970\<close> on.
  \<^verbatim>\<open>inferType\<close> asks only when the raw text has no point; any other text is taken as
  not an integer.
\<close>

definition numberIsInteger :: "string \<Rightarrow> bool" where
  "numberIsInteger txt =
     (let ds = (case txt of c # cs \<Rightarrow> if c = CHR ''-'' then cs else txt | [] \<Rightarrow> txt)
      in ds \<noteq> [] \<and> list_all isDigit ds \<and> decimalValue ds < 2 ^ 1024 - 2 ^ 970)"

text \<open>\<^verbatim>\<open>x || 'any'\<close> on a string.\<close>

definition orAny :: "string \<Rightarrow> string" where
  "orAny x = (if x = [] then ''any'' else x)"

fun inferType :: "(string \<rightharpoonup> string) \<Rightarrow> node \<Rightarrow> string" where
  "inferType tab (Literal v raw a b) =
     (case v of
        JNumber txt \<Rightarrow>
          if CHR ''.'' \<in> set raw then ''float''
          else if numberIsInteger txt then ''int'' else ''float''
      | JString str \<Rightarrow>
          if take 1 raw = [CHR 0x22] \<or> take 1 raw = [CHR 0x27] then ''string'' else ''any''
      | JBool t \<Rightarrow> ''bool''
      | JNull \<Rightarrow> ''any'')"
| "inferType tab (ArrayExpression els a b) = ''array''"
| "inferType tab (ObjectExpression props a b) = ''object''"
| "inferType tab (Identifier nm a b) = (case tab nm of None \<Rightarrow> ''any'' | Some t \<Rightarrow> orAny t)"
| "inferType tab (BinaryExpression op l r a b) =
     (if op \<in> set [''=='', ''!='', ''<'', ''<='', ''>'', ''>='', ''and'', ''or''] then ''bool''
      else if op \<in> set [''+'', ''-'', ''*'', ''/'', ''%'']
      then (if orAny (inferType tab l) = ''int'' \<and> orAny (inferType tab r) = ''int'' \<and> op \<noteq> ''/''
            then ''int'' else ''float'')
      else ''any'')"
| "inferType tab (LogicalExpression op l r a b) =
     (if op \<in> set [''=='', ''!='', ''<'', ''<='', ''>'', ''>='', ''and'', ''or''] then ''bool''
      else if op \<in> set [''+'', ''-'', ''*'', ''/'', ''%'']
      then (if orAny (inferType tab l) = ''int'' \<and> orAny (inferType tab r) = ''int'' \<and> op \<noteq> ''/''
            then ''int'' else ''float'')
      else ''any'')"
| "inferType tab (UnaryExpression op arg a b) =
     (if op = ''not'' then ''bool'' else orAny (inferType tab arg))"
| "inferType tab (CallExpression callee args a b) = ''any''"
| "inferType tab (MemberExpression ob pr a b) = ''any''"
| "inferType tab _ = ''any''"

definition isCompatibleType :: "string \<Rightarrow> string \<Rightarrow> bool" where
  "isCompatibleType expected actual =
     (if expected = actual then True
      else if expected = ''any'' \<or> actual = ''any'' then True
      else if expected = ''float'' \<and> actual = ''int'' then True
      else if actual = ''nil'' then True
      else False)"

text \<open>\<^verbatim>\<open>node.name\<close>, for the node kinds that have the field.\<close>

fun nodeName :: "node \<Rightarrow> string option" where
  "nodeName (Identifier nm _ _) = Some nm"
| "nodeName (VariableDeclaration _ nm _ _ _ _) = Some nm"
| "nodeName _ = None"

text \<open>
  The tree walk. \<open>checkNodeOpt\<close> is \<^verbatim>\<open>checkNode\<close> on a field that may be \<^verbatim>\<open>null\<close>
  (it returns at once), \<open>checkNodes\<close> and \<open>checkNodeOpts\<close> are the \<^verbatim>\<open>for ... of\<close>
  loops over an array field. The node kinds without a \<^verbatim>\<open>case\<close> in \<^verbatim>\<open>checkNode\<close> go
  through \<^verbatim>\<open>checkChildren\<close>, which visits the object-valued fields in the order
  the parser wrote them; strings, numbers and the token held by a Property have no
  such fields.
\<close>

function (sequential) checkNode :: "string \<Rightarrow> node \<Rightarrow> checker \<Rightarrow> checker"
  and checkNodeOpt :: "string \<Rightarrow> node option \<Rightarrow> checker \<Rightarrow> checker"
  and checkNodes :: "string \<Rightarrow> node list \<Rightarrow> checker \<Rightarrow> checker"
  and checkNodeOpts :: "string \<Rightarrow> node option list \<Rightarrow> checker \<Rightarrow> checker"
  and checkVariableDeclaration ::
    "string \<Rightarrow> string option \<Rightarrow> string \<Rightarrow> node option \<Rightarrow> bool \<Rightarrow> nat option \<Rightarrow> nat option
       \<Rightarrow> checker \<Rightarrow> checker"
  and checkAssignmentExpression :: "string \<Rightarrow> node \<Rightarrow> node \<Rightarrow> checker \<Rightarrow> checker"
  and checkCatchClause :: "string \<Rightarrow> node option \<Rightarrow> node \<Rightarrow> checker \<Rightarrow> checker"
where
  "checkNode doc (VariableDeclaration dt nm init st a b) s =
     checkVariableDeclaration doc dt nm init st a b s"
| "checkNode doc (AssignmentExpression l r a b) s = checkAssignmentExpression doc l r s"
| "checkNode doc (BinaryExpression op l r a b) s = checkNode doc r (checkNode doc l s)"
| "checkNode doc (IfStatement t c al a b) s =
     checkNodeOpt doc al (checkNodeOpt doc c (checkNodeOpt doc t s))"
| "checkNode doc (WhileStatement t bd a b) s = checkNodeOpt doc bd (checkNodeOpt doc t s)"
| "checkNode doc (DoWhileStatement t bd a b) s = checkNode doc bd (checkNode doc t s)"
| "checkNode doc (ForStatement i t u bd a b) s =
     checkNode doc bd (checkNodeOpt doc u (checkNodeOpt doc t (checkNodeOpt doc i s)))"
| "checkNode doc (ExpressionStatement e a b) s = checkNode doc e s"
| "checkNode doc (CallExpression callee args a b) s = checkNodes doc args (checkNode doc callee s)"
| "checkNode doc (ReturnStatement arg a b) s = checkNodeOpt doc arg s"
| "checkNode doc (MatchStatement d cases a b) s = checkNodes doc cases (checkNodeOpt doc d s)"
| "checkNode doc (MatchCase t c a b) s = checkNode doc c (checkNode doc t s)"
| "checkNode doc (MatchDefault c a b) s = checkNode doc c s"
| "checkNode doc (TryStatement blk hs fin a b) s =
     checkNodeOpt doc fin (checkNodes doc hs (checkNode doc blk s))"
| "checkNode doc (CatchClause param bd a b) s = checkCatchClause doc param bd s"
| "checkNode doc (FinallyClause bd a b) s = checkNode doc bd s"
| "checkNode doc (RetryStatement c bd h a b) s =
     checkNodeOpt doc h (checkNode doc bd (checkNode doc c s))"
| "checkNode doc (ThrowStatement arg a b) s = checkNodeOpt doc arg s"
| "checkNode doc (BlockStatement stmts) s = checkNodeOpts doc stmts s"
| "checkNode doc (FunctionDeclaration ident params bd a b) s =
     checkNode doc bd (checkNode doc ident s)"
| "checkNode doc (ClassDeclaration ident bd a b) s = checkNode doc bd (checkNode doc ident s)"
| "checkNode doc (Literal v raw a b) s = s"
| "checkNode doc (Identifier nm a b) s = s"
| "checkNode doc (LogicalExpression op l r a b) s = checkNode doc r (checkNode doc l s)"
| "checkNode doc (UnaryExpression op arg a b) s = checkNode doc arg s"
| "checkNode doc (MemberExpression ob pr a b) s = checkNode doc pr (checkNode doc ob s)"
| "checkNode doc (ArrayExpression els a b) s = checkNodes doc els s"
| "checkNode doc (ObjectExpression props a b) s = checkNodes doc props s"
| "checkNode doc (Property key v a b) s = checkNode doc v s"

| "checkNodeOpt doc None s = s"
| "checkNodeOpt doc (Some nd) s = checkNode doc nd s"

| "checkNodes doc [] s = s"
| "checkNodes doc (nd # nds) s = checkNodes doc nds (checkNode doc nd s)"

| "checkNodeOpts doc [] s = s"
| "checkNodeOpts doc (nd # nds) s = checkNodeOpts doc nds (checkNodeOpt doc nd s)"

| "checkVariableDeclaration doc dt variableName init isStatic a b s =
     (if symbolTable s variableName \<noteq> None
      then pushError doc a b
             (''Variable '' @ quoted variableName @ '' has already been declared'') s
      else
        (let s1 = (if isStatic
                   then s\<lparr>staticVariables := insert variableName (staticVariables s)\<rparr> else s)
         in if dt = None \<or> dt = Some []
            then
              (let s2 = (if variableName \<noteq> []
                         then (let s' = s1\<lparr>symbolTable := (symbolTable s1)(variableName \<mapsto> ''any'')\<rparr>
                               in if init \<noteq> None
                                  then s'\<lparr>assignedVariables := insert variableName (assignedVariables s')\<rparr>
                                  else s')
                         else s1)
               in checkNodeOpt doc init s2)
            else
              (case init of
                 Some i \<Rightarrow>
                   (let declaredType = the dt; actualType = inferType (symbolTable s1) i
                    in if \<not> isCompatibleType declaredType actualType
                       then pushError doc (nodeStart i) (nodeEnd i)
                              (''Type mismatch: expected '' @ declaredType @ '' but got '' @ actualType
                               @ '' for variable '' @ quoted variableName) s1
                       else s1\<lparr>symbolTable := (symbolTable s1)(variableName \<mapsto> declaredType),
                               assignedVariables := insert variableName (assignedVariables s1)\<rparr>)
               | None \<Rightarrow> s1\<lparr>symbolTable := (symbolTable s1)(variableName \<mapsto> the dt)\<rparr>)))"

| "checkAssignmentExpression doc l r s =
     (case l of
        Identifier varName la lb \<Rightarrow>
          if varName \<in> staticVariables s \<and> varName \<in> assignedVariables s
          then pushError doc la (nodeEnd r)
                 (''Cannot reassign static variable '' @ quoted varName
                  @ '' - it has already been assigned'') s
          else
            (let s1 = (if varName \<in> staticVariables s
                       then s\<lparr>assignedVariables := insert varName (assignedVariables s)\<rparr> else s);
                 s2 = (case symbolTable s1 varName of
                         None \<Rightarrow> s1
                       | Some declaredType \<Rightarrow>
                           if declaredType \<noteq> [] \<and> declaredType \<noteq> ''any''
                              \<and> \<not> isCompatibleType declaredType (inferType (symbolTable s1) r)
                           then pushError doc (nodeStart r) (nodeEnd r)
                                  (''Type mismatch: expected '' @ declaredType @ '' but got ''
                                   @ inferType (symbolTable s1) r @ '' when assigning to ''
                                   @ quoted varName) s1
                           else s1)
             in checkNode doc r s2)
      | _ \<Rightarrow> s)"

| "checkCatchClause doc param bd s =
     (let s1 = checkNode doc bd s
      in case param of
           None \<Rightarrow> s1
         | Some p \<Rightarrow>
             (case nodeName p of
                None \<Rightarrow> s1
              | Some nm \<Rightarrow>
                  if nm \<noteq> []
                  then checkNode doc bd (s1\<lparr>symbolTable := (symbolTable s1)(nm \<mapsto> ''any'')\<rparr>)
                  else s1))"
  by pat_completeness auto
termination
  by (relation "measure (\<lambda>x. case x of
         Inl (Inl (doc, nd, s)) \<Rightarrow> 2 * size nd
       | Inl (Inr (Inl (doc, nd, s))) \<Rightarrow> 2 * size_option size nd
       | Inl (Inr (Inr (doc, nds, s))) \<Rightarrow> 2 * size_list size nds
       | Inr (Inl (Inl (doc, nds, s))) \<Rightarrow> 2 * size_list (size_option size) nds
       | Inr (Inl (Inr (doc, dt, nm, init, st, a, b, s))) \<Rightarrow> 2 * size_option size init + 1
       | Inr (Inr (Inl (doc, l, r, s))) \<Rightarrow> 2 * size r + 1
       | Inr (Inr (Inr (doc, param, bd, s))) \<Rightarrow> 2 * size bd + 1)")
     auto

text \<open>\<^verbatim>\<open>check(ast, document, errors)\<close>: the state is reset, \<^verbatim>\<open>errors\<close> becomes the
  sink, and the statements of the program are walked in order. The result is the
  checker after the walk; its \<open>ck_errors\<close> is the caller's array.\<close>

definition check :: "program \<Rightarrow> string \<Rightarrow> diagnostic list \<Rightarrow> checker" where
  "check ast document errs =
     checkNodes document (body ast)
       \<lparr>symbolTable = Map.empty, staticVariables = {}, assignedVariables = {}, ck_errors = errs\<rparr>"

section \<open>Notions used in the statements\<close>



text \<open>What expression parsing leaves alone: the token list, the recorded errors and
  the input text. Only the position moves.\<close>

definition frame :: "parser \<Rightarrow> token list \<times> parseError list \<times> string" where
  "frame s = (tokens s, errors s, input s)"

definition pres :: "token list \<times> parseError list \<times> string \<Rightarrow> 'a outcome \<Rightarrow> bool" where
  "pres f r = (case r of Normal v s \<Rightarrow> frame s = f | Thrown e s \<Rightarrow> frame s = f | OutOfFuel \<Rightarrow> True)"

definition exprPreserves :: "exprMethods \<Rightarrow> bool" where
  "exprPreserves this \<longleftrightarrow>
     (\<forall>s. pres (frame s) (m_parseExpression this s)) \<and>
     (\<forall>s. pres (frame s) (m_parseLogicalOr this s)) \<and>
     (\<forall>nd s. pres (frame s) (m_parseLogicalOrLoop this nd s)) \<and>
     (\<forall>s. pres (frame s) (m_parseLogicalAnd this s)) \<and>
     (\<forall>nd s. pres (frame s) (m_parseLogicalAndLoop this nd s)) \<and>
     (\<forall>s. pres (frame s) (m_parseEquality this s)) \<and>
     (\<forall>nd s. pres (frame s) (m_parseEqualityLoop this nd s)) \<and>
     (\<forall>s. pres (frame s) (m_parseRelational this s)) \<and>
     (\<forall>nd s. pres (frame s) (m_parseRelationalLoop this nd s)) \<and>
     (\<forall>s. pres (frame s) (m_parseAdditive this s)) \<and>
     (\<forall>nd s. pres (frame s) (m_parseAdditiveLoop this nd s)) \<and>
     (\<forall>s. pres (frame s) (m_parseMultiplicative this s)) \<and>
     (\<forall>nd s. pres (frame s) (m_parseMultiplicativeLoop this nd s)) \<and>
     (\<forall>s. pres (frame s) (m_parseUnary this s)) \<and>
     (\<forall>s. pres (frame s) (m_parsePrimary this s)) \<and>
     (\<forall>nd s. pres (frame s) (m_parseCallExpression this nd s)) \<and>
     (\<forall>nds s. pres (frame s) (m_parseCommaExpressions this nds s)) \<and>
     (\<forall>nd s. pres (frame s) (m_parseMemberExpression this nd s)) \<and>
     (\<forall>s. pres (frame s) (m_parseArrayExpression this s)) \<and>
     (\<forall>s. pres (frame s) (m_parseObjectExpression this s)) \<and>
     (\<forall>nds s. pres (frame s) (m_parseCommaProperties this nds s)) \<and>
     (\<forall>s. pres (frame s) (m_parseObjectProperty this s)) \<and>
     (\<forall>s. pres (frame s) (m_parseThrowStatement this s))"

text \<open>The tokens of two declarations on two lines, the first without its semicolon.\<close>

definition twoDeclarations :: parser where
  "twoDeclarations =
     \<lparr>tokens = [mkToken KEYWORD ''var'' 0 3, mkToken IDENTIFIER ''x'' 4 5, mkToken SYMBOL ''='' 6 7,
                mkToken NUMBER ''5'' 8 9, mkToken KEYWORD ''var'' 10 13, mkToken IDENTIFIER ''y'' 14 15,
                mkToken SYMBOL ''='' 16 17, mkToken NUMBER ''6'' 18 19, mkToken SYMBOL '';'' 19 20],
      position = 0, errors = [],
      input = ''var x = 5'' @ [CHR 0x0A] @ ''var y = 6;''\<rparr>"

text \<open>\<open>lexerAt inp c toks\<close>: the main loop of \<^verbatim>\<open>tokenize\<close>, started on \<open>inp\<close>, comes to the
  head of an iteration at offset \<open>c\<close> having pushed the tokens \<open>toks\<close>.\<close>

inductive lexerAt :: "string \<Rightarrow> nat \<Rightarrow> token list \<Rightarrow> bool" for inp :: string where
  lexerAt_start: "lexerAt inp 0 []"
| lexerAt_step:
    "lexerAt inp c toks \<Longrightarrow> c < length inp \<Longrightarrow> tokenizeStep inp c toks = Inr (c', toks')
       \<Longrightarrow> lexerAt inp c' toks'"

code_pred lexerAt .

text \<open>A string literal opens at \<open>start\<close> and reaches the end of the input without its
  closing quote.\<close>

definition unterminatedStringAt :: "string \<Rightarrow> nat \<Rightarrow> bool" where
  "unterminatedStringAt inp start \<longleftrightarrow>
     (\<exists>toks. lexerAt inp start toks) \<and> start < length inp
     \<and> (inp ! start = CHR 0x22 \<or> inp ! start = CHR 0x27)
     \<and> length inp \<le> scanString inp (inp ! start) (start + 1)"

text \<open>The error recorded for \<^verbatim>\<open>var x = 5\<close>, and the parser instance after parsing that
  text once.\<close>

definition missingSemicolon :: parseError where
  "missingSemicolon =
     \<lparr>pe_message = ''Missing semicolon at end of variable declaration'', pe_start = 5, pe_end = 9\<rparr>"

definition afterFirstParse :: parser where
  "afterFirstParse =
     \<lparr>tokens = [mkToken KEYWORD ''var'' 0 3, mkToken IDENTIFIER ''x'' 4 5, mkToken SYMBOL ''='' 6 7,
                mkToken NUMBER ''5'' 8 9],
      position = 4, errors = [missingSemicolon], input = ''var x = 5''\<rparr>"

text \<open>The walk only adds: names to the two sets, diagnostics to the end of the list.\<close>

definition grows :: "checker \<Rightarrow> checker \<Rightarrow> bool" where
  "grows s s' \<longleftrightarrow>
     staticVariables s \<subseteq> staticVariables s' \<and> assignedVariables s \<subseteq> assignedVariables s'
     \<and> (\<exists>ds. ck_errors s' = ck_errors s @ ds)"

text \<open>The text \<^verbatim>\<open>static var int x = "a"; x = 1; var x = 2;\<close> and the program that
  \<^verbatim>\<open>parse\<close> returns for it.\<close>

definition staticRedeclared :: string where
  "staticRedeclared =
     ''static var int x = '' @ [CHR 0x22] @ ''a'' @ [CHR 0x22] @ ''; x = 1; var x = 2;''"

definition staticRedeclaredProgram :: program where
  "staticRedeclaredProgram =
     \<lparr>body =
        [VariableDeclaration (Some ''int'') ''x''
           (Some (Literal (JString ([CHR 0x22] @ ''a'' @ [CHR 0x22])) ([CHR 0x22] @ ''a'' @ [CHR 0x22])
                    (Some 19) (Some 22)))
           True (Some 0) (Some 24),
         AssignmentExpression (Identifier ''x'' (Some 24) (Some 25))
           (Literal (JNumber ''1'') ''1'' (Some 28) (Some 29)) (Some 24) (Some 31),
         VariableDeclaration None ''x''
           (Some (Literal (JNumber ''2'') ''2'' (Some 39) (Some 40))) False (Some 31) (Some 37)],
      prog_errors = Some []\<rparr>"

text \<open>The program \<^verbatim>\<open>try { } catch (e) { var y = 1; }\<close> as \<^verbatim>\<open>parse\<close> returns it.\<close>

definition tryCatchProgram :: program where
  "tryCatchProgram =
     \<lparr>body =
        [TryStatement (BlockStatement [])
           [CatchClause (Some (Identifier ''e'' (Some 15) (Some 16)))
              (BlockStatement
                 [Some (VariableDeclaration None ''y''
                          (Some (Literal (JNumber ''1'') ''1'' (Some 28) (Some 29)))
                          False (Some 20) (Some 31))])
              (Some 8) None]
           None (Some 0) (Some 3)],
      prog_errors = Some []\<rparr>"

text \<open>Every declared type in the tree is one of the seven type keywords, or absent.\<close>

fun declaredTypesOK :: "node \<Rightarrow> bool" where
  "declaredTypesOK (VariableDeclaration dt nm init st a b) =
     ((\<forall>ty \<in> set_option dt. isTypeKeyword ty) \<and> (\<forall>i \<in> set_option init. declaredTypesOK i))"
| "declaredTypesOK (IfStatement t c al a b) =
     ((\<forall>x \<in> set_option t. declaredTypesOK x) \<and> (\<forall>x \<in> set_option c. declaredTypesOK x)
      \<and> (\<forall>x \<in> set_option al. declaredTypesOK x))"
| "declaredTypesOK (BlockStatement stmts) =
     (\<forall>st \<in> set stmts. \<forall>x \<in> set_option st. declaredTypesOK x)"
| "declaredTypesOK (WhileStatement t bd a b) =
     ((\<forall>x \<in> set_option t. declaredTypesOK x) \<and> (\<forall>x \<in> set_option bd. declaredTypesOK x))"
| "declaredTypesOK (DoWhileStatement t bd a b) = (declaredTypesOK t \<and> declaredTypesOK bd)"
| "declaredTypesOK (ForStatement i t u bd a b) =
     ((\<forall>x \<in> set_option i. declaredTypesOK x) \<and> (\<forall>x \<in> set_option t. declaredTypesOK x)
      \<and> (\<forall>x \<in> set_option u. declaredTypesOK x) \<and> declaredTypesOK bd)"
| "declaredTypesOK (FunctionDeclaration ident params bd a b) =
     (declaredTypesOK ident \<and> declaredTypesOK bd)"
| "declaredTypesOK (ClassDeclaration ident bd a b) = (declaredTypesOK ident \<and> declaredTypesOK bd)"
| "declaredTypesOK (ReturnStatement arg a b) = (\<forall>x \<in> set_option arg. declaredTypesOK x)"
| "declaredTypesOK (ThrowStatement arg a b) = (\<forall>x \<in> set_option arg. declaredTypesOK x)"
| "declaredTypesOK (MatchStatement d cases a b) =
     ((\<forall>x \<in> set_option d. declaredTypesOK x) \<and> (\<forall>x \<in> set cases. declaredTypesOK x))"
| "declaredTypesOK (MatchCase t c a b) = (declaredTypesOK t \<and> declaredTypesOK c)"
| "declaredTypesOK (MatchDefault c a b) = declaredTypesOK c"
| "declaredTypesOK (RetryStatement c bd h a b) =
     (declaredTypesOK c \<and> declaredTypesOK bd \<and> (\<forall>x \<in> set_option h. declaredTypesOK x))"
| "declaredTypesOK (TryStatement blk hs fin a b) =
     (declaredTypesOK blk \<and> (\<forall>x \<in> set hs. declaredTypesOK x)
      \<and> (\<forall>x \<in> set_option fin. declaredTypesOK x))"
| "declaredTypesOK (CatchClause param bd a b) =
     ((\<forall>x \<in> set_option param. declaredTypesOK x) \<and> declaredTypesOK bd)"
| "declaredTypesOK (FinallyClause bd a b) = declaredTypesOK bd"
| "declaredTypesOK (ExpressionStatement e a b) = declaredTypesOK e"
| "declaredTypesOK (AssignmentExpression l r a b) = (declaredTypesOK l \<and> declaredTypesOK r)"
| "declaredTypesOK (Literal v raw a b) = True"
| "declaredTypesOK (Identifier nm a b) = True"
| "declaredTypesOK (BinaryExpression op l r a b) = (declaredTypesOK l \<and> declaredTypesOK r)"
| "declaredTypesOK (LogicalExpression op l r a b) = (declaredTypesOK l \<and> declaredTypesOK r)"
| "declaredTypesOK (UnaryExpression op arg a b) = declaredTypesOK arg"
| "declaredTypesOK (CallExpression callee args a b) =
     (declaredTypesOK callee \<and> (\<forall>x \<in> set args. declaredTypesOK x))"
| "declaredTypesOK (MemberExpression ob pr a b) = (declaredTypesOK ob \<and> declaredTypesOK pr)"
| "declaredTypesOK (ArrayExpression els a b) = (\<forall>x \<in> set els. declaredTypesOK x)"
| "declaredTypesOK (ObjectExpression props a b) = (\<forall>x \<in> set props. declaredTypesOK x)"
| "declaredTypesOK (Property key v a b) = declaredTypesOK v"

text \<open>No name is recorded with the type \<^verbatim>\<open>nil\<close>.\<close>

definition nilFree :: "(string \<rightharpoonup> string) \<Rightarrow> bool" where
  "nilFree tab \<longleftrightarrow> (\<forall>k. tab k \<noteq> Some ''nil'')"

text \<open>What a parsing method returns, when it returns, has well-formed declared types.\<close>

definition okResult :: "('a \<Rightarrow> bool) \<Rightarrow> 'a outcome \<Rightarrow> bool" where
  "okResult P r = (case r of Normal v s \<Rightarrow> P v | Thrown e s \<Rightarrow> True | OutOfFuel \<Rightarrow> True)"

definition okNode :: "node outcome \<Rightarrow> bool" where
  "okNode = okResult declaredTypesOK"

definition okNodes :: "node list outcome \<Rightarrow> bool" where
  "okNodes = okResult (\<lambda>nds. \<forall>x \<in> set nds. declaredTypesOK x)"

definition okNodeOpt :: "node option outcome \<Rightarrow> bool" where
  "okNodeOpt = okResult (\<lambda>no. \<forall>x \<in> set_option no. declaredTypesOK x)"

definition okNodeOpts :: "node option list outcome \<Rightarrow> bool" where
  "okNodeOpts = okResult (\<lambda>nos. \<forall>st \<in> set nos. \<forall>x \<in> set_option st. declaredTypesOK x)"

definition exprOK :: "exprMethods \<Rightarrow> bool" where
  "exprOK this \<longleftrightarrow>
     (\<forall>s. okNode (m_parseExpression this s)) \<and>
     (\<forall>s. okNode (m_parseLogicalOr this s)) \<and>
     (\<forall>nd s. declaredTypesOK nd \<longrightarrow> okNode (m_parseLogicalOrLoop this nd s)) \<and>
     (\<forall>s. okNode (m_parseLogicalAnd this s)) \<and>
     (\<forall>nd s. declaredTypesOK nd \<longrightarrow> okNode (m_parseLogicalAndLoop this nd s)) \<and>
     (\<forall>s. okNode (m_parseEquality this s)) \<and>
     (\<forall>nd s. declaredTypesOK nd \<longrightarrow> okNode (m_parseEqualityLoop this nd s)) \<and>
     (\<forall>s. okNode (m_parseRelational this s)) \<and>
     (\<forall>nd s. declaredTypesOK nd \<longrightarrow> okNode (m_parseRelationalLoop this nd s)) \<and>
     (\<forall>s. okNode (m_parseAdditive this s)) \<and>
     (\<forall>nd s. declaredTypesOK nd \<longrightarrow> okNode (m_parseAdditiveLoop this nd s)) \<and>
     (\<forall>s. okNode (m_parseMultiplicative this s)) \<and>
     (\<forall>nd s. declaredTypesOK nd \<longrightarrow> okNode (m_parseMultiplicativeLoop this nd s)) \<and>
     (\<forall>s. okNode (m_parseUnary this s)) \<and>
     (\<forall>s. okNode (m_parsePrimary this s)) \<and>
     (\<forall>nd s. declaredTypesOK nd \<longrightarrow> okNode (m_parseCallExpression this nd s)) \<and>
     (\<forall>nds s. (\<forall>x \<in> set nds. declaredTypesOK x) \<longrightarrow> okNodes (m_parseCommaExpressions this nds s)) \<and>
     (\<forall>nd s. declaredTypesOK nd \<longrightarrow> okNode (m_parseMemberExpression this nd s)) \<and>
     (\<forall>s. okNode (m_parseArrayExpression this s)) \<and>
     (\<forall>s. okNode (m_parseObjectExpression this s)) \<and>
     (\<forall>nds s. (\<forall>x \<in> set nds. declaredTypesOK x) \<longrightarrow> okNodes (m_parseCommaProperties this nds s)) \<and>
     (\<forall>s. okNode (m_parseObjectProperty this s)) \<and>
     (\<forall>s. okNode (m_parseThrowStatement this s))"

definition stmtOK :: "stmtMethods \<Rightarrow> bool" where
  "stmtOK this \<longleftrightarrow>
     (\<forall>s. okNodeOpt (m_parseStatement this s)) \<and>
     (\<forall>s. okNode (m_parseBlock this s)) \<and>
     (\<forall>nos s. (\<forall>st \<in> set nos. \<forall>x \<in> set_option st. declaredTypesOK x) \<longrightarrow> okNodeOpts (m_parseBlockLoop this nos s)) \<and>
     (\<forall>s. okNode (m_parseIfStatement this s)) \<and>
     (\<forall>s. okNode (m_parseWhileStatement this s)) \<and>
     (\<forall>s. okNode (m_parseForStatement this s)) \<and>
     (\<forall>s. okNode (m_parseFunctionDeclaration this s)) \<and>
     (\<forall>s. okNode (m_parseClassDeclaration this s)) \<and>
     (\<forall>s. okNode (m_parseDoWhileStatement this s)) \<and>
     (\<forall>s. okNode (m_parseMatchStatement this s)) \<and>
     (\<forall>nds s. (\<forall>x \<in> set nds. declaredTypesOK x) \<longrightarrow> okNodes (m_parseMatchLoop this nds s)) \<and>
     (\<forall>s. okNode (m_parseMatchCase this s)) \<and>
     (\<forall>s. okNode (m_parseMatchDefault this s)) \<and>
     (\<forall>s. okNode (m_parseRetryStatement this s)) \<and>
     (\<forall>s. okNode (m_parseTryStatement this s)) \<and>
     (\<forall>s. okNode (m_parseCatchClause this s)) \<and>
     (\<forall>s. okNode (m_parseFinallyClause this s))"

section \<open>Recursion equations of the parsing methods\<close>

text \<open>With no fuel a method does not return; with fuel \<open>Suc n\<close> it runs its body
  on the methods with fuel \<open>n\<close>, whose fields are the methods themselves.\<close>

lemma expr_zero:
  "parseExpression 0 s = OutOfFuel"
  "parseLogicalOr 0 s = OutOfFuel"
  "parseLogicalOrLoop 0 nd s = OutOfFuel"
  "parseLogicalAnd 0 s = OutOfFuel"
  "parseLogicalAndLoop 0 nd s = OutOfFuel"
  "parseEquality 0 s = OutOfFuel"
  "parseEqualityLoop 0 nd s = OutOfFuel"
  "parseRelational 0 s = OutOfFuel"
  "parseRelationalLoop 0 nd s = OutOfFuel"
  "parseAdditive 0 s = OutOfFuel"
  "parseAdditiveLoop 0 nd s = OutOfFuel"
  "parseMultiplicative 0 s = OutOfFuel"
  "parseMultiplicativeLoop 0 nd s = OutOfFuel"
  "parseUnary 0 s = OutOfFuel"
  "parsePrimary 0 s = OutOfFuel"
  "parseCallExpression 0 nd s = OutOfFuel"
  "parseCommaExpressions 0 nds s = OutOfFuel"
  "parseMemberExpression 0 nd s = OutOfFuel"
  "parseArrayExpression 0 s = OutOfFuel"
  "parseObjectExpression 0 s = OutOfFuel"
  "parseCommaProperties 0 nds s = OutOfFuel"
  "parseObjectProperty 0 s = OutOfFuel"
  "parseThrowStatement 0 s = OutOfFuel"
  by (simp_all add: exprMethodsAt.simps parseExpression_def parseLogicalOr_def parseLogicalOrLoop_def parseLogicalAnd_def parseLogicalAndLoop_def parseEquality_def parseEqualityLoop_def parseRelational_def parseRelationalLoop_def parseAdditive_def parseAdditiveLoop_def parseMultiplicative_def parseMultiplicativeLoop_def parseUnary_def parsePrimary_def parseCallExpression_def parseCommaExpressions_def parseMemberExpression_def parseArrayExpression_def parseObjectExpression_def parseCommaProperties_def parseObjectProperty_def parseThrowStatement_def)

lemma expr_Suc:
  "parseExpression (Suc n) = parseExpression_body (exprMethodsAt n)"
  "parseLogicalOr (Suc n) = parseLogicalOr_body (exprMethodsAt n)"
  "parseLogicalOrLoop (Suc n) = parseLogicalOrLoop_body (exprMethodsAt n)"
  "parseLogicalAnd (Suc n) = parseLogicalAnd_body (exprMethodsAt n)"
  "parseLogicalAndLoop (Suc n) = parseLogicalAndLoop_body (exprMethodsAt n)"
  "parseEquality (Suc n) = parseEquality_body (exprMethodsAt n)"
  "parseEqualityLoop (Suc n) = parseEqualityLoop_body (exprMethodsAt n)"
  "parseRelational (Suc n) = parseRelational_body (exprMethodsAt n)"
  "parseRelationalLoop (Suc n) = parseRelationalLoop_body (exprMethodsAt n)"
  "parseAdditive (Suc n) = parseAdditive_body (exprMethodsAt n)"
  "parseAdditiveLoop (Suc n) = parseAdditiveLoop_body (exprMethodsAt n)"
  "parseMultiplicative (Suc n) = parseMultiplicative_body (exprMethodsAt n)"
  "parseMultiplicativeLoop (Suc n) = parseMultiplicativeLoop_body (exprMethodsAt n)"
  "parseUnary (Suc n) = parseUnary_body (exprMethodsAt n)"
  "parsePrimary (Suc n) = parsePrimary_body (exprMethodsAt n)"
  "parseCallExpression (Suc n) = parseCallExpression_body (exprMethodsAt n)"
  "parseCommaExpressions (Suc n) = parseCommaExpressions_body (exprMethodsAt n)"
  "parseMemberExpression (Suc n) = parseMemberExpression_body (exprMethodsAt n)"
  "parseArrayExpression (Suc n) = parseArrayExpression_body (exprMethodsAt n)"
  "parseObjectExpression (Suc n) = parseObjectExpression_body (exprMethodsAt n)"
  "parseCommaProperties (Suc n) = parseCommaProperties_body (exprMethodsAt n)"
  "parseObjectProperty (Suc n) = parseObjectProperty_body (exprMethodsAt n)"
  "parseThrowStatement (Suc n) = parseThrowStatement_body (exprMethodsAt n)"
  by (simp_all add: exprMethodsAt.simps Let_def parseExpression_def parseLogicalOr_def parseLogicalOrLoop_def parseLogicalAnd_def parseLogicalAndLoop_def parseEquality_def parseEqualityLoop_def parseRelational_def parseRelationalLoop_def parseAdditive_def parseAdditiveLoop_def parseMultiplicative_def parseMultiplicativeLoop_def parseUnary_def parsePrimary_def parseCallExpression_def parseCommaExpressions_def parseMemberExpression_def parseArrayExpression_def parseObjectExpression_def parseCommaProperties_def parseObjectProperty_def parseThrowStatement_def)

lemma expr_fold:
  "m_parseExpression (exprMethodsAt n) = parseExpression n"
  "m_parseLogicalOr (exprMethodsAt n) = parseLogicalOr n"
  "m_parseLogicalOrLoop (exprMethodsAt n) = parseLogicalOrLoop n"
  "m_parseLogicalAnd (exprMethodsAt n) = parseLogicalAnd n"
  "m_parseLogicalAndLoop (exprMethodsAt n) = parseLogicalAndLoop n"
  "m_parseEquality (exprMethodsAt n) = parseEquality n"
  "m_parseEqualityLoop (exprMethodsAt n) = parseEqualityLoop n"
  "m_parseRelational (exprMethodsAt n) = parseRelational n"
  "m_parseRelationalLoop (exprMethodsAt n) = parseRelationalLoop n"
  "m_parseAdditive (exprMethodsAt n) = parseAdditive n"
  "m_parseAdditiveLoop (exprMethodsAt n) = parseAdditiveLoop n"
  "m_parseMultiplicative (exprMethodsAt n) = parseMultiplicative n"
  "m_parseMultiplicativeLoop (exprMethodsAt n) = parseMultiplicativeLoop n"
  "m_parseUnary (exprMethodsAt n) = parseUnary n"
  "m_parsePrimary (exprMethodsAt n) = parsePrimary n"
  "m_parseCallExpression (exprMethodsAt n) = parseCallExpression n"
  "m_parseCommaExpressions (exprMethodsAt n) = parseCommaExpressions n"
  "m_parseMemberExpression (exprMethodsAt n) = parseMemberExpression n"
  "m_parseArrayExpression (exprMethodsAt n) = parseArrayExpression n"
  "m_parseObjectExpression (exprMethodsAt n) = parseObjectExpression n"
  "m_parseCommaProperties (exprMethodsAt n) = parseCommaProperties n"
  "m_parseObjectProperty (exprMethodsAt n) = parseObjectProperty n"
  "m_parseThrowStatement (exprMethodsAt n) = parseThrowStatement n"
  by (simp_all add: parseExpression_def parseLogicalOr_def parseLogicalOrLoop_def parseLogicalAnd_def parseLogicalAndLoop_def parseEquality_def parseEqualityLoop_def parseRelational_def parseRelationalLoop_def parseAdditive_def parseAdditiveLoop_def parseMultiplicative_def parseMultiplicativeLoop_def parseUnary_def parsePrimary_def parseCallExpression_def parseCommaExpressions_def parseMemberExpression_def parseArrayExpression_def parseObjectExpression_def parseCommaProperties_def parseObjectProperty_def parseThrowStatement_def)

lemma expr_numeral:
  "parseExpression (numeral k) = parseExpression_body (exprMethodsAt (pred_numeral k))"
  "parseLogicalOr (numeral k) = parseLogicalOr_body (exprMethodsAt (pred_numeral k))"
  "parseLogicalOrLoop (numeral k) = parseLogicalOrLoop_body (exprMethodsAt (pred_numeral k))"
  "parseLogicalAnd (numeral k) = parseLogicalAnd_body (exprMethodsAt (pred_numeral k))"
  "parseLogicalAndLoop (numeral k) = parseLogicalAndLoop_body (exprMethodsAt (pred_numeral k))"
  "parseEquality (numeral k) = parseEquality_body (exprMethodsAt (pred_numeral k))"
  "parseEqualityLoop (numeral k) = parseEqualityLoop_body (exprMethodsAt (pred_numeral k))"
  "parseRelational (numeral k) = parseRelational_body (exprMethodsAt (pred_numeral k))"
  "parseRelationalLoop (numeral k) = parseRelationalLoop_body (exprMethodsAt (pred_numeral k))"
  "parseAdditive (numeral k) = parseAdditive_body (exprMethodsAt (pred_numeral k))"
  "parseAdditiveLoop (numeral k) = parseAdditiveLoop_body (exprMethodsAt (pred_numeral k))"
  "parseMultiplicative (numeral k) = parseMultiplicative_body (exprMethodsAt (pred_numeral k))"
  "parseMultiplicativeLoop (numeral k) = parseMultiplicativeLoop_body (exprMethodsAt (pred_numeral k))"
  "parseUnary (numeral k) = parseUnary_body (exprMethodsAt (pred_numeral k))"
  "parsePrimary (numeral k) = parsePrimary_body (exprMethodsAt (pred_numeral k))"
  "parseCallExpression (numeral k) = parseCallExpression_body (exprMethodsAt (pred_numeral k))"
  "parseCommaExpressions (numeral k) = parseCommaExpressions_body (exprMethodsAt (pred_numeral k))"
  "parseMemberExpression (numeral k) = parseMemberExpression_body (exprMethodsAt (pred_numeral k))"
  "parseArrayExpression (numeral k) = parseArrayExpression_body (exprMethodsAt (pred_numeral k))"
  "parseObjectExpression (numeral k) = parseObjectExpression_body (exprMethodsAt (pred_numeral k))"
  "parseCommaProperties (numeral k) = parseCommaProperties_body (exprMethodsAt (pred_numeral k))"
  "parseObjectProperty (numeral k) = parseObjectProperty_body (exprMethodsAt (pred_numeral k))"
  "parseThrowStatement (numeral k) = parseThrowStatement_body (exprMethodsAt (pred_numeral k))"
  by (simp_all add: numeral_eq_Suc expr_Suc)

lemma stmt_zero:
  "parseStatement 0 s = OutOfFuel"
  "parseBlock 0 s = OutOfFuel"
  "parseBlockLoop 0 nos s = OutOfFuel"
  "parseIfStatement 0 s = OutOfFuel"
  "parseWhileStatement 0 s = OutOfFuel"
  "parseForStatement 0 s = OutOfFuel"
  "parseFunctionDeclaration 0 s = OutOfFuel"
  "parseClassDeclaration 0 s = OutOfFuel"
  "parseDoWhileStatement 0 s = OutOfFuel"
  "parseMatchStatement 0 s = OutOfFuel"
  "parseMatchLoop 0 nds s = OutOfFuel"
  "parseMatchCase 0 s = OutOfFuel"
  "parseMatchDefault 0 s = OutOfFuel"
  "parseRetryStatement 0 s = OutOfFuel"
  "parseTryStatement 0 s = OutOfFuel"
  "parseCatchClause 0 s = OutOfFuel"
  "parseFinallyClause 0 s = OutOfFuel"
  by (simp_all add: stmtMethodsAt.simps parseStatement_def parseBlock_def parseBlockLoop_def parseIfStatement_def parseWhileStatement_def parseForStatement_def parseFunctionDeclaration_def parseClassDeclaration_def parseDoWhileStatement_def parseMatchStatement_def parseMatchLoop_def parseMatchCase_def parseMatchDefault_def parseRetryStatement_def parseTryStatement_def parseCatchClause_def parseFinallyClause_def)

lemma stmt_Suc:
  "parseStatement (Suc n) = parseStatement_body n (stmtMethodsAt n)"
  "parseBlock (Suc n) = parseBlock_body n (stmtMethodsAt n)"
  "parseBlockLoop (Suc n) = parseBlockLoop_body n (stmtMethodsAt n)"
  "parseIfStatement (Suc n) = parseIfStatement_body n (stmtMethodsAt n)"
  "parseWhileStatement (Suc n) = parseWhileStatement_body n (stmtMethodsAt n)"
  "parseForStatement (Suc n) = parseForStatement_body n (stmtMethodsAt n)"
  "parseFunctionDeclaration (Suc n) = parseFunctionDeclaration_body n (stmtMethodsAt n)"
  "parseClassDeclaration (Suc n) = parseClassDeclaration_body n (stmtMethodsAt n)"
  "parseDoWhileStatement (Suc n) = parseDoWhileStatement_body n (stmtMethodsAt n)"
  "parseMatchStatement (Suc n) = parseMatchStatement_body n (stmtMethodsAt n)"
  "parseMatchLoop (Suc n) = parseMatchLoop_body n (stmtMethodsAt n)"
  "parseMatchCase (Suc n) = parseMatchCase_body n (stmtMethodsAt n)"
  "parseMatchDefault (Suc n) = parseMatchDefault_body n (stmtMethodsAt n)"
  "parseRetryStatement (Suc n) = parseRetryStatement_body n (stmtMethodsAt n)"
  "parseTryStatement (Suc n) = parseTryStatement_body n (stmtMethodsAt n)"
  "parseCatchClause (Suc n) = parseCatchClause_body n (stmtMethodsAt n)"
  "parseFinallyClause (Suc n) = parseFinallyClause_body n (stmtMethodsAt n)"
  by (simp_all add: stmtMethodsAt.simps Let_def parseStatement_def parseBlock_def parseBlockLoop_def parseIfStatement_def parseWhileStatement_def parseForStatement_def parseFunctionDeclaration_def parseClassDeclaration_def parseDoWhileStatement_def parseMatchStatement_def parseMatchLoop_def parseMatchCase_def parseMatchDefault_def parseRetryStatement_def parseTryStatement_def parseCatchClause_def parseFinallyClause_def)

lemma stmt_fold:
  "m_parseStatement (stmtMethodsAt n) = parseStatement n"
  "m_parseBlock (stmtMethodsAt n) = parseBlock n"
  "m_parseBlockLoop (stmtMethodsAt n) = parseBlockLoop n"
  "m_parseIfStatement (stmtMethodsAt n) = parseIfStatement n"
  "m_parseWhileStatement (stmtMethodsAt n) = parseWhileStatement n"
  "m_parseForStatement (stmtMethodsAt n) = parseForStatement n"
  "m_parseFunctionDeclaration (stmtMethodsAt n) = parseFunctionDeclaration n"
  "m_parseClassDeclaration (stmtMethodsAt n) = parseClassDeclaration n"
  "m_parseDoWhileStatement (stmtMethodsAt n) = parseDoWhileStatement n"
  "m_parseMatchStatement (stmtMethodsAt n) = parseMatchStatement n"
  "m_parseMatchLoop (stmtMethodsAt n) = parseMatchLoop n"
  "m_parseMatchCase (stmtMethodsAt n) = parseMatchCase n"
  "m_parseMatchDefault (stmtMethodsAt n) = parseMatchDefault n"
  "m_parseRetryStatement (stmtMethodsAt n) = parseRetryStatement n"
  "m_parseTryStatement (stmtMethodsAt n) = parseTryStatement n"
  "m_parseCatchClause (stmtMethodsAt n) = parseCatchClause n"
  "m_parseFinallyClause (stmtMethodsAt n) = parseFinallyClause n"
  by (simp_all add: parseStatement_def parseBlock_def parseBlockLoop_def parseIfStatement_def parseWhileStatement_def parseForStatement_def parseFunctionDeclaration_def parseClassDeclaration_def parseDoWhileStatement_def parseMatchStatement_def parseMatchLoop_def parseMatchCase_def parseMatchDefault_def parseRetryStatement_def parseTryStatement_def parseCatchClause_def parseFinallyClause_def)

lemma stmt_numeral:
  "parseStatement (numeral k) = parseStatement_body (pred_numeral k) (stmtMethodsAt (pred_numeral k))"
  "parseBlock (numeral k) = parseBlock_body (pred_numeral k) (stmtMethodsAt (pred_numeral k))"
  "parseBlockLoop (numeral k) = parseBlockLoop_body (pred_numeral k) (stmtMethodsAt (pred_numeral k))"
  "parseIfStatement (numeral k) = parseIfStatement_body (pred_numeral k) (stmtMethodsAt (pred_numeral k))"
  "parseWhileStatement (numeral k) = parseWhileStatement_body (pred_numeral k) (stmtMethodsAt (pred_numeral k))"
  "parseForStatement (numeral k) = parseForStatement_body (pred_numeral k) (stmtMethodsAt (pred_numeral k))"
  "parseFunctionDeclaration (numeral k) = parseFunctionDeclaration_body (pred_numeral k) (stmtMethodsAt (pred_numeral k))"
  "parseClassDeclaration (numeral k) = parseClassDeclaration_body (pred_numeral k) (stmtMethodsAt (pred_numeral k))"
  "parseDoWhileStatement (numeral k) = parseDoWhileStatement_body (pred_numeral k) (stmtMethodsAt (pred_numeral k))"
  "parseMatchStatement (numeral k) = parseMatchStatement_body (pred_numeral k) (stmtMethodsAt (pred_numeral k))"
  "parseMatchLoop (numeral k) = parseMatchLoop_body (pred_numeral k) (stmtMethodsAt (pred_numeral k))"
  "parseMatchCase (numeral k) = parseMatchCase_body (pred_numeral k) (stmtMethodsAt (pred_numeral k))"
  "parseMatchDefault (numeral k) = parseMatchDefault_body (pred_numeral k) (stmtMethodsAt (pred_numeral k))"
  "parseRetryStatement (numeral k) = parseRetryStatement_body (pred_numeral k) (stmtMethodsAt (pred_numeral k))"
  "parseTryStatement (numeral k) = parseTryStatement_body (pred_numeral k) (stmtMethodsAt (pred_numeral k))"
  "parseCatchClause (numeral k) = parseCatchClause_body (pred_numeral k) (stmtMethodsAt (pred_numeral k))"
  "parseFinallyClause (numeral k) = parseFinallyClause_body (pred_numeral k) (stmtMethodsAt (pred_numeral k))"
  by (simp_all add: numeral_eq_Suc stmt_Suc)

lemma parseLoop_numeral:
  "parseLoop (numeral k) statements s =
     (if position s < length (tokens s)
      then andThen (parseStatement (pred_numeral k) s)
             (\<lambda>stmt. parseLoop (pred_numeral k)
                (case stmt of Some x \<Rightarrow> statements @ [x] | None \<Rightarrow> statements))
      else Normal statements s)"
  by (simp add: numeral_eq_Suc)

text \<open>Evaluation order: the first argument of a sequencing operator is evaluated
  before its continuation is looked at.\<close>

lemma andThen_simps:
  "andThen (Normal v s) k = k v s"
  "andThen (Thrown e s) k = Thrown e s"
  "andThen OutOfFuel k = OutOfFuel"
  by (simp_all add: andThen_def)

lemma andThen_cong: "r = r' \<Longrightarrow> andThen r k = andThen r' k"
  by simp

lemma catchError_simps:
  "catchError (Normal v s) h = Normal v s"
  "catchError (Thrown e s) h = h e s"
  "catchError OutOfFuel h = OutOfFuel"
  by (simp_all add: catchError_def)

lemma catchError_cong: "r = r' \<Longrightarrow> catchError r h = catchError r' h"
  by simp

lemma withToken_simps:
  "withToken None prop s k = Thrown (TypeError prop) s"
  "withToken (Some t) prop s k = k t"
  by (simp_all add: withToken_def)

lemma withToken_cong: "t = t' \<Longrightarrow> withToken t prop s k = withToken t' prop s k"
  by simp

lemma someNode_simps:
  "someNode (Normal v s) = Normal (Some v) s"
  "someNode (Thrown e s) = Thrown e s"
  "someNode OutOfFuel = OutOfFuel"
  by (simp_all add: someNode_def andThen_def)

lemmas parser_bodies =
  parseExpression_body_def parseLogicalOr_body_def parseLogicalOrLoop_body_def
  parseLogicalAnd_body_def parseLogicalAndLoop_body_def parseEquality_body_def
  parseEqualityLoop_body_def parseRelational_body_def parseRelationalLoop_body_def
  parseAdditive_body_def parseAdditiveLoop_body_def parseMultiplicative_body_def
  parseMultiplicativeLoop_body_def parseUnary_body_def parsePrimary_body_def
  parseCallExpression_body_def parseCommaExpressions_body_def parseMemberExpression_body_def
  parseArrayExpression_body_def parseObjectExpression_body_def parseCommaProperties_body_def
  parseObjectProperty_body_def parseThrowStatement_body_def parseStatement_body_def
  parseBlock_body_def parseBlockLoop_body_def parseIfStatement_body_def
  parseWhileStatement_body_def parseForStatement_body_def parseFunctionDeclaration_body_def
  parseClassDeclaration_body_def parseDoWhileStatement_body_def parseMatchStatement_body_def
  parseMatchLoop_body_def parseMatchCase_body_def parseMatchDefault_body_def
  parseRetryStatement_body_def parseTryStatement_body_def parseCatchClause_body_def
  parseFinallyClause_body_def

lemmas parser_eval =
  expr_zero expr_numeral expr_fold stmt_zero stmt_numeral stmt_fold parseLoop_numeral
  andThen_simps catchError_simps withToken_simps someNode_simps parser_bodies
  parseVariableDeclaration_def parseAssignmentExpression_def parseExpressionStatement_def
  parseReturnStatement_def throwAtCurrent_def forClause_def expectCloseParen_def
  curIs_def curIsNot_def curIsIdentifier_def currentToken_def nextToken_def addError_def
  errorPos_def curEndOr_def plusOne_def parseTemplateLiteral_def quoted_def
  isTypeKeyword_def isStatementStart_def skipToNextStatement.simps skipWhile.simps
  parseParamsLoop.simps findEndOfLine_def findEndOfLineFrom.simps Let_def

lemmas parse_start = parse_def isBlank_def isWhitespace_def newParser_def mkToken_def

lemmas checker_eval =
  check_def pushError_def getPositionFromIndex_def isCompatibleType_def numberIsInteger_def
  decimalValue_def isDigit_def orAny_def quoted_def Let_def

section \<open>Compatibility of types\<close>

lemma tokens_widening:
  "tokenize ''var float y = 1; y = 2;'' = Inr
     [mkToken KEYWORD ''var'' 0 3, mkToken KEYWORD ''float'' 4 9, mkToken IDENTIFIER ''y'' 10 11,
      mkToken SYMBOL ''='' 12 13, mkToken NUMBER ''1'' 14 15, mkToken SYMBOL '';'' 15 16,
      mkToken IDENTIFIER ''y'' 17 18, mkToken SYMBOL ''='' 19 20, mkToken NUMBER ''2'' 21 22,
      mkToken SYMBOL '';'' 22 23]"
  by code_simp

lemma parse_widening:
  "parse 100 newParser ''var float y = 1; y = 2;'' =
     Normal
       \<lparr>body =
          [VariableDeclaration (Some ''float'') ''y''
             (Some (Literal (JNumber ''1'') ''1'' (Some 14) (Some 15))) False (Some 0) (Some 17),
           AssignmentExpression (Identifier ''y'' (Some 17) (Some 18))
             (Literal (JNumber ''2'') ''2'' (Some 21) (Some 22)) (Some 17) (Some 23)],
        prog_errors = Some []\<rparr>
       \<lparr>tokens =
          [mkToken KEYWORD ''var'' 0 3, mkToken KEYWORD ''float'' 4 9, mkToken IDENTIFIER ''y'' 10 11,
           mkToken SYMBOL ''='' 12 13, mkToken NUMBER ''1'' 14 15, mkToken SYMBOL '';'' 15 16,
           mkToken IDENTIFIER ''y'' 17 18, mkToken SYMBOL ''='' 19 20, mkToken NUMBER ''2'' 21 22,
           mkToken SYMBOL '';'' 22 23],
        position = 10, errors = [], input = ''var float y = 1; y = 2;''\<rparr>"
  apply (simp add: parse_start tokens_widening)
  apply (simp add: parser_eval cong: andThen_cong catchError_cong withToken_cong)
  done

text \<open>
  C6. \<^verbatim>\<open>isCompatibleType(expected, actual)\<close> is true exactly when the two are equal, or
  either is \<^verbatim>\<open>any\<close>, or \<^verbatim>\<open>expected\<close> is \<^verbatim>\<open>float\<close> and \<^verbatim>\<open>actual\<close> is \<^verbatim>\<open>int\<close>, or
  \<^verbatim>\<open>actual\<close> is \<^verbatim>\<open>nil\<close>; and parsing and checking \<^verbatim>\<open>var float y = 1; y = 2;\<close> gives
  no syntax error and no diagnostic.
\<close>

theorem isCompatibleType_widening:
  "(isCompatibleType expected actual \<longleftrightarrow>
      expected = actual \<or> expected = ''any'' \<or> actual = ''any''
      \<or> (expected = ''float'' \<and> actual = ''int'') \<or> actual = ''nil'')
   \<and> (\<exists>ast s. parse 100 newParser ''var float y = 1; y = 2;'' = Normal ast s
        \<and> prog_errors ast = Some []
        \<and> ck_errors (check ast ''var float y = 1; y = 2;'' []) = [])"
proof
  show "isCompatibleType expected actual \<longleftrightarrow>
      expected = actual \<or> expected = ''any'' \<or> actual = ''any''
      \<or> (expected = ''float'' \<and> actual = ''int'') \<or> actual = ''nil''"
    by (simp add: isCompatibleType_def)
  show "\<exists>ast s. parse 100 newParser ''var float y = 1; y = 2;'' = Normal ast s
        \<and> prog_errors ast = Some []
        \<and> ck_errors (check ast ''var float y = 1; y = 2;'' []) = []"
    by (simp add: parse_widening checker_eval)
qed

section \<open>Progress of the statement loops\<close>

lemma tokens_brace: "tokenize ''}'' = Inr [mkToken SYMBOL ''}'' 0 1]"
  by code_simp

lemma skipToNextStatement_brace:
  "currentToken s = Some t \<Longrightarrow> tok_value t = ''}'' \<or> tok_value t = ''{'' \<Longrightarrow> skipToNextStatement s = s"
  by (subst skipToNextStatement.simps) auto

lemma parseStatement_brace:
  assumes "currentToken s = Some t" and "tok_value t = ''}''" and "tok_type t \<noteq> IDENTIFIER"
  shows "parseStatement (Suc n) s = Normal None s"
  using assms
  by (simp add: stmt_Suc parseStatement_body_def catchError_simps skipToNextStatement_brace)

lemma parseLoop_brace:
  assumes "currentToken s = Some t" and "tok_value t = ''}''" and "tok_type t \<noteq> IDENTIFIER"
  shows "parseLoop n statements s = OutOfFuel"
proof (induction n)
  case 0
  show ?case by simp
next
  case (Suc n)
  have pos: "position s < length (tokens s)"
    using assms(1) by (simp add: currentToken_def split: if_splits)
  show ?case
  proof (cases n)
    case 0
    then show ?thesis using pos by (simp add: stmt_zero andThen_simps)
  next
    case (Suc m)
    then show ?thesis
      using Suc.IH pos parseStatement_brace [OF assms, of m]
      by (simp add: andThen_simps)
  qed
qed

text \<open>
  C3. The claim is that \<^verbatim>\<open>parse\<close> terminates on every input that tokenizes, a lone
  \<^verbatim>\<open>}\<close> included. On the input \<^verbatim>\<open>}\<close> it does not: \<^verbatim>\<open>parseStatement\<close> hands the
  token to \<^verbatim>\<open>skipToNextStatement\<close>, which returns at once on a block delimiter
  without consuming it, and the top-level loop calls \<^verbatim>\<open>parseStatement\<close> again at the
  same position. Whatever the fuel, the model runs out of it.
\<close>

theorem parse_stray_brace_never_returns: "parse n newParser ''}'' = OutOfFuel"
proof -
  have "parseLoop n [] (newParser\<lparr>input := ''}'', tokens := [mkToken SYMBOL ''}'' 0 1], position := 0\<rparr>)
          = OutOfFuel"
    by (rule parseLoop_brace [where t = "mkToken SYMBOL ''}'' 0 1"])
       (simp_all add: currentToken_def mkToken_def)
  then show ?thesis
    by (simp add: parse_def isBlank_def isWhitespace_def tokens_brace andThen_simps)
qed

section \<open>Spans of the nodes\<close>

lemma tokens_return:
  "tokenize ''return;'' = Inr [mkToken KEYWORD ''return'' 0 6, mkToken SYMBOL '';'' 6 7]"
  by code_simp

text \<open>
  C1. The claim is that, when no syntax error is recorded, every node's span lies
  within the text. \<^verbatim>\<open>parseReturnStatement\<close> gives a \<^verbatim>\<open>return\<close> without argument the
  end \<^verbatim>\<open>startToken.end + 6\<close> (commented "+6 for 'return'"), which counts the keyword
  twice: on \<^verbatim>\<open>return;\<close>, seven characters long, no error is recorded and the
  ReturnStatement ends at offset 12.
\<close>

theorem parse_return_end_beyond_text:
  "parse 100 newParser ''return;'' =
     Normal \<lparr>body = [ReturnStatement None (Some 0) (Some 12)], prog_errors = Some []\<rparr>
       \<lparr>tokens = [mkToken KEYWORD ''return'' 0 6, mkToken SYMBOL '';'' 6 7], position = 2,
        errors = [], input = ''return;''\<rparr>
   \<and> length ''return;'' < 12"
  apply (simp add: parse_start tokens_return)
  apply (simp add: parser_eval cong: andThen_cong catchError_cong withToken_cong)
  done

section \<open>Errors in function and class declarations\<close>

















section \<open>The soft error of a variable declaration\<close>

lemma pres_simps [simp]:
  "pres f (Normal v s) \<longleftrightarrow> frame s = f"
  "pres f (Thrown e s) \<longleftrightarrow> frame s = f"
  "pres f OutOfFuel"
  by (simp_all add: pres_def)

lemma frame_nextToken [simp]: "frame (nextToken s) = frame s"
  by (simp add: frame_def nextToken_def)

lemma pres_andThen:
  "pres f r \<Longrightarrow> (\<And>v s. frame s = f \<Longrightarrow> pres f (k v s)) \<Longrightarrow> pres f (andThen r k)"
  by (cases r) (simp_all add: andThen_def)

lemma pres_throwAtCurrent [simp]: "pres f (throwAtCurrent msg s) \<longleftrightarrow> frame s = f"
  by (simp add: throwAtCurrent_def split: option.splits)

lemma pres_withToken:
  "frame s = f \<Longrightarrow> (\<And>tok. t = Some tok \<Longrightarrow> pres f (k tok)) \<Longrightarrow> pres f (withToken t prop s k)"
  by (cases t) (simp_all add: withToken_def)

lemma exprPreservesD:
  assumes "exprPreserves this" and "frame s = f"
  shows
    "pres f (m_parseExpression this s)"
    "pres f (m_parseLogicalOr this s)"
    "pres f (m_parseLogicalOrLoop this nd s)"
    "pres f (m_parseLogicalAnd this s)"
    "pres f (m_parseLogicalAndLoop this nd s)"
    "pres f (m_parseEquality this s)"
    "pres f (m_parseEqualityLoop this nd s)"
    "pres f (m_parseRelational this s)"
    "pres f (m_parseRelationalLoop this nd s)"
    "pres f (m_parseAdditive this s)"
    "pres f (m_parseAdditiveLoop this nd s)"
    "pres f (m_parseMultiplicative this s)"
    "pres f (m_parseMultiplicativeLoop this nd s)"
    "pres f (m_parseUnary this s)"
    "pres f (m_parsePrimary this s)"
    "pres f (m_parseCallExpression this nd s)"
    "pres f (m_parseCommaExpressions this nds s)"
    "pres f (m_parseMemberExpression this nd s)"
    "pres f (m_parseArrayExpression this s)"
    "pres f (m_parseObjectExpression this s)"
    "pres f (m_parseCommaProperties this nds s)"
    "pres f (m_parseObjectProperty this s)"
    "pres f (m_parseThrowStatement this s)"
  using assms by (auto simp: exprPreserves_def)

lemma parseExpression_pres:
  assumes "exprPreserves this"
  shows "pres (frame s) (parseExpression_body this s)"
  unfolding parseExpression_body_def Let_def parseTemplateLiteral_def
  by (auto intro!: pres_andThen pres_withToken exprPreservesD [OF assms] split: option.splits)

lemma parseLogicalOr_pres:
  assumes "exprPreserves this"
  shows "pres (frame s) (parseLogicalOr_body this s)"
  unfolding parseLogicalOr_body_def Let_def parseTemplateLiteral_def
  by (auto intro!: pres_andThen pres_withToken exprPreservesD [OF assms] split: option.splits)

lemma parseLogicalOrLoop_pres:
  assumes "exprPreserves this"
  shows "pres (frame s) (parseLogicalOrLoop_body this nd s)"
  unfolding parseLogicalOrLoop_body_def Let_def parseTemplateLiteral_def
  by (auto intro!: pres_andThen pres_withToken exprPreservesD [OF assms] split: option.splits)

lemma parseLogicalAnd_pres:
  assumes "exprPreserves this"
  shows "pres (frame s) (parseLogicalAnd_body this s)"
  unfolding parseLogicalAnd_body_def Let_def parseTemplateLiteral_def
  by (auto intro!: pres_andThen pres_withToken exprPreservesD [OF assms] split: option.splits)

lemma parseLogicalAndLoop_pres:
  assumes "exprPreserves this"
  shows "pres (frame s) (parseLogicalAndLoop_body this nd s)"
  unfolding parseLogicalAndLoop_body_def Let_def parseTemplateLiteral_def
  by (auto intro!: pres_andThen pres_withToken exprPreservesD [OF assms] split: option.splits)

lemma parseEquality_pres:
  assumes "exprPreserves this"
  shows "pres (frame s) (parseEquality_body this s)"
  unfolding parseEquality_body_def Let_def parseTemplateLiteral_def
  by (auto intro!: pres_andThen pres_withToken exprPreservesD [OF assms] split: option.splits)

lemma parseEqualityLoop_pres:
  assumes "exprPreserves this"
  shows "pres (frame s) (parseEqualityLoop_body this nd s)"
  unfolding parseEqualityLoop_body_def Let_def parseTemplateLiteral_def
  by (auto intro!: pres_andThen pres_withToken exprPreservesD [OF assms] split: option.splits)

lemma parseRelational_pres:
  assumes "exprPreserves this"
  shows "pres (frame s) (parseRelational_body this s)"
  unfolding parseRelational_body_def Let_def parseTemplateLiteral_def
  by (auto intro!: pres_andThen pres_withToken exprPreservesD [OF assms] split: option.splits)

lemma parseRelationalLoop_pres:
  assumes "exprPreserves this"
  shows "pres (frame s) (parseRelationalLoop_body this nd s)"
  unfolding parseRelationalLoop_body_def Let_def parseTemplateLiteral_def
  by (auto intro!: pres_andThen pres_withToken exprPreservesD [OF assms] split: option.splits)

lemma parseAdditive_pres:
  assumes "exprPreserves this"
  shows "pres (frame s) (parseAdditive_body this s)"
  unfolding parseAdditive_body_def Let_def parseTemplateLiteral_def
  by (auto intro!: pres_andThen pres_withToken exprPreservesD [OF assms] split: option.splits)

lemma parseAdditiveLoop_pres:
  assumes "exprPreserves this"
  shows "pres (frame s) (parseAdditiveLoop_body this nd s)"
  unfolding parseAdditiveLoop_body_def Let_def parseTemplateLiteral_def
  by (auto intro!: pres_andThen pres_withToken exprPreservesD [OF assms] split: option.splits)

lemma parseMultiplicative_pres:
  assumes "exprPreserves this"
  shows "pres (frame s) (parseMultiplicative_body this s)"
  unfolding parseMultiplicative_body_def Let_def parseTemplateLiteral_def
  by (auto intro!: pres_andThen pres_withToken exprPreservesD [OF assms] split: option.splits)

lemma parseMultiplicativeLoop_pres:
  assumes "exprPreserves this"
  shows "pres (frame s) (parseMultiplicativeLoop_body this nd s)"
  unfolding parseMultiplicativeLoop_body_def Let_def parseTemplateLiteral_def
  by (auto intro!: pres_andThen pres_withToken exprPreservesD [OF assms] split: option.splits)

lemma parseUnary_pres:
  assumes "exprPreserves this"
  shows "pres (frame s) (parseUnary_body this s)"
  unfolding parseUnary_body_def Let_def parseTemplateLiteral_def
  by (auto intro!: pres_andThen pres_withToken exprPreservesD [OF assms] split: option.splits)

lemma parsePrimary_pres:
  assumes "exprPreserves this"
  shows "pres (frame s) (parsePrimary_body this s)"
  unfolding parsePrimary_body_def Let_def parseTemplateLiteral_def
  by (auto intro!: pres_andThen pres_withToken exprPreservesD [OF assms] split: option.splits)

lemma parseCallExpression_pres:
  assumes "exprPreserves this"
  shows "pres (frame s) (parseCallExpression_body this nd s)"
  unfolding parseCallExpression_body_def Let_def parseTemplateLiteral_def
  by (auto intro!: pres_andThen pres_withToken exprPreservesD [OF assms] split: option.splits)

lemma parseCommaExpressions_pres:
  assumes "exprPreserves this"
  shows "pres (frame s) (parseCommaExpressions_body this nds s)"
  unfolding parseCommaExpressions_body_def Let_def parseTemplateLiteral_def
  by (auto intro!: pres_andThen pres_withToken exprPreservesD [OF assms] split: option.splits)

lemma parseMemberExpression_pres:
  assumes "exprPreserves this"
  shows "pres (frame s) (parseMemberExpression_body this nd s)"
  unfolding parseMemberExpression_body_def Let_def parseTemplateLiteral_def
  by (auto intro!: pres_andThen pres_withToken exprPreservesD [OF assms] split: option.splits)

lemma parseArrayExpression_pres:
  assumes "exprPreserves this"
  shows "pres (frame s) (parseArrayExpression_body this s)"
  unfolding parseArrayExpression_body_def Let_def parseTemplateLiteral_def
  by (auto intro!: pres_andThen pres_withToken exprPreservesD [OF assms] split: option.splits)

lemma parseObjectExpression_pres:
  assumes "exprPreserves this"
  shows "pres (frame s) (parseObjectExpression_body this s)"
  unfolding parseObjectExpression_body_def Let_def parseTemplateLiteral_def
  by (auto intro!: pres_andThen pres_withToken exprPreservesD [OF assms] split: option.splits)

lemma parseCommaProperties_pres:
  assumes "exprPreserves this"
  shows "pres (frame s) (parseCommaProperties_body this nds s)"
  unfolding parseCommaProperties_body_def Let_def parseTemplateLiteral_def
  by (auto intro!: pres_andThen pres_withToken exprPreservesD [OF assms] split: option.splits)

lemma parseObjectProperty_pres:
  assumes "exprPreserves this"
  shows "pres (frame s) (parseObjectProperty_body this s)"
  unfolding parseObjectProperty_body_def Let_def parseTemplateLiteral_def
  by (auto intro!: pres_andThen pres_withToken exprPreservesD [OF assms] split: option.splits)

lemma parseThrowStatement_pres:
  assumes "exprPreserves this"
  shows "pres (frame s) (parseThrowStatement_body this s)"
  unfolding parseThrowStatement_body_def Let_def parseTemplateLiteral_def
  by (auto intro!: pres_andThen pres_withToken exprPreservesD [OF assms] split: option.splits)

lemma exprPreserves_at: "exprPreserves (exprMethodsAt n)"
proof (induction n)
  case 0
  show ?case by (simp add: exprPreserves_def exprMethodsAt.simps)
next
  case (Suc n)
  show ?case
    unfolding exprPreserves_def exprMethodsAt.simps Let_def
    by (simp add: parseExpression_pres [OF Suc] parseLogicalOr_pres [OF Suc] parseLogicalOrLoop_pres [OF Suc] parseLogicalAnd_pres [OF Suc] parseLogicalAndLoop_pres [OF Suc] parseEquality_pres [OF Suc] parseEqualityLoop_pres [OF Suc] parseRelational_pres [OF Suc] parseRelationalLoop_pres [OF Suc] parseAdditive_pres [OF Suc] parseAdditiveLoop_pres [OF Suc] parseMultiplicative_pres [OF Suc] parseMultiplicativeLoop_pres [OF Suc] parseUnary_pres [OF Suc] parsePrimary_pres [OF Suc] parseCallExpression_pres [OF Suc] parseCommaExpressions_pres [OF Suc] parseMemberExpression_pres [OF Suc] parseArrayExpression_pres [OF Suc] parseObjectExpression_pres [OF Suc] parseCommaProperties_pres [OF Suc] parseObjectProperty_pres [OF Suc] parseThrowStatement_pres [OF Suc])
qed

lemma parseExpression_frame:
  "parseExpression n s = Normal v s' \<Longrightarrow> tokens s' = tokens s \<and> errors s' = errors s \<and> input s' = input s"
  using exprPreservesD(1) [OF exprPreserves_at, of s "frame s" n]
  by (simp add: parseExpression_def frame_def)

lemma findEndOfLineFrom_spec:
  "(findEndOfLineFrom inp i = length inp
      \<or> (findEndOfLineFrom inp i < length inp
          \<and> inp ! findEndOfLineFrom inp i \<in> {CHR 0x0A, CHR 0x0D}))
   \<and> (\<forall>j. i \<le> j \<and> j < findEndOfLineFrom inp i \<longrightarrow> inp ! j \<notin> {CHR 0x0A, CHR 0x0D})"
proof (induction inp i rule: findEndOfLineFrom.induct)
  case (1 inp i)
  show ?case
  proof (cases "i < length inp")
    case False
    then have "findEndOfLineFrom inp i = length inp"
      by (subst findEndOfLineFrom.simps) simp
    with False show ?thesis by auto
  next
    case inside: True
    show ?thesis
    proof (cases "inp ! i = CHR 0x0A \<or> inp ! i = CHR 0x0D")
      case True
      with inside have "findEndOfLineFrom inp i = i"
        by (subst findEndOfLineFrom.simps) simp
      with inside True show ?thesis by auto
    next
      case False
      have eq: "findEndOfLineFrom inp i = findEndOfLineFrom inp (i + 1)"
        using inside False by (subst findEndOfLineFrom.simps) simp
      have "\<And>j. i \<le> j \<Longrightarrow> j = i \<or> i + 1 \<le> j" by arith
      with "1.IH" [OF inside False] False show ?thesis
        unfolding eq by (metis insert_iff empty_iff)
    qed
  qed
qed

lemma tokens_for_header: "tokenize ''for (var i = 0 i)'' = Inr
   [mkToken KEYWORD ''for'' 0 3, mkToken SYMBOL ''('' 4 5, mkToken KEYWORD ''var'' 5 8,
    mkToken IDENTIFIER ''i'' 9 10, mkToken SYMBOL ''='' 11 12, mkToken NUMBER ''0'' 13 14,
    mkToken IDENTIFIER ''i'' 15 16, mkToken SYMBOL '')'' 16 17]"
  by code_simp

text \<open>
  C5, as stated, fails: the claim is that after every variable declaration without its
  semicolon \<^verbatim>\<open>parse\<close> has recorded exactly one ParseError, returns the declaration node
  and goes on normally. In \<^verbatim>\<open>for (var i = 0 i)\<close> the declaration of the header has no
  semicolon. Its error is recorded, from offset 10 to the end of the line, but
  \<^verbatim>\<open>parseForStatement\<close> then finds no \<^verbatim>\<open>;\<close> and raises: \<^verbatim>\<open>parse\<close> returns with two
  errors and without the declaration node, the statement being dropped and parsing
  resumed at the identifier \<^verbatim>\<open>i\<close>.
\<close>

theorem for_header_declaration_lost:
  "parse 100 newParser ''for (var i = 0 i)'' =
     Normal
       \<lparr>body = [ExpressionStatement (Identifier ''i'' (Some 15) (Some 16)) (Some 15) (Some 16)],
        prog_errors =
          Some [\<lparr>pe_message = ''Missing semicolon at end of variable declaration'',
                 pe_start = 10, pe_end = 17\<rparr>,
                \<lparr>pe_message = ''Expected '' @ quoted '';'' @ '' after for init at position 15'',
                 pe_start = 0, pe_end = 3\<rparr>]\<rparr>
       \<lparr>tokens =
          [mkToken KEYWORD ''for'' 0 3, mkToken SYMBOL ''('' 4 5, mkToken KEYWORD ''var'' 5 8,
           mkToken IDENTIFIER ''i'' 9 10, mkToken SYMBOL ''='' 11 12, mkToken NUMBER ''0'' 13 14,
           mkToken IDENTIFIER ''i'' 15 16, mkToken SYMBOL '')'' 16 17],
        position = 8,
        errors = [\<lparr>pe_message = ''Missing semicolon at end of variable declaration'',
                   pe_start = 10, pe_end = 17\<rparr>,
                  \<lparr>pe_message = ''Expected '' @ quoted '';'' @ '' after for init at position 15'',
                   pe_start = 0, pe_end = 3\<rparr>],
        input = ''for (var i = 0 i)''\<rparr>"
  apply (simp add: parse_start tokens_for_header)
  apply (simp add: parser_eval showNat.simps skipToNextStatement.simps isStatementStart_def
           cong: andThen_cong catchError_cong withToken_cong)
  done

lemma tokens_two_declarations:
  "tokenize (''var x = 5'' @ [CHR 0x0A] @ ''var y = 6;'') = Inr (tokens twoDeclarations)"
  unfolding twoDeclarations_def by code_simp

lemma parse_two_declarations:
  "parse 100 newParser (''var x = 5'' @ [CHR 0x0A] @ ''var y = 6;'') =
            Normal
              \<lparr>body =
                 [VariableDeclaration None ''x''
                    (Some (Literal (JNumber ''5'') ''5'' (Some 8) (Some 9))) False (Some 0) (Some 5),
                  VariableDeclaration None ''y''
                    (Some (Literal (JNumber ''6'') ''6'' (Some 18) (Some 19))) False (Some 10) (Some 16)],
               prog_errors =
                 Some [\<lparr>pe_message = ''Missing semicolon at end of variable declaration'',
                        pe_start = 5, pe_end = 9\<rparr>]\<rparr>
              (twoDeclarations\<lparr>position := 9,
                 errors := [\<lparr>pe_message = ''Missing semicolon at end of variable declaration'',
                             pe_start = 5, pe_end = 9\<rparr>]\<rparr>)"
  unfolding parse_def tokens_two_declarations
  apply (simp add: isBlank_def isWhitespace_def newParser_def twoDeclarations_def mkToken_def)
  apply (simp add: parser_eval isTypeKeyword_def cong: andThen_cong catchError_cong withToken_cong)
  done

lemma findEndOfLineFrom_ge: "i \<le> length inp \<Longrightarrow> i \<le> findEndOfLineFrom inp i"
proof (induction inp i rule: findEndOfLineFrom.induct)
  case (1 inp i)
  show ?case
  proof (cases "i < length inp")
    case False
    with "1.prems" show ?thesis
      by (subst findEndOfLineFrom.simps) simp
  next
    case inside: True
    show ?thesis
    proof (cases "inp ! i = CHR 0x0A \<or> inp ! i = CHR 0x0D")
      case True
      with inside show ?thesis
        by (subst findEndOfLineFrom.simps) simp
    next
      case False
      from "1.IH" [OF inside False] inside have "i + 1 \<le> findEndOfLineFrom inp (i + 1)"
        by simp
      moreover have "findEndOfLineFrom inp i = findEndOfLineFrom inp (i + 1)"
        using inside False by (subst findEndOfLineFrom.simps) simp
      ultimately show ?thesis by simp
    qed
  qed
qed

text \<open>
  C5, amended. A variable declaration whose trailing semicolon is missing: after the
  keywords (\<^verbatim>\<open>var\<close>, or \<^verbatim>\<open>static var\<close>), an optional type keyword and the name, and after
  the initializer if there is one (parsed without an exception), the current token is
  not \<^verbatim>\<open>;\<close>. Then \<^verbatim>\<open>parseVariableDeclaration\<close> does not throw. It returns the
  declaration node, whose \<^verbatim>\<open>end\<close> is the end of the name token, and the state reached
  after the initializer with exactly one ParseError appended. The error starts at the
  end of the name token and ends at the end of the source line holding that offset: the
  first line break at or after it, or the end of the input (the name token lying within
  the input). This is the line of the name, whatever line the initializer ends on.
  No token is skipped: \<^verbatim>\<open>parseStatement\<close> returns the node, and the loop of \<^verbatim>\<open>parse\<close>
  goes on from the token after the declaration with the node appended to the body.
  What follows is parsed as usual, so that nothing is promised about it.
  For \<^verbatim>\<open>var x = 5\<close> followed on the next line by \<^verbatim>\<open>var y = 6;\<close>, \<^verbatim>\<open>parse\<close> returns both
  declarations and this single error, from offset 5 to offset 9.
\<close>

theorem missing_semicolon_recorded:
  assumes start: "currentToken s = Some startToken"
    and keyword: "tok_value startToken = ''var'' \<and> s1 = nextToken s
                  \<or> tok_value startToken = ''static'' \<and> curIs ''var'' (nextToken s)
                     \<and> s1 = nextToken (nextToken s)"
    and ty: "(declaredType, s2) =
                (case currentToken s1 of
                   None \<Rightarrow> (None, s1)
                 | Some t \<Rightarrow> if isTypeKeyword (tok_value t) then (Some (tok_value t), nextToken s1)
                             else (None, s1))"
    and name: "currentToken s2 = Some nameToken" "tok_type nameToken = IDENTIFIER"
    and inside: "tok_end nameToken \<le> length (input s)"
    and init: "if curIs ''='' (nextToken s2)
               then parseExpression n (nextToken (nextToken s2)) = Normal e s3 \<and> init = Some e
               else s3 = nextToken s2 \<and> init = None"
    and nosemi: "\<not> curIs '';'' s3"
  shows "(\<exists>lineEnd node s'.
            node = VariableDeclaration declaredType (tok_value nameToken) init
                     (tok_value startToken = ''static'')
                     (Some (tok_start startToken)) (Some (tok_end nameToken))
          \<and> s' = s3\<lparr>errors := errors s @
                       [\<lparr>pe_message = ''Missing semicolon at end of variable declaration'',
                         pe_start = tok_end nameToken, pe_end = lineEnd\<rparr>]\<rparr>
          \<and> parseVariableDeclaration n s = Normal node s'
          \<and> parseStatement (Suc n) s = Normal (Some node) s'
          \<and> parseLoop (Suc (Suc n)) statements s = parseLoop (Suc n) (statements @ [node]) s'
          \<and> tok_end nameToken \<le> lineEnd
          \<and> (lineEnd = length (input s)
               \<or> (lineEnd < length (input s) \<and> input s ! lineEnd \<in> {CHR 0x0A, CHR 0x0D}))
          \<and> (\<forall>j. tok_end nameToken \<le> j \<and> j < lineEnd \<longrightarrow> input s ! j \<notin> {CHR 0x0A, CHR 0x0D}))
       \<and> parse 100 newParser (''var x = 5'' @ [CHR 0x0A] @ ''var y = 6;'') =
            Normal
              \<lparr>body =
                 [VariableDeclaration None ''x''
                    (Some (Literal (JNumber ''5'') ''5'' (Some 8) (Some 9))) False (Some 0) (Some 5),
                  VariableDeclaration None ''y''
                    (Some (Literal (JNumber ''6'') ''6'' (Some 18) (Some 19))) False (Some 10) (Some 16)],
               prog_errors =
                 Some [\<lparr>pe_message = ''Missing semicolon at end of variable declaration'',
                        pe_start = 5, pe_end = 9\<rparr>]\<rparr>
              (twoDeclarations\<lparr>position := 9,
                 errors := [\<lparr>pe_message = ''Missing semicolon at end of variable declaration'',
                             pe_start = 5, pe_end = 9\<rparr>]\<rparr>)"
proof
  have fr1: "frame s1 = frame s"
    using keyword by auto
  have fr2: "frame s2 = frame s"
    using ty fr1 by (auto split: option.splits if_splits)
  have fr3: "frame s3 = frame s"
  proof (cases "curIs ''='' (nextToken s2)")
    case True
    with init have "parseExpression n (nextToken (nextToken s2)) = Normal e s3" by simp
    from parseExpression_frame [OF this] fr2 show ?thesis
      by (simp add: frame_def nextToken_def)
  next
    case False
    with init fr2 show ?thesis by simp
  qed
  have notvar: "\<not> curIsNot ''var'' (nextToken s)" if "tok_value startToken = ''static''"
    using keyword that by (auto simp: curIs_def curIsNot_def split: option.splits)
  have header: "(if tok_value startToken = ''static''
          then (if curIsNot ''var'' (nextToken s)
                then throwAtCurrent (''Expected '' @ quoted ''var'' @ '' after '' @ quoted ''static''
                                     @ '' at position '') (nextToken s)
                else Normal True (nextToken (nextToken s)))
          else Normal False (nextToken s)) = Normal (tok_value startToken = ''static'') s1"
    using keyword notvar by auto
  have tyhead: "(case currentToken s1 of
                 None \<Rightarrow> Normal None s1
               | Some t \<Rightarrow> if isTypeKeyword (tok_value t)
                           then Normal (Some (tok_value t)) (nextToken s1)
                           else Normal None s1) = Normal declaredType s2"
    using ty by (auto split: option.splits if_splits)
  have ident: "curIsIdentifier s2"
    using name by (simp add: curIsIdentifier_def)
  have inithead: "(if curIs ''='' (nextToken s2)
                      then someNode (parseExpression n (nextToken (nextToken s2)))
                      else Normal None (nextToken s2)) = Normal init s3"
    using init by (auto simp: someNode_simps)
  have run: "parseVariableDeclaration n s =
             Normal (VariableDeclaration declaredType (tok_value nameToken) init
                       (tok_value startToken = ''static'')
                       (Some (tok_start startToken)) (Some (tok_end nameToken)))
               (addError ''Missing semicolon at end of variable declaration''
                  (tok_end nameToken) (findEndOfLine s3 (tok_end nameToken)) s3)"
    unfolding parseVariableDeclaration_def
    by (simp only: start withToken_simps header andThen_simps tyhead ident name inithead nosemi
          not_True_eq_False if_False not_not if_True)
  have st: "addError ''Missing semicolon at end of variable declaration''
                  (tok_end nameToken) (findEndOfLine s3 (tok_end nameToken)) s3
            = s3\<lparr>errors := errors s @
                       [\<lparr>pe_message = ''Missing semicolon at end of variable declaration'',
                         pe_start = tok_end nameToken,
                         pe_end = findEndOfLineFrom (input s) (tok_end nameToken)\<rparr>]\<rparr>"
    using fr3 by (simp add: addError_def findEndOfLine_def frame_def)
  define lineEnd where "lineEnd = findEndOfLineFrom (input s) (tok_end nameToken)"
  define node where "node = VariableDeclaration declaredType (tok_value nameToken) init
                     (tok_value startToken = ''static'')
                     (Some (tok_start startToken)) (Some (tok_end nameToken))"
  define s' where "s' = s3\<lparr>errors := errors s @
                       [\<lparr>pe_message = ''Missing semicolon at end of variable declaration'',
                         pe_start = tok_end nameToken, pe_end = lineEnd\<rparr>]\<rparr>"
  have decl: "parseVariableDeclaration n s = Normal node s'"
    unfolding run st node_def s'_def lineEnd_def ..
  have kw: "tok_value startToken = ''static'' \<or> tok_value startToken = ''var''"
    using keyword by auto
  have stmt: "parseStatement (Suc n) s = Normal (Some node) s'"
    using start kw decl
    by (simp add: stmt_Suc parseStatement_body_def someNode_simps catchError_simps)
  have "position s < length (tokens s)"
    using start by (simp add: currentToken_def split: if_splits)
  then have loop: "parseLoop (Suc (Suc n)) statements s = parseLoop (Suc n) (statements @ [node]) s'"
    using stmt by (simp add: andThen_simps)
  have ge: "tok_end nameToken \<le> lineEnd"
    unfolding lineEnd_def using inside by (rule findEndOfLineFrom_ge)
  from findEndOfLineFrom_spec [of "input s" "tok_end nameToken"]
  have spec: "(lineEnd = length (input s)
               \<or> (lineEnd < length (input s) \<and> input s ! lineEnd \<in> {CHR 0x0A, CHR 0x0D}))
          \<and> (\<forall>j. tok_end nameToken \<le> j \<and> j < lineEnd \<longrightarrow> input s ! j \<notin> {CHR 0x0A, CHR 0x0D})"
    unfolding lineEnd_def .
  show "(\<exists>lineEnd node s'.
            node = VariableDeclaration declaredType (tok_value nameToken) init
                     (tok_value startToken = ''static'')
                     (Some (tok_start startToken)) (Some (tok_end nameToken))
          \<and> s' = s3\<lparr>errors := errors s @
                       [\<lparr>pe_message = ''Missing semicolon at end of variable declaration'',
                         pe_start = tok_end nameToken, pe_end = lineEnd\<rparr>]\<rparr>
          \<and> parseVariableDeclaration n s = Normal node s'
          \<and> parseStatement (Suc n) s = Normal (Some node) s'
          \<and> parseLoop (Suc (Suc n)) statements s = parseLoop (Suc n) (statements @ [node]) s'
          \<and> tok_end nameToken \<le> lineEnd
          \<and> (lineEnd = length (input s)
               \<or> (lineEnd < length (input s) \<and> input s ! lineEnd \<in> {CHR 0x0A, CHR 0x0D}))
          \<and> (\<forall>j. tok_end nameToken \<le> j \<and> j < lineEnd \<longrightarrow> input s ! j \<notin> {CHR 0x0A, CHR 0x0D}))"
    using node_def s'_def decl stmt loop ge spec by blast
  show "parse 100 newParser (''var x = 5'' @ [CHR 0x0A] @ ''var y = 6;'') =
            Normal
              \<lparr>body =
                 [VariableDeclaration None ''x''
                    (Some (Literal (JNumber ''5'') ''5'' (Some 8) (Some 9))) False (Some 0) (Some 5),
                  VariableDeclaration None ''y''
                    (Some (Literal (JNumber ''6'') ''6'' (Some 18) (Some 19))) False (Some 10) (Some 16)],
               prog_errors =
                 Some [\<lparr>pe_message = ''Missing semicolon at end of variable declaration'',
                        pe_start = 5, pe_end = 9\<rparr>]\<rparr>
              (twoDeclarations\<lparr>position := 9,
                 errors := [\<lparr>pe_message = ''Missing semicolon at end of variable declaration'',
                             pe_start = 5, pe_end = 9\<rparr>]\<rparr>)"
    by (rule parse_two_declarations)
qed

theorem missing_semicolon_recorded_witness:
  "\<exists>lineEnd.
     parseLoop (Suc (Suc 20)) [] twoDeclarations =
       parseLoop (Suc 20)
         [VariableDeclaration None ''x'' (Some (Literal (JNumber ''5'') ''5'' (Some 8) (Some 9)))
            False (Some 0) (Some 5)]
         (twoDeclarations\<lparr>position := 4,
            errors := [\<lparr>pe_message = ''Missing semicolon at end of variable declaration'',
                        pe_start = 5, pe_end = lineEnd\<rparr>]\<rparr>)
     \<and> 5 \<le> lineEnd
     \<and> (lineEnd = 20 \<or> (lineEnd < 20 \<and> input twoDeclarations ! lineEnd \<in> {CHR 0x0A, CHR 0x0D}))
     \<and> (\<forall>j. 5 \<le> j \<and> j < lineEnd \<longrightarrow> input twoDeclarations ! j \<notin> {CHR 0x0A, CHR 0x0D})"
proof -
  let ?s = twoDeclarations
  let ?five = "Literal (JNumber ''5'') ''5'' (Some 8) (Some 9)"
  have e: "parseExpression 20 (nextToken (nextToken (nextToken ?s))) =
             Normal ?five (?s\<lparr>position := 4\<rparr>)"
    by (simp add: twoDeclarations_def parser_eval mkToken_def
          cong: andThen_cong catchError_cong withToken_cong)
  have p1: "currentToken ?s = Some (mkToken KEYWORD ''var'' 0 3)"
    by (simp add: twoDeclarations_def currentToken_def)
  have p2: "tok_value (mkToken KEYWORD ''var'' 0 3) = ''var'' \<and> nextToken ?s = nextToken ?s
          \<or> tok_value (mkToken KEYWORD ''var'' 0 3) = ''static'' \<and> curIs ''var'' (nextToken ?s)
             \<and> nextToken ?s = nextToken (nextToken ?s)"
    by (simp add: mkToken_def)
  have p3: "(None, nextToken ?s) =
            (case currentToken (nextToken ?s) of
               None \<Rightarrow> (None, nextToken ?s)
             | Some t \<Rightarrow> if isTypeKeyword (tok_value t) then (Some (tok_value t), nextToken (nextToken ?s))
                         else (None, nextToken ?s))"
    by (simp add: twoDeclarations_def currentToken_def nextToken_def mkToken_def isTypeKeyword_def)
  have p4: "currentToken (nextToken ?s) = Some (mkToken IDENTIFIER ''x'' 4 5)"
    by (simp add: twoDeclarations_def currentToken_def nextToken_def)
  have p5: "tok_type (mkToken IDENTIFIER ''x'' 4 5) = IDENTIFIER"
    by (simp add: mkToken_def)
  have p6: "tok_end (mkToken IDENTIFIER ''x'' 4 5) \<le> length (input ?s)"
    by (simp add: mkToken_def twoDeclarations_def)
  have p7: "if curIs ''='' (nextToken (nextToken ?s))
          then parseExpression 20 (nextToken (nextToken (nextToken ?s))) =
                 Normal ?five (?s\<lparr>position := 4\<rparr>)
               \<and> Some ?five = Some ?five
          else ?s\<lparr>position := 4\<rparr> = nextToken (nextToken ?s) \<and> Some ?five = None"
    using e by (simp add: twoDeclarations_def curIs_def currentToken_def nextToken_def mkToken_def)
  have p8: "\<not> curIs '';'' (?s\<lparr>position := 4\<rparr>)"
    by (simp add: twoDeclarations_def curIs_def currentToken_def mkToken_def)
  have l: "errors ?s = []" "length (input ?s) = 20"
    by (simp_all add: twoDeclarations_def)
  from missing_semicolon_recorded
         [where ?s1.0 = "nextToken ?s" and ?s2.0 = "nextToken ?s" and statements = "[]",
          THEN conjunct1, OF p1 p2 p3 p4 p5 p6 p7 p8]
  show ?thesis
    apply (elim exE conjE)
    subgoal for lineEnd node s'
      apply (rule exI [of _ lineEnd])
      apply (simp add: mkToken_def l del: parseLoop.simps)
      done
    done
qed

section \<open>Unterminated string literals\<close>

lemma lexerAt_tokenizeFrom:
  "lexerAt inp c toks \<Longrightarrow> tokenizeFrom inp c toks = tokenizeFrom inp 0 []"
proof (induction rule: lexerAt.induct)
  case lexerAt_start
  show ?case by simp
next
  case (lexerAt_step c toks c' toks')
  then show ?case
    by (subst (asm) tokenizeFrom.simps) simp
qed

lemma tokenizeStep_unterminated:
  assumes "inp ! start = CHR 0x22 \<or> inp ! start = CHR 0x27"
    and "length inp \<le> scanString inp (inp ! start) (start + 1)"
  shows "tokenizeStep inp start toks = Inl (Error (''Unterminated string at position '' @ showNat start))"
  using assms
  by (auto simp: tokenizeStep_def isWhitespace_def Let_def)

lemma tokenizeFrom_blank:
  "list_all isWhitespace inp \<Longrightarrow> tokenizeFrom inp c toks = Inr toks"
proof (induction "length inp - c" arbitrary: c)
  case 0
  then show ?case by (subst tokenizeFrom.simps) simp
next
  case (Suc k)
  then have "c < length inp" by simp
  moreover from this Suc.prems have "isWhitespace (inp ! c)"
    by (simp add: list_all_length)
  moreover have "tokenizeFrom inp (c + 1) toks = Inr toks"
    using Suc by simp
  ultimately show ?case
    by (subst tokenizeFrom.simps) (simp add: tokenizeStep_def)
qed

text \<open>
  C8. When the input holds a string literal that reaches the end of the input without
  its closing quote, \<^verbatim>\<open>parse\<close> throws the error of \<^verbatim>\<open>tokenize\<close>, whose message names
  the offset of the opening quote. This holds for every fuel and every parser
  instance: nothing is returned, \<^verbatim>\<open>this.tokens\<close> and \<^verbatim>\<open>this.errors\<close> are as before the
  call, and no statement is parsed.
\<close>

theorem unterminated_string_aborts:
  assumes "unterminatedStringAt inp start"
  shows "parse n s inp =
           Thrown (Error (''Unterminated string at position '' @ showNat start)) (s\<lparr>input := inp\<rparr>)"
proof -
  from assms obtain toks where at: "lexerAt inp start toks" and inside: "start < length inp"
    and quote: "inp ! start = CHR 0x22 \<or> inp ! start = CHR 0x27"
    and runs: "length inp \<le> scanString inp (inp ! start) (start + 1)"
    by (auto simp: unterminatedStringAt_def)
  have "tokenizeFrom inp start toks
          = Inl (Error (''Unterminated string at position '' @ showNat start))"
    using inside tokenizeStep_unterminated [OF quote runs, of toks]
    by (subst tokenizeFrom.simps) simp
  then have lex: "tokenize inp = Inl (Error (''Unterminated string at position '' @ showNat start))"
    using lexerAt_tokenizeFrom [OF at] by (simp add: tokenize_def)
  have "\<not> isBlank inp"
  proof
    assume "isBlank inp"
    then have "tokenize inp = Inr []"
      by (simp add: isBlank_def tokenize_def tokenizeFrom_blank)
    with lex show False by simp
  qed
  with lex show ?thesis by (simp add: parse_def)
qed

theorem unterminated_string_aborts_witness:
  "parse 100 newParser (''var s = '' @ [CHR 0x22] @ ''abc'') =
     Thrown (Error ''Unterminated string at position 8'')
       (newParser\<lparr>input := ''var s = '' @ [CHR 0x22] @ ''abc''\<rparr>)"
proof -
  let ?inp = "''var s = '' @ [CHR 0x22] @ ''abc''"
  have s0: "lexerAt ?inp 0 []" by (rule lexerAt_start)
  have s1: "lexerAt ?inp 3 [mkToken KEYWORD ''var'' 0 3]"
    by (rule lexerAt_step [OF s0]) (simp, code_simp)
  have s2: "lexerAt ?inp 4 [mkToken KEYWORD ''var'' 0 3]"
    by (rule lexerAt_step [OF s1]) (simp, code_simp)
  have s3: "lexerAt ?inp 5 [mkToken KEYWORD ''var'' 0 3, mkToken IDENTIFIER ''s'' 4 5]"
    by (rule lexerAt_step [OF s2]) (simp, code_simp)
  have s4: "lexerAt ?inp 6 [mkToken KEYWORD ''var'' 0 3, mkToken IDENTIFIER ''s'' 4 5]"
    by (rule lexerAt_step [OF s3]) (simp, code_simp)
  have s5: "lexerAt ?inp 7 [mkToken KEYWORD ''var'' 0 3, mkToken IDENTIFIER ''s'' 4 5,
                            mkToken SYMBOL ''='' 6 7]"
    by (rule lexerAt_step [OF s4]) (simp, code_simp)
  have s6: "lexerAt ?inp 8 [mkToken KEYWORD ''var'' 0 3, mkToken IDENTIFIER ''s'' 4 5,
                            mkToken SYMBOL ''='' 6 7]"
    by (rule lexerAt_step [OF s5]) (simp, code_simp)
  have run: "length ?inp \<le> scanString ?inp (?inp ! 8) (8 + 1)"
    by code_simp
  have "unterminatedStringAt ?inp 8"
    unfolding unterminatedStringAt_def using s6 run by (intro conjI exI) simp_all
  from unterminated_string_aborts [OF this, of 100 newParser]
  show ?thesis by (simp add: showNat.simps)
qed

section \<open>Calling \<^verbatim>\<open>parse\<close> twice\<close>

lemma tokens_var_x: "tokenize ''var x = 5'' = Inr
   [mkToken KEYWORD ''var'' 0 3, mkToken IDENTIFIER ''x'' 4 5, mkToken SYMBOL ''='' 6 7,
    mkToken NUMBER ''5'' 8 9]"
  by code_simp

text \<open>
  C9. The claim is that a second call of \<^verbatim>\<open>parse\<close> on the same text returns a result
  equal to the first, its errors list included, nothing being carried over. \<^verbatim>\<open>parse\<close>
  resets \<^verbatim>\<open>this.tokens\<close> and \<^verbatim>\<open>this.position\<close> but not \<^verbatim>\<open>this.errors\<close>, which only
  the constructor assigns: on one parser instance (as the repository's test scripts
  use it) the second call on \<^verbatim>\<open>var x = 5\<close> returns the same body with the error of
  the first call followed by its own.
\<close>

theorem parse_twice_accumulates_errors:
  "parse 100 newParser ''var x = 5'' =
     Normal \<lparr>body = [VariableDeclaration None ''x''
                        (Some (Literal (JNumber ''5'') ''5'' (Some 8) (Some 9))) False (Some 0) (Some 5)],
             prog_errors = Some [missingSemicolon]\<rparr>
       afterFirstParse
   \<and> parse 100 afterFirstParse ''var x = 5'' =
     Normal \<lparr>body = [VariableDeclaration None ''x''
                        (Some (Literal (JNumber ''5'') ''5'' (Some 8) (Some 9))) False (Some 0) (Some 5)],
             prog_errors = Some [missingSemicolon, missingSemicolon]\<rparr>
       (afterFirstParse\<lparr>errors := [missingSemicolon, missingSemicolon]\<rparr>)"
  apply (simp add: parse_start tokens_var_x afterFirstParse_def)
  apply (simp add: parser_eval missingSemicolon_def cong: andThen_cong catchError_cong withToken_cong)
  done

section \<open>Static variables\<close>

lemma grows_refl [simp]: "grows s s"
  by (simp add: grows_def)

lemma grows_trans: "grows s s' \<Longrightarrow> grows s' s'' \<Longrightarrow> grows s s''"
  by (auto simp: grows_def)

lemma grows_pushError [simp]: "grows s (pushError doc a b msg s)"
  by (simp add: grows_def pushError_def)

lemma grows_updates [simp]:
  "grows s (s'\<lparr>symbolTable := tab\<rparr>) = grows s s'"
  "grows s s' \<Longrightarrow> grows s (s'\<lparr>staticVariables := insert x (staticVariables s')\<rparr>)"
  "grows s s' \<Longrightarrow> grows s (s'\<lparr>assignedVariables := insert x (assignedVariables s')\<rparr>)"
  by (auto simp: grows_def)

lemma grows_transI: "grows s s' \<Longrightarrow> grows s' (f s') \<Longrightarrow> grows s (f s')"
  by (rule grows_trans)

lemma check_grows:
  "grows s (checkNode doc nd s)"
  "grows s (checkNodeOpt doc no s)"
  "grows s (checkNodes doc nds s)"
  "grows s (checkNodeOpts doc nos s)"
  "grows s (checkVariableDeclaration doc dt nm init st a b s)"
  "grows s (checkAssignmentExpression doc l r s)"
  "grows s (checkCatchClause doc param bd s)"
proof (induction doc nd s and doc no s and doc nds s and doc nos s
         and doc dt nm init st a b s and doc l r s and doc param bd s
       rule: checkNode_checkNodeOpt_checkNodes_checkNodeOpts_checkVariableDeclaration_checkAssignmentExpression_checkCatchClause.induct)
  case (36 doc dt variableName init isStatic a b s)
  define s1 where "s1 = (if isStatic
                   then s\<lparr>staticVariables := insert variableName (staticVariables s)\<rparr> else s)"
  define s2 where "s2 = (if variableName \<noteq> []
                         then (let s' = s1\<lparr>symbolTable := (symbolTable s1)(variableName \<mapsto> ''any'')\<rparr>
                               in if init \<noteq> None
                                  then s'\<lparr>assignedVariables := insert variableName (assignedVariables s')\<rparr>
                                  else s')
                         else s1)"
  have g1: "grows s s1" by (simp add: s1_def)
  have g2: "grows s s2" using g1 by (auto simp: s2_def Let_def grows_def)
  have ih: "grows s2 (checkNodeOpt doc init s2)"
    if "symbolTable s variableName = None" and "dt = None \<or> dt = Some []"
    using "36.IH" [OF _ s1_def _ s2_def] that by simp
  show ?case
  proof (cases "symbolTable s variableName \<noteq> None")
    case True
    then show ?thesis by simp
  next
    case fresh: False
    show ?thesis
    proof (cases "dt = None \<or> dt = Some []")
      case True
      with fresh have "checkVariableDeclaration doc dt variableName init isStatic a b s
                         = checkNodeOpt doc init s2"
        unfolding s2_def s1_def by (simp add: Let_def)
      with g2 ih fresh True show ?thesis
        by (auto intro: grows_trans)
    next
      case False
      with fresh show ?thesis
        by (cases init) (auto simp: Let_def grows_def pushError_def)
    qed
  qed
next
  case (37 doc l r s)
  show ?case
  proof (cases l)
    case (Identifier varName la lb)
    define s1 where "s1 = (if varName \<in> staticVariables s
                       then s\<lparr>assignedVariables := insert varName (assignedVariables s)\<rparr> else s)"
    define s2 where "s2 = (case symbolTable s1 varName of
                         None \<Rightarrow> s1
                       | Some declaredType \<Rightarrow>
                           if declaredType \<noteq> [] \<and> declaredType \<noteq> ''any''
                              \<and> \<not> isCompatibleType declaredType (inferType (symbolTable s1) r)
                           then pushError doc (nodeStart r) (nodeEnd r)
                                  (''Type mismatch: expected '' @ declaredType @ '' but got ''
                                   @ inferType (symbolTable s1) r @ '' when assigning to ''
                                   @ quoted varName) s1
                           else s1)"
    have g1: "grows s s1" by (simp add: s1_def)
    have "grows s1 s2" by (simp add: s2_def split: option.splits)
    with g1 have g2: "grows s s2" by (rule grows_trans)
    have ih: "grows s2 (checkNode doc r s2)"
      if "\<not> (varName \<in> staticVariables s \<and> varName \<in> assignedVariables s)"
      using "37.IH" [OF Identifier that s1_def s2_def] .
    show ?thesis
    proof (cases "varName \<in> staticVariables s \<and> varName \<in> assignedVariables s")
      case True
      then show ?thesis by (simp add: Identifier)
    next
      case False
      then have "checkAssignmentExpression doc l r s = checkNode doc r s2"
        unfolding s2_def s1_def by (simp add: Identifier Let_def)
      with g2 ih [OF False] show ?thesis
        by (auto intro: grows_trans)
    qed
  qed simp_all
next
  case (38 doc param bd s)
  have a: "grows s (checkNode doc bd s)"
    using "38.IH"(1) .
  have b: "grows (checkNode doc bd s)
             (checkNode doc bd ((checkNode doc bd s)\<lparr>symbolTable := (symbolTable (checkNode doc bd s))(nm \<mapsto> ''any'')\<rparr>))"
    if "param = Some p" and "nodeName p = Some nm" and "nm \<noteq> []" for p nm
  proof -
    have "grows ((checkNode doc bd s)\<lparr>symbolTable := (symbolTable (checkNode doc bd s))(nm \<mapsto> ''any'')\<rparr>)
             (checkNode doc bd ((checkNode doc bd s)\<lparr>symbolTable := (symbolTable (checkNode doc bd s))(nm \<mapsto> ''any'')\<rparr>))"
      using "38.IH"(2) [OF refl that] .
    moreover have "grows (checkNode doc bd s)
        ((checkNode doc bd s)\<lparr>symbolTable := (symbolTable (checkNode doc bd s))(nm \<mapsto> ''any'')\<rparr>)"
      by simp
    ultimately show ?thesis by (blast intro: grows_trans)
  qed
  show ?case
    using a b by (auto simp: Let_def intro: grows_trans split: option.splits)
qed (simp_all, (blast intro: grows_trans)+)

lemma tokens_static: "tokenize ''static var x = 10; x = 20;'' = Inr
   [mkToken KEYWORD ''static'' 0 6, mkToken KEYWORD ''var'' 7 10, mkToken IDENTIFIER ''x'' 11 12,
    mkToken SYMBOL ''='' 13 14, mkToken NUMBER ''10'' 15 17, mkToken SYMBOL '';'' 17 18,
    mkToken IDENTIFIER ''x'' 19 20, mkToken SYMBOL ''='' 21 22, mkToken NUMBER ''20'' 23 25,
    mkToken SYMBOL '';'' 25 26]"
  by code_simp

lemma parse_static:
  "parse 100 newParser ''static var x = 10; x = 20;'' =
     Normal
       \<lparr>body =
          [VariableDeclaration None ''x''
             (Some (Literal (JNumber ''10'') ''10'' (Some 15) (Some 17))) True (Some 0) (Some 19),
           AssignmentExpression (Identifier ''x'' (Some 19) (Some 20))
             (Literal (JNumber ''20'') ''20'' (Some 23) (Some 25)) (Some 19) (Some 26)],
        prog_errors = Some []\<rparr>
       \<lparr>tokens =
          [mkToken KEYWORD ''static'' 0 6, mkToken KEYWORD ''var'' 7 10, mkToken IDENTIFIER ''x'' 11 12,
           mkToken SYMBOL ''='' 13 14, mkToken NUMBER ''10'' 15 17, mkToken SYMBOL '';'' 17 18,
           mkToken IDENTIFIER ''x'' 19 20, mkToken SYMBOL ''='' 21 22, mkToken NUMBER ''20'' 23 25,
           mkToken SYMBOL '';'' 25 26],
        position = 10, errors = [], input = ''static var x = 10; x = 20;''\<rparr>"
  apply (simp add: parse_start tokens_static)
  apply (simp add: parser_eval cong: andThen_cong catchError_cong withToken_cong)
  done

lemma tokens_static_redeclared: "tokenize staticRedeclared = Inr
   [mkToken KEYWORD ''static'' 0 6, mkToken KEYWORD ''var'' 7 10, mkToken KEYWORD ''int'' 11 14,
    mkToken IDENTIFIER ''x'' 15 16, mkToken SYMBOL ''='' 17 18,
    mkToken STRING ([CHR 0x22] @ ''a'' @ [CHR 0x22]) 19 22, mkToken SYMBOL '';'' 22 23,
    mkToken IDENTIFIER ''x'' 24 25, mkToken SYMBOL ''='' 26 27, mkToken NUMBER ''1'' 28 29,
    mkToken SYMBOL '';'' 29 30, mkToken KEYWORD ''var'' 31 34, mkToken IDENTIFIER ''x'' 35 36,
    mkToken SYMBOL ''='' 37 38, mkToken NUMBER ''2'' 39 40, mkToken SYMBOL '';'' 40 41]"
  unfolding staticRedeclared_def by code_simp

lemma parse_static_redeclared:
  "parse 100 newParser staticRedeclared =
     Normal staticRedeclaredProgram
       \<lparr>tokens =
          [mkToken KEYWORD ''static'' 0 6, mkToken KEYWORD ''var'' 7 10, mkToken KEYWORD ''int'' 11 14,
           mkToken IDENTIFIER ''x'' 15 16, mkToken SYMBOL ''='' 17 18,
           mkToken STRING ([CHR 0x22] @ ''a'' @ [CHR 0x22]) 19 22, mkToken SYMBOL '';'' 22 23,
           mkToken IDENTIFIER ''x'' 24 25, mkToken SYMBOL ''='' 26 27, mkToken NUMBER ''1'' 28 29,
           mkToken SYMBOL '';'' 29 30, mkToken KEYWORD ''var'' 31 34, mkToken IDENTIFIER ''x'' 35 36,
           mkToken SYMBOL ''='' 37 38, mkToken NUMBER ''2'' 39 40, mkToken SYMBOL '';'' 40 41],
        position = 16, errors = [], input = staticRedeclared\<rparr>"
  apply (simp add: parse_def tokens_static_redeclared)
  apply (simp add: staticRedeclared_def isBlank_def isWhitespace_def newParser_def mkToken_def
           staticRedeclaredProgram_def)
  apply (simp add: parser_eval isTypeKeyword_def cong: andThen_cong catchError_cong withToken_cong)
  done

text \<open>
  C4, as stated, fails: the claim is that a name in both \<^verbatim>\<open>staticVariables\<close> and
  \<^verbatim>\<open>assignedVariables\<close> never receives a further assignment without a diagnostic being
  appended. In \<^verbatim>\<open>static var int x = "a"; x = 1; var x = 2;\<close> the first declaration is
  refused for its type, which leaves \<^verbatim>\<open>x\<close> in \<^verbatim>\<open>staticVariables\<close> but out of the symbol
  table; the assignment \<^verbatim>\<open>x = 1\<close> then puts \<^verbatim>\<open>x\<close> in \<^verbatim>\<open>assignedVariables\<close>. After these
  two statements \<^verbatim>\<open>x\<close> is in both sets and one diagnostic, the type mismatch, has been
  appended. The third statement assigns \<^verbatim>\<open>x\<close> once more, by its initializer, and appends
  nothing: the whole run ends with that same single diagnostic.
\<close>

theorem static_redeclaration_undiagnosed:
  "parse 100 newParser staticRedeclared =
     Normal staticRedeclaredProgram
       \<lparr>tokens =
          [mkToken KEYWORD ''static'' 0 6, mkToken KEYWORD ''var'' 7 10, mkToken KEYWORD ''int'' 11 14,
           mkToken IDENTIFIER ''x'' 15 16, mkToken SYMBOL ''='' 17 18,
           mkToken STRING ([CHR 0x22] @ ''a'' @ [CHR 0x22]) 19 22, mkToken SYMBOL '';'' 22 23,
           mkToken IDENTIFIER ''x'' 24 25, mkToken SYMBOL ''='' 26 27, mkToken NUMBER ''1'' 28 29,
           mkToken SYMBOL '';'' 29 30, mkToken KEYWORD ''var'' 31 34, mkToken IDENTIFIER ''x'' 35 36,
           mkToken SYMBOL ''='' 37 38, mkToken NUMBER ''2'' 39 40, mkToken SYMBOL '';'' 40 41],
        position = 16, errors = [], input = staticRedeclared\<rparr>
   \<and> ''x'' \<in> staticVariables
               (check (staticRedeclaredProgram\<lparr>body := take 2 (body staticRedeclaredProgram)\<rparr>)
                  staticRedeclared [])
   \<and> ''x'' \<in> assignedVariables
               (check (staticRedeclaredProgram\<lparr>body := take 2 (body staticRedeclaredProgram)\<rparr>)
                  staticRedeclared [])
   \<and> ck_errors (check (staticRedeclaredProgram\<lparr>body := take 2 (body staticRedeclaredProgram)\<rparr>)
                  staticRedeclared []) =
       [\<lparr>d_severity = 1, d_start = \<lparr>pos_line = 0, pos_character = 19\<rparr>,
         d_end = \<lparr>pos_line = 0, pos_character = 22\<rparr>,
         d_message = ''Type mismatch: expected int but got string for variable '' @ quoted ''x''\<rparr>]
   \<and> ck_errors (check staticRedeclaredProgram staticRedeclared []) =
       [\<lparr>d_severity = 1, d_start = \<lparr>pos_line = 0, pos_character = 19\<rparr>,
         d_end = \<lparr>pos_line = 0, pos_character = 22\<rparr>,
         d_message = ''Type mismatch: expected int but got string for variable '' @ quoted ''x''\<rparr>]"
  apply (intro conjI)
      apply (rule parse_static_redeclared)
     apply (simp add: staticRedeclaredProgram_def staticRedeclared_def checker_eval)
    apply (simp add: staticRedeclaredProgram_def staticRedeclared_def checker_eval)
   apply (simp add: staticRedeclaredProgram_def staticRedeclared_def checker_eval)
  apply (simp add: staticRedeclaredProgram_def staticRedeclared_def checker_eval)
  done

text \<open>
  C4, amended. Let a name be in both \<^verbatim>\<open>staticVariables\<close> and \<^verbatim>\<open>assignedVariables\<close>.
  An assignment expression to it appends exactly one diagnostic, the static-reassignment
  error, and changes nothing else. A declaration of it appends exactly one diagnostic,
  the redeclaration error, and changes nothing else, provided the name is in the symbol
  table; when the name is not in the symbol table, an untyped declaration initialised
  with a literal appends no diagnostic: it only registers the name. The name stays in
  both sets for the rest of the walk, whatever node is checked next.
  Checking \<^verbatim>\<open>static var x = 10; x = 20;\<close> gives exactly one diagnostic, the
  static-reassignment error, from offset 19 to offset 25: the assignment \<^verbatim>\<open>x = 20\<close>
  without its semicolon.
\<close>

theorem static_reassignment_diagnosed:
  assumes "x \<in> staticVariables s" and "x \<in> assignedVariables s"
  shows "checkNode doc (AssignmentExpression (Identifier x a b) r st en) s =
           s\<lparr>ck_errors := ck_errors s @
               [\<lparr>d_severity = 1, d_start = getPositionFromIndex doc a,
                 d_end = getPositionFromIndex doc (nodeEnd r),
                 d_message = ''Cannot reassign static variable '' @ quoted x
                             @ '' - it has already been assigned''\<rparr>]\<rparr>
         \<and> (symbolTable s x \<noteq> None \<longrightarrow>
              checkNode doc (VariableDeclaration dt x init isStatic st en) s =
                s\<lparr>ck_errors := ck_errors s @
                    [\<lparr>d_severity = 1, d_start = getPositionFromIndex doc st,
                      d_end = getPositionFromIndex doc en,
                      d_message = ''Variable '' @ quoted x @ '' has already been declared''\<rparr>]\<rparr>)
         \<and> (symbolTable s x = None \<and> x \<noteq> [] \<longrightarrow>
              checkNode doc (VariableDeclaration None x (Some (Literal v raw a b)) isStatic st en) s =
                s\<lparr>symbolTable := (symbolTable s)(x \<mapsto> ''any'')\<rparr>)
         \<and> x \<in> staticVariables (checkNode doc nd s) \<and> x \<in> assignedVariables (checkNode doc nd s)
         \<and> (\<exists>ast s'. parse 100 newParser ''static var x = 10; x = 20;'' = Normal ast s'
              \<and> prog_errors ast = Some []
              \<and> ck_errors (check ast ''static var x = 10; x = 20;'' []) =
                  [\<lparr>d_severity = 1, d_start = \<lparr>pos_line = 0, pos_character = 19\<rparr>,
                    d_end = \<lparr>pos_line = 0, pos_character = 25\<rparr>,
                    d_message = ''Cannot reassign static variable '' @ quoted ''x''
                                @ '' - it has already been assigned''\<rparr>])"
proof (intro conjI)
  show "checkNode doc (AssignmentExpression (Identifier x a b) r st en) s =
           s\<lparr>ck_errors := ck_errors s @
               [\<lparr>d_severity = 1, d_start = getPositionFromIndex doc a,
                 d_end = getPositionFromIndex doc (nodeEnd r),
                 d_message = ''Cannot reassign static variable '' @ quoted x
                             @ '' - it has already been assigned''\<rparr>]\<rparr>"
    using assms by (simp add: pushError_def)
  show "symbolTable s x \<noteq> None \<longrightarrow>
              checkNode doc (VariableDeclaration dt x init isStatic st en) s =
                s\<lparr>ck_errors := ck_errors s @
                    [\<lparr>d_severity = 1, d_start = getPositionFromIndex doc st,
                      d_end = getPositionFromIndex doc en,
                      d_message = ''Variable '' @ quoted x @ '' has already been declared''\<rparr>]\<rparr>"
    by (simp add: pushError_def)
  show "symbolTable s x = None \<and> x \<noteq> [] \<longrightarrow>
              checkNode doc (VariableDeclaration None x (Some (Literal v raw a b)) isStatic st en) s =
                s\<lparr>symbolTable := (symbolTable s)(x \<mapsto> ''any'')\<rparr>"
    using assms by (auto simp: Let_def insert_absorb)
  show "x \<in> staticVariables (checkNode doc nd s)" and "x \<in> assignedVariables (checkNode doc nd s)"
    using assms check_grows(1) [of s doc nd] by (auto simp: grows_def)
  show "\<exists>ast s'. parse 100 newParser ''static var x = 10; x = 20;'' = Normal ast s'
              \<and> prog_errors ast = Some []
              \<and> ck_errors (check ast ''static var x = 10; x = 20;'' []) =
                  [\<lparr>d_severity = 1, d_start = \<lparr>pos_line = 0, pos_character = 19\<rparr>,
                    d_end = \<lparr>pos_line = 0, pos_character = 25\<rparr>,
                    d_message = ''Cannot reassign static variable '' @ quoted ''x''
                                @ '' - it has already been assigned''\<rparr>]"
    by (simp add: parse_static checker_eval)
qed

theorem static_reassignment_diagnosed_witness:
  "ck_errors (checkNode ''x = 1; x = 2;''
       (AssignmentExpression (Identifier ''x'' (Some 7) (Some 8))
          (Literal (JNumber ''2'') ''2'' (Some 11) (Some 12)) (Some 7) (Some 13))
       \<lparr>symbolTable = [''x'' \<mapsto> ''any''], staticVariables = {''x''}, assignedVariables = {''x''},
        ck_errors = []\<rparr>)
   = [\<lparr>d_severity = 1, d_start = \<lparr>pos_line = 0, pos_character = 7\<rparr>,
       d_end = \<lparr>pos_line = 0, pos_character = 12\<rparr>,
       d_message = ''Cannot reassign static variable '' @ quoted ''x''
                   @ '' - it has already been assigned''\<rparr>]
   \<and> ck_errors (checkNode ''x = 1; x = 2;''
       (VariableDeclaration None ''x'' (Some (Literal (JNumber ''2'') ''2'' (Some 7) (Some 8)))
          False (Some 7) (Some 13))
       \<lparr>symbolTable = [''x'' \<mapsto> ''any''], staticVariables = {''x''}, assignedVariables = {''x''},
        ck_errors = []\<rparr>)
   = [\<lparr>d_severity = 1, d_start = \<lparr>pos_line = 0, pos_character = 7\<rparr>,
       d_end = \<lparr>pos_line = 0, pos_character = 13\<rparr>,
       d_message = ''Variable '' @ quoted ''x'' @ '' has already been declared''\<rparr>]
   \<and> ck_errors (checkNode ''x = 1; x = 2;''
       (VariableDeclaration None ''x'' (Some (Literal (JNumber ''2'') ''2'' (Some 7) (Some 8)))
          False (Some 7) (Some 13))
       \<lparr>symbolTable = Map.empty, staticVariables = {''x''}, assignedVariables = {''x''},
        ck_errors = []\<rparr>)
   = []"
proof -
  let ?known = "\<lparr>symbolTable = [''x'' \<mapsto> ''any''], staticVariables = {''x''},
                  assignedVariables = {''x''}, ck_errors = []\<rparr>"
  let ?unknown = "\<lparr>symbolTable = Map.empty, staticVariables = {''x''},
                    assignedVariables = {''x''}, ck_errors = []\<rparr>"
  have a: "''x'' \<in> staticVariables ?known" and b: "''x'' \<in> assignedVariables ?known"
    and c: "''x'' \<in> staticVariables ?unknown" and d: "''x'' \<in> assignedVariables ?unknown"
    by simp_all
  have known: "symbolTable ?known ''x'' \<noteq> None"
    by simp
  have unknown: "symbolTable ?unknown ''x'' = None \<and> ''x'' \<noteq> []"
    by simp
  note general = static_reassignment_diagnosed
    [where doc = "''x = 1; x = 2;''" and a = "Some 7" and b = "Some 8"
       and r = "Literal (JNumber ''2'') ''2'' (Some 11) (Some 12)" and st = "Some 7" and en = "Some 13"
       and dt = None and init = "Some (Literal (JNumber ''2'') ''2'' (Some 7) (Some 8))"
       and isStatic = False and v = "JNumber ''2''" and raw = "''2''"]
  from general [OF a b, THEN conjunct1]
    general [OF a b, THEN conjunct2, THEN conjunct1, THEN mp, OF known]
    general [OF c d, THEN conjunct2, THEN conjunct2, THEN conjunct1, THEN mp, OF unknown]
  show ?thesis
    by (simp add: getPositionFromIndex_def)
qed

section \<open>The catch clause\<close>

lemma tokens_try_catch: "tokenize ''try { } catch (e) { var y = 1; }'' = Inr
   [mkToken IDENTIFIER ''try'' 0 3, mkToken SYMBOL ''{'' 4 5, mkToken SYMBOL ''}'' 6 7,
    mkToken IDENTIFIER ''catch'' 8 13, mkToken SYMBOL ''('' 14 15, mkToken IDENTIFIER ''e'' 15 16,
    mkToken SYMBOL '')'' 16 17, mkToken SYMBOL ''{'' 18 19, mkToken KEYWORD ''var'' 20 23,
    mkToken IDENTIFIER ''y'' 24 25, mkToken SYMBOL ''='' 26 27, mkToken NUMBER ''1'' 28 29,
    mkToken SYMBOL '';'' 29 30, mkToken SYMBOL ''}'' 31 32]"
  by code_simp

text \<open>
  C10, as stated, fails: the claim is that every diagnostic arising inside the body of
  a catch clause with a parameter is appended twice. For
  \<^verbatim>\<open>try { } catch (e) { var y = 1; }\<close> the list holds exactly one diagnostic: the first
  walk of the body declares \<^verbatim>\<open>y\<close> without complaint, and only the second walk
  reports it, as a redeclaration.
\<close>

theorem catch_body_diagnostic_once:
  "parse 100 newParser ''try { } catch (e) { var y = 1; }'' =
     Normal tryCatchProgram
       \<lparr>tokens =
          [mkToken IDENTIFIER ''try'' 0 3, mkToken SYMBOL ''{'' 4 5, mkToken SYMBOL ''}'' 6 7,
           mkToken IDENTIFIER ''catch'' 8 13, mkToken SYMBOL ''('' 14 15, mkToken IDENTIFIER ''e'' 15 16,
           mkToken SYMBOL '')'' 16 17, mkToken SYMBOL ''{'' 18 19, mkToken KEYWORD ''var'' 20 23,
           mkToken IDENTIFIER ''y'' 24 25, mkToken SYMBOL ''='' 26 27, mkToken NUMBER ''1'' 28 29,
           mkToken SYMBOL '';'' 29 30, mkToken SYMBOL ''}'' 31 32],
        position = 14, errors = [], input = ''try { } catch (e) { var y = 1; }''\<rparr>
   \<and> ck_errors (check tryCatchProgram ''try { } catch (e) { var y = 1; }'' []) =
       [\<lparr>d_severity = 1, d_start = \<lparr>pos_line = 0, pos_character = 20\<rparr>,
         d_end = \<lparr>pos_line = 0, pos_character = 31\<rparr>,
         d_message = ''Variable '' @ quoted ''y'' @ '' has already been declared''\<rparr>]"
proof
  show "parse 100 newParser ''try { } catch (e) { var y = 1; }'' =
     Normal tryCatchProgram
       \<lparr>tokens =
          [mkToken IDENTIFIER ''try'' 0 3, mkToken SYMBOL ''{'' 4 5, mkToken SYMBOL ''}'' 6 7,
           mkToken IDENTIFIER ''catch'' 8 13, mkToken SYMBOL ''('' 14 15, mkToken IDENTIFIER ''e'' 15 16,
           mkToken SYMBOL '')'' 16 17, mkToken SYMBOL ''{'' 18 19, mkToken KEYWORD ''var'' 20 23,
           mkToken IDENTIFIER ''y'' 24 25, mkToken SYMBOL ''='' 26 27, mkToken NUMBER ''1'' 28 29,
           mkToken SYMBOL '';'' 29 30, mkToken SYMBOL ''}'' 31 32],
        position = 14, errors = [], input = ''try { } catch (e) { var y = 1; }''\<rparr>"
    apply (simp add: parse_start tokens_try_catch tryCatchProgram_def)
    apply (simp add: parser_eval cong: andThen_cong catchError_cong withToken_cong)
    done
  show "ck_errors (check tryCatchProgram ''try { } catch (e) { var y = 1; }'' []) =
       [\<lparr>d_severity = 1, d_start = \<lparr>pos_line = 0, pos_character = 20\<rparr>,
         d_end = \<lparr>pos_line = 0, pos_character = 31\<rparr>,
         d_message = ''Variable '' @ quoted ''y'' @ '' has already been declared''\<rparr>]"
    by (simp add: tryCatchProgram_def checker_eval)
qed

text \<open>
  C10, amended. For a TryStatement whose CatchClause has a parameter, the body of the
  clause is walked twice: once from the state left by the try block, and once more
  from the state left by that first walk with the parameter registered as \<^verbatim>\<open>any\<close>.
  The diagnostics list after the clause is the list before it, followed by what the
  first walk appends, followed by what the second walk appends from the updated state
  (which need not be the same diagnostics).
\<close>

theorem catch_body_walked_twice:
  assumes "p \<noteq> []"
  shows "\<exists>s0 s1 s2 first second.
           s0 = checkNode doc blk s
           \<and> s1 = checkNode doc bd s0
           \<and> s2 = checkNode doc bd (s1\<lparr>symbolTable := (symbolTable s1)(p \<mapsto> ''any'')\<rparr>)
           \<and> checkNode doc
                (TryStatement blk [CatchClause (Some (Identifier p a b)) bd st en] fin st' en') s
               = checkNodeOpt doc fin s2
           \<and> ck_errors s1 = ck_errors s0 @ first
           \<and> ck_errors s2 = ck_errors s0 @ first @ second"
proof -
  define s0 where "s0 = checkNode doc blk s"
  define s1 where "s1 = checkNode doc bd s0"
  define s2 where "s2 = checkNode doc bd (s1\<lparr>symbolTable := (symbolTable s1)(p \<mapsto> ''any'')\<rparr>)"
  have run: "checkNode doc
                (TryStatement blk [CatchClause (Some (Identifier p a b)) bd st en] fin st' en') s
               = checkNodeOpt doc fin s2"
    using assms by (simp add: s0_def s1_def s2_def Let_def)
  from check_grows(1) [of s0 doc bd]
  obtain first where f: "ck_errors s1 = ck_errors s0 @ first"
    by (auto simp: grows_def s1_def)
  from check_grows(1) [of "s1\<lparr>symbolTable := (symbolTable s1)(p \<mapsto> ''any'')\<rparr>" doc bd]
  obtain second where "ck_errors s2 = ck_errors s1 @ second"
    by (auto simp: grows_def s2_def)
  with f have "ck_errors s2 = ck_errors s0 @ first @ second" by simp
  with run f show ?thesis
    using s0_def s1_def s2_def by blast
qed

theorem catch_body_walked_twice_witness:
  "\<exists>s0 s1 s2 first second.
     s0 = checkNode ''try { } catch (e) { var y = 1; }'' (BlockStatement [])
            \<lparr>symbolTable = Map.empty, staticVariables = {}, assignedVariables = {}, ck_errors = []\<rparr>
     \<and> s1 = checkNode ''try { } catch (e) { var y = 1; }''
              (BlockStatement
                 [Some (VariableDeclaration None ''y''
                          (Some (Literal (JNumber ''1'') ''1'' (Some 28) (Some 29)))
                          False (Some 20) (Some 31))]) s0
     \<and> s2 = checkNode ''try { } catch (e) { var y = 1; }''
              (BlockStatement
                 [Some (VariableDeclaration None ''y''
                          (Some (Literal (JNumber ''1'') ''1'' (Some 28) (Some 29)))
                          False (Some 20) (Some 31))])
              (s1\<lparr>symbolTable := (symbolTable s1)(''e'' \<mapsto> ''any'')\<rparr>)
     \<and> checkNodes ''try { } catch (e) { var y = 1; }'' (body tryCatchProgram)
            \<lparr>symbolTable = Map.empty, staticVariables = {}, assignedVariables = {}, ck_errors = []\<rparr>
         = s2
     \<and> ck_errors s1 = ck_errors s0 @ first
     \<and> ck_errors s2 = ck_errors s0 @ first @ second"
proof -
  have ne: "''e'' \<noteq> []" by simp
  from catch_body_walked_twice [OF ne, of "''try { } catch (e) { var y = 1; }''" "BlockStatement []"
      "\<lparr>symbolTable = Map.empty, staticVariables = {}, assignedVariables = {}, ck_errors = []\<rparr>"
      "BlockStatement
                 [Some (VariableDeclaration None ''y''
                          (Some (Literal (JNumber ''1'') ''1'' (Some 28) (Some 29)))
                          False (Some 20) (Some 31))]"
      "Some 15" "Some 16" "Some 8" None None "Some 0" "Some 3"]
  show ?thesis
    by (simp add: tryCatchProgram_def)
qed

section \<open>The type \<^verbatim>\<open>nil\<close> is never inferred\<close>

lemma nilFree_empty [simp]: "nilFree Map.empty"
  by (simp add: nilFree_def)

lemma nilFree_update: "nilFree tab \<Longrightarrow> ty \<noteq> ''nil'' \<Longrightarrow> nilFree (tab(k \<mapsto> ty))"
  by (simp add: nilFree_def)

lemma isTypeKeyword_not_nil: "isTypeKeyword ty \<Longrightarrow> ty \<noteq> ''nil''"
  by (auto simp: isTypeKeyword_def)

lemma inferType_not_nil: "nilFree tab \<Longrightarrow> inferType tab e \<noteq> ''nil''"
  by (induction tab e rule: inferType.induct)
     (auto simp: nilFree_def orAny_def split: jsValue.splits option.splits)

lemma check_nilFree:
  "nilFree (symbolTable s) \<Longrightarrow> declaredTypesOK nd \<Longrightarrow> nilFree (symbolTable (checkNode doc nd s))"
  "nilFree (symbolTable s) \<Longrightarrow> (\<forall>x \<in> set_option no. declaredTypesOK x)
     \<Longrightarrow> nilFree (symbolTable (checkNodeOpt doc no s))"
  "nilFree (symbolTable s) \<Longrightarrow> (\<forall>x \<in> set nds. declaredTypesOK x)
     \<Longrightarrow> nilFree (symbolTable (checkNodes doc nds s))"
  "nilFree (symbolTable s) \<Longrightarrow> (\<forall>st \<in> set nos. \<forall>x \<in> set_option st. declaredTypesOK x)
     \<Longrightarrow> nilFree (symbolTable (checkNodeOpts doc nos s))"
  "nilFree (symbolTable s) \<Longrightarrow> (\<forall>ty \<in> set_option dt. isTypeKeyword ty)
     \<Longrightarrow> (\<forall>x \<in> set_option init. declaredTypesOK x)
     \<Longrightarrow> nilFree (symbolTable (checkVariableDeclaration doc dt nm init st a b s))"
  "nilFree (symbolTable s) \<Longrightarrow> declaredTypesOK r
     \<Longrightarrow> nilFree (symbolTable (checkAssignmentExpression doc l r s))"
  "nilFree (symbolTable s) \<Longrightarrow> declaredTypesOK bd
     \<Longrightarrow> nilFree (symbolTable (checkCatchClause doc param bd s))"
proof (induction doc nd s and doc no s and doc nds s and doc nos s
         and doc dt nm init st a b s and doc l r s and doc param bd s
       rule: checkNode_checkNodeOpt_checkNodes_checkNodeOpts_checkVariableDeclaration_checkAssignmentExpression_checkCatchClause.induct)
  case (36 doc dt variableName init isStatic a b s)
  define s1 where "s1 = (if isStatic
                   then s\<lparr>staticVariables := insert variableName (staticVariables s)\<rparr> else s)"
  define s2 where "s2 = (if variableName \<noteq> []
                         then (let s' = s1\<lparr>symbolTable := (symbolTable s1)(variableName \<mapsto> ''any'')\<rparr>
                               in if init \<noteq> None
                                  then s'\<lparr>assignedVariables := insert variableName (assignedVariables s')\<rparr>
                                  else s')
                         else s1)"
  have n1: "nilFree (symbolTable s1)" using "36.prems"(1) by (simp add: s1_def)
  have n2: "nilFree (symbolTable s2)"
    using n1 by (auto simp: s2_def Let_def intro: nilFree_update)
  have ih: "nilFree (symbolTable (checkNodeOpt doc init s2))"
    if "symbolTable s variableName = None" and "dt = None \<or> dt = Some []"
    using "36.IH" [OF _ s1_def _ s2_def n2 "36.prems"(3)] that by simp
  show ?case
  proof (cases "symbolTable s variableName \<noteq> None")
    case True
    then show ?thesis using "36.prems"(1) by (simp add: pushError_def)
  next
    case fresh: False
    show ?thesis
    proof (cases "dt = None \<or> dt = Some []")
      case True
      with fresh have "checkVariableDeclaration doc dt variableName init isStatic a b s
                         = checkNodeOpt doc init s2"
        unfolding s2_def s1_def by (simp add: Let_def)
      with ih fresh True show ?thesis by simp
    next
      case False
      then obtain ty where ty: "dt = Some ty" "ty \<noteq> ''nil''"
        using "36.prems"(2) isTypeKeyword_not_nil by (cases dt) auto
      with fresh False "36.prems"(1) show ?thesis
        by (cases init) (auto simp: Let_def pushError_def nilFree_def)
    qed
  qed
next
  case (37 doc l r s)
  show ?case
  proof (cases l)
    case (Identifier varName la lb)
    define s1 where "s1 = (if varName \<in> staticVariables s
                       then s\<lparr>assignedVariables := insert varName (assignedVariables s)\<rparr> else s)"
    define s2 where "s2 = (case symbolTable s1 varName of
                         None \<Rightarrow> s1
                       | Some declaredType \<Rightarrow>
                           if declaredType \<noteq> [] \<and> declaredType \<noteq> ''any''
                              \<and> \<not> isCompatibleType declaredType (inferType (symbolTable s1) r)
                           then pushError doc (nodeStart r) (nodeEnd r)
                                  (''Type mismatch: expected '' @ declaredType @ '' but got ''
                                   @ inferType (symbolTable s1) r @ '' when assigning to ''
                                   @ quoted varName) s1
                           else s1)"
    have "symbolTable s2 = symbolTable s"
      by (simp add: s2_def s1_def pushError_def split: option.splits)
    with "37.prems"(1) have n2: "nilFree (symbolTable s2)" by simp
    have ih: "nilFree (symbolTable (checkNode doc r s2))"
      if "\<not> (varName \<in> staticVariables s \<and> varName \<in> assignedVariables s)"
      using "37.IH" [OF Identifier that s1_def s2_def n2 "37.prems"(2)] .
    show ?thesis
    proof (cases "varName \<in> staticVariables s \<and> varName \<in> assignedVariables s")
      case True
      then show ?thesis using "37.prems"(1) by (simp add: Identifier pushError_def)
    next
      case False
      then have "checkAssignmentExpression doc l r s = checkNode doc r s2"
        unfolding s2_def s1_def by (simp add: Identifier Let_def)
      with ih [OF False] show ?thesis by simp
    qed
  qed (use "37.prems"(1) in simp_all)
next
  case (38 doc param bd s)
  have a: "nilFree (symbolTable (checkNode doc bd s))"
    using "38.IH"(1) "38.prems" .
  have b: "nilFree (symbolTable
             (checkNode doc bd ((checkNode doc bd s)\<lparr>symbolTable := (symbolTable (checkNode doc bd s))(nm \<mapsto> ''any'')\<rparr>)))"
    if "param = Some p" and "nodeName p = Some nm" and "nm \<noteq> []" for p nm
  proof -
    have "nilFree (symbolTable ((checkNode doc bd s)\<lparr>symbolTable := (symbolTable (checkNode doc bd s))(nm \<mapsto> ''any'')\<rparr>))"
      using a by (simp add: nilFree_def)
    then show ?thesis
      using "38.IH"(2) [OF refl that _ "38.prems"(2)] by blast
  qed
  show ?case
    using a b by (auto simp: Let_def split: option.splits)
qed auto

lemmas ok_defs = okNode_def okNodes_def okNodeOpt_def okNodeOpts_def

lemma okResult_simps [simp]:
  "okResult P (Normal v s) \<longleftrightarrow> P v"
  "okResult P (Thrown e s)"
  "okResult P OutOfFuel"
  by (simp_all add: okResult_def)

lemma okResult_andThen:
  "okResult P r \<Longrightarrow> (\<And>v s. P v \<Longrightarrow> okResult Q (k v s)) \<Longrightarrow> okResult Q (andThen r k)"
  by (cases r) (simp_all add: andThen_def)

lemmas okResult_andThen_typed =
  okResult_andThen [where P = declaredTypesOK]
  okResult_andThen [where P = "\<lambda>nds. \<forall>x \<in> set nds. declaredTypesOK x"]
  okResult_andThen [where P = "\<lambda>no. \<forall>x \<in> set_option no. declaredTypesOK x"]
  okResult_andThen [where P = "\<lambda>nos. \<forall>st \<in> set nos. \<forall>x \<in> set_option st. declaredTypesOK x"]

lemma okResult_throwAtCurrent [simp]: "okResult P (throwAtCurrent msg s)"
  by (simp add: throwAtCurrent_def split: option.splits)

lemma okResult_withToken:
  "(\<And>tok. t = Some tok \<Longrightarrow> okResult P (k tok)) \<Longrightarrow> okResult P (withToken t prop s k)"
  by (cases t) (simp_all add: withToken_def)

lemma okResult_someNode:
  "okResult declaredTypesOK r \<Longrightarrow> okResult (\<lambda>no. \<forall>x \<in> set_option no. declaredTypesOK x) (someNode r)"
  by (cases r) (simp_all add: someNode_def andThen_def)

lemma exprOKD:
  assumes "exprOK this"
  shows
    "okResult declaredTypesOK (m_parseExpression this s)"
    "okResult declaredTypesOK (m_parseLogicalOr this s)"
    "declaredTypesOK nd \<Longrightarrow> okResult declaredTypesOK (m_parseLogicalOrLoop this nd s)"
    "okResult declaredTypesOK (m_parseLogicalAnd this s)"
    "declaredTypesOK nd \<Longrightarrow> okResult declaredTypesOK (m_parseLogicalAndLoop this nd s)"
    "okResult declaredTypesOK (m_parseEquality this s)"
    "declaredTypesOK nd \<Longrightarrow> okResult declaredTypesOK (m_parseEqualityLoop this nd s)"
    "okResult declaredTypesOK (m_parseRelational this s)"
    "declaredTypesOK nd \<Longrightarrow> okResult declaredTypesOK (m_parseRelationalLoop this nd s)"
    "okResult declaredTypesOK (m_parseAdditive this s)"
    "declaredTypesOK nd \<Longrightarrow> okResult declaredTypesOK (m_parseAdditiveLoop this nd s)"
    "okResult declaredTypesOK (m_parseMultiplicative this s)"
    "declaredTypesOK nd \<Longrightarrow> okResult declaredTypesOK (m_parseMultiplicativeLoop this nd s)"
    "okResult declaredTypesOK (m_parseUnary this s)"
    "okResult declaredTypesOK (m_parsePrimary this s)"
    "declaredTypesOK nd \<Longrightarrow> okResult declaredTypesOK (m_parseCallExpression this nd s)"
    "(\<forall>x \<in> set nds. declaredTypesOK x) \<Longrightarrow> okResult (\<lambda>nds. \<forall>x \<in> set nds. declaredTypesOK x) (m_parseCommaExpressions this nds s)"
    "declaredTypesOK nd \<Longrightarrow> okResult declaredTypesOK (m_parseMemberExpression this nd s)"
    "okResult declaredTypesOK (m_parseArrayExpression this s)"
    "okResult declaredTypesOK (m_parseObjectExpression this s)"
    "(\<forall>x \<in> set nds. declaredTypesOK x) \<Longrightarrow> okResult (\<lambda>nds. \<forall>x \<in> set nds. declaredTypesOK x) (m_parseCommaProperties this nds s)"
    "okResult declaredTypesOK (m_parseObjectProperty this s)"
    "okResult declaredTypesOK (m_parseThrowStatement this s)"
  using assms by (auto simp: exprOK_def ok_defs)

lemma parseExpression_ok:
  assumes "exprOK this"
  shows "okNode (parseExpression_body this s)"
  unfolding parseExpression_body_def Let_def parseTemplateLiteral_def ok_defs

  by (auto intro!: okResult_andThen_typed okResult_withToken exprOKD [OF assms(1)] split: option.splits)

lemma parseLogicalOr_ok:
  assumes "exprOK this"
  shows "okNode (parseLogicalOr_body this s)"
  unfolding parseLogicalOr_body_def Let_def parseTemplateLiteral_def ok_defs

  by (auto intro!: okResult_andThen_typed okResult_withToken exprOKD [OF assms(1)] split: option.splits)

lemma parseLogicalOrLoop_ok:
  assumes "exprOK this" and "declaredTypesOK nd"
  shows "okNode (parseLogicalOrLoop_body this nd s)"
  unfolding parseLogicalOrLoop_body_def Let_def parseTemplateLiteral_def ok_defs
  using assms(2-)
  by (auto intro!: okResult_andThen_typed okResult_withToken exprOKD [OF assms(1)] split: option.splits)

lemma parseLogicalAnd_ok:
  assumes "exprOK this"
  shows "okNode (parseLogicalAnd_body this s)"
  unfolding parseLogicalAnd_body_def Let_def parseTemplateLiteral_def ok_defs

  by (auto intro!: okResult_andThen_typed okResult_withToken exprOKD [OF assms(1)] split: option.splits)

lemma parseLogicalAndLoop_ok:
  assumes "exprOK this" and "declaredTypesOK nd"
  shows "okNode (parseLogicalAndLoop_body this nd s)"
  unfolding parseLogicalAndLoop_body_def Let_def parseTemplateLiteral_def ok_defs
  using assms(2-)
  by (auto intro!: okResult_andThen_typed okResult_withToken exprOKD [OF assms(1)] split: option.splits)

lemma parseEquality_ok:
  assumes "exprOK this"
  shows "okNode (parseEquality_body this s)"
  unfolding parseEquality_body_def Let_def parseTemplateLiteral_def ok_defs

  by (auto intro!: okResult_andThen_typed okResult_withToken exprOKD [OF assms(1)] split: option.splits)

lemma parseEqualityLoop_ok:
  assumes "exprOK this" and "declaredTypesOK nd"
  shows "okNode (parseEqualityLoop_body this nd s)"
  unfolding parseEqualityLoop_body_def Let_def parseTemplateLiteral_def ok_defs
  using assms(2-)
  by (auto intro!: okResult_andThen_typed okResult_withToken exprOKD [OF assms(1)] split: option.splits)

lemma parseRelational_ok:
  assumes "exprOK this"
  shows "okNode (parseRelational_body this s)"
  unfolding parseRelational_body_def Let_def parseTemplateLiteral_def ok_defs

  by (auto intro!: okResult_andThen_typed okResult_withToken exprOKD [OF assms(1)] split: option.splits)

lemma parseRelationalLoop_ok:
  assumes "exprOK this" and "declaredTypesOK nd"
  shows "okNode (parseRelationalLoop_body this nd s)"
  unfolding parseRelationalLoop_body_def Let_def parseTemplateLiteral_def ok_defs
  using assms(2-)
  by (auto intro!: okResult_andThen_typed okResult_withToken exprOKD [OF assms(1)] split: option.splits)

lemma parseAdditive_ok:
  assumes "exprOK this"
  shows "okNode (parseAdditive_body this s)"
  unfolding parseAdditive_body_def Let_def parseTemplateLiteral_def ok_defs

  by (auto intro!: okResult_andThen_typed okResult_withToken exprOKD [OF assms(1)] split: option.splits)

lemma parseAdditiveLoop_ok:
  assumes "exprOK this" and "declaredTypesOK nd"
  shows "okNode (parseAdditiveLoop_body this nd s)"
  unfolding parseAdditiveLoop_body_def Let_def parseTemplateLiteral_def ok_defs
  using assms(2-)
  by (auto intro!: okResult_andThen_typed okResult_withToken exprOKD [OF assms(1)] split: option.splits)

lemma parseMultiplicative_ok:
  assumes "exprOK this"
  shows "okNode (parseMultiplicative_body this s)"
  unfolding parseMultiplicative_body_def Let_def parseTemplateLiteral_def ok_defs

  by (auto intro!: okResult_andThen_typed okResult_withToken exprOKD [OF assms(1)] split: option.splits)

lemma parseMultiplicativeLoop_ok:
  assumes "exprOK this" and "declaredTypesOK nd"
  shows "okNode (parseMultiplicativeLoop_body this nd s)"
  unfolding parseMultiplicativeLoop_body_def Let_def parseTemplateLiteral_def ok_defs
  using assms(2-)
  by (auto intro!: okResult_andThen_typed okResult_withToken exprOKD [OF assms(1)] split: option.splits)

lemma parseUnary_ok:
  assumes "exprOK this"
  shows "okNode (parseUnary_body this s)"
  unfolding parseUnary_body_def Let_def parseTemplateLiteral_def ok_defs

  by (auto intro!: okResult_andThen_typed okResult_withToken exprOKD [OF assms(1)] split: option.splits)

lemma parsePrimary_ok:
  assumes "exprOK this"
  shows "okNode (parsePrimary_body this s)"
  unfolding parsePrimary_body_def Let_def parseTemplateLiteral_def ok_defs

  by (auto intro!: okResult_andThen_typed okResult_withToken exprOKD [OF assms(1)] split: option.splits)

lemma parseCallExpression_ok:
  assumes "exprOK this" and "declaredTypesOK nd"
  shows "okNode (parseCallExpression_body this nd s)"
  unfolding parseCallExpression_body_def Let_def parseTemplateLiteral_def ok_defs
  using assms(2-)
  by (auto intro!: okResult_andThen_typed okResult_withToken exprOKD [OF assms(1)] split: option.splits)

lemma parseCommaExpressions_ok:
  assumes "exprOK this" and "(\<forall>x \<in> set nds. declaredTypesOK x)"
  shows "okNodes (parseCommaExpressions_body this nds s)"
  unfolding parseCommaExpressions_body_def Let_def parseTemplateLiteral_def ok_defs
  using assms(2-)
  by (auto intro!: okResult_andThen_typed okResult_withToken exprOKD [OF assms(1)] split: option.splits)

lemma parseMemberExpression_ok:
  assumes "exprOK this" and "declaredTypesOK nd"
  shows "okNode (parseMemberExpression_body this nd s)"
  unfolding parseMemberExpression_body_def Let_def parseTemplateLiteral_def ok_defs
  using assms(2-)
  by (auto intro!: okResult_andThen_typed okResult_withToken exprOKD [OF assms(1)] split: option.splits)

lemma parseArrayExpression_ok:
  assumes "exprOK this"
  shows "okNode (parseArrayExpression_body this s)"
  unfolding parseArrayExpression_body_def Let_def parseTemplateLiteral_def ok_defs

  by (auto intro!: okResult_andThen_typed okResult_withToken exprOKD [OF assms(1)] split: option.splits)

lemma parseObjectExpression_ok:
  assumes "exprOK this"
  shows "okNode (parseObjectExpression_body this s)"
  unfolding parseObjectExpression_body_def Let_def parseTemplateLiteral_def ok_defs

  by (auto intro!: okResult_andThen_typed okResult_withToken exprOKD [OF assms(1)] split: option.splits)

lemma parseCommaProperties_ok:
  assumes "exprOK this" and "(\<forall>x \<in> set nds. declaredTypesOK x)"
  shows "okNodes (parseCommaProperties_body this nds s)"
  unfolding parseCommaProperties_body_def Let_def parseTemplateLiteral_def ok_defs
  using assms(2-)
  by (auto intro!: okResult_andThen_typed okResult_withToken exprOKD [OF assms(1)] split: option.splits)

lemma parseObjectProperty_ok:
  assumes "exprOK this"
  shows "okNode (parseObjectProperty_body this s)"
  unfolding parseObjectProperty_body_def Let_def parseTemplateLiteral_def ok_defs

  by (auto intro!: okResult_andThen_typed okResult_withToken exprOKD [OF assms(1)] split: option.splits)

lemma parseThrowStatement_ok:
  assumes "exprOK this"
  shows "okNode (parseThrowStatement_body this s)"
  unfolding parseThrowStatement_body_def Let_def parseTemplateLiteral_def ok_defs

  by (auto intro!: okResult_andThen_typed okResult_withToken exprOKD [OF assms(1)] split: option.splits)

lemma exprOK_at: "exprOK (exprMethodsAt n)"
proof (induction n)
  case 0
  show ?case by (simp add: exprOK_def exprMethodsAt.simps ok_defs)
next
  case (Suc n)
  show ?case
    unfolding exprOK_def exprMethodsAt.simps Let_def
    by (simp add: parseExpression_ok [OF Suc] parseLogicalOr_ok [OF Suc] parseLogicalOrLoop_ok [OF Suc] parseLogicalAnd_ok [OF Suc] parseLogicalAndLoop_ok [OF Suc] parseEquality_ok [OF Suc] parseEqualityLoop_ok [OF Suc] parseRelational_ok [OF Suc] parseRelationalLoop_ok [OF Suc] parseAdditive_ok [OF Suc] parseAdditiveLoop_ok [OF Suc] parseMultiplicative_ok [OF Suc] parseMultiplicativeLoop_ok [OF Suc] parseUnary_ok [OF Suc] parsePrimary_ok [OF Suc] parseCallExpression_ok [OF Suc] parseCommaExpressions_ok [OF Suc] parseMemberExpression_ok [OF Suc] parseArrayExpression_ok [OF Suc] parseObjectExpression_ok [OF Suc] parseCommaProperties_ok [OF Suc] parseObjectProperty_ok [OF Suc] parseThrowStatement_ok [OF Suc])
qed

lemma parseExpression_wellformed: "okResult declaredTypesOK (parseExpression n s)"
  using exprOKD(1) [OF exprOK_at, of n s] by (simp add: parseExpression_def)

lemma okResult_catchError:
  "okResult P r \<Longrightarrow> (\<And>e s. okResult P (h e s)) \<Longrightarrow> okResult P (catchError r h)"
  by (cases r) (simp_all add: catchError_def)

lemma okResult_forClause:
  "(\<And>s'. okResult declaredTypesOK (k s'))
     \<Longrightarrow> okResult (\<lambda>no. \<forall>x \<in> set_option no. declaredTypesOK x) (forClause stop s k)"
  unfolding forClause_def
  by (auto intro!: okResult_withToken okResult_someNode)

lemma parseVariableDeclaration_wellformed: "okResult declaredTypesOK (parseVariableDeclaration n s)"
  unfolding parseVariableDeclaration_def
  by (auto intro!: okResult_withToken okResult_someNode parseExpression_wellformed
        okResult_andThen [where P = "\<lambda>b. True"]
        okResult_andThen [where P = "\<lambda>dt. \<forall>ty \<in> set_option dt. isTypeKeyword ty"]
        okResult_andThen [where P = "\<lambda>no. \<forall>x \<in> set_option no. declaredTypesOK x"]
      split: option.splits)

lemma parseAssignmentExpression_wellformed:
  "declaredTypesOK left \<Longrightarrow> okResult declaredTypesOK (parseAssignmentExpression n left s)"
  unfolding parseAssignmentExpression_def
  by (auto intro!: okResult_andThen_typed parseExpression_wellformed)

lemma parseExpressionStatement_wellformed: "okResult declaredTypesOK (parseExpressionStatement n s)"
  unfolding parseExpressionStatement_def
  by (auto intro!: okResult_andThen_typed parseExpression_wellformed
        parseAssignmentExpression_wellformed)

lemma parseReturnStatement_wellformed: "okResult declaredTypesOK (parseReturnStatement n s)"
  unfolding parseReturnStatement_def Let_def
  by (auto intro!: okResult_andThen_typed okResult_withToken okResult_someNode
        parseExpression_wellformed)

lemmas leaf_wellformed =
  parseExpression_wellformed parseVariableDeclaration_wellformed
  parseExpressionStatement_wellformed parseReturnStatement_wellformed

lemma stmtOKD:
  assumes "stmtOK this"
  shows
    "okResult (\<lambda>no. \<forall>x \<in> set_option no. declaredTypesOK x) (m_parseStatement this s)"
    "okResult declaredTypesOK (m_parseBlock this s)"
    "(\<forall>st \<in> set nos. \<forall>x \<in> set_option st. declaredTypesOK x) \<Longrightarrow> okResult (\<lambda>nos. \<forall>st \<in> set nos. \<forall>x \<in> set_option st. declaredTypesOK x) (m_parseBlockLoop this nos s)"
    "okResult declaredTypesOK (m_parseIfStatement this s)"
    "okResult declaredTypesOK (m_parseWhileStatement this s)"
    "okResult declaredTypesOK (m_parseForStatement this s)"
    "okResult declaredTypesOK (m_parseFunctionDeclaration this s)"
    "okResult declaredTypesOK (m_parseClassDeclaration this s)"
    "okResult declaredTypesOK (m_parseDoWhileStatement this s)"
    "okResult declaredTypesOK (m_parseMatchStatement this s)"
    "(\<forall>x \<in> set nds. declaredTypesOK x) \<Longrightarrow> okResult (\<lambda>nds. \<forall>x \<in> set nds. declaredTypesOK x) (m_parseMatchLoop this nds s)"
    "okResult declaredTypesOK (m_parseMatchCase this s)"
    "okResult declaredTypesOK (m_parseMatchDefault this s)"
    "okResult declaredTypesOK (m_parseRetryStatement this s)"
    "okResult declaredTypesOK (m_parseTryStatement this s)"
    "okResult declaredTypesOK (m_parseCatchClause this s)"
    "okResult declaredTypesOK (m_parseFinallyClause this s)"
  using assms by (auto simp: stmtOK_def ok_defs)

lemma parseStatement_ok:
  assumes "stmtOK this"
  shows "okNodeOpt (parseStatement_body n this s)"
  unfolding parseStatement_body_def Let_def ok_defs
  by (auto intro!: okResult_andThen_typed okResult_withToken okResult_someNode okResult_catchError
        okResult_forClause leaf_wellformed stmtOKD [OF assms(1)]
      split: option.splits prod.splits)

lemma parseBlock_ok:
  assumes "stmtOK this"
  shows "okNode (parseBlock_body n this s)"
  unfolding parseBlock_body_def Let_def ok_defs
  by (auto intro!: okResult_andThen_typed okResult_withToken okResult_someNode okResult_catchError
        okResult_forClause leaf_wellformed stmtOKD [OF assms(1)]
      split: option.splits prod.splits)

lemma parseBlockLoop_ok:
  assumes "stmtOK this" and "(\<forall>st \<in> set nos. \<forall>x \<in> set_option st. declaredTypesOK x)"
  shows "okNodeOpts (parseBlockLoop_body n this nos s)"
  unfolding parseBlockLoop_body_def Let_def ok_defs
  using assms(2-)
  by (auto intro!: okResult_andThen_typed okResult_withToken okResult_someNode okResult_catchError
        okResult_forClause leaf_wellformed stmtOKD [OF assms(1)]
      split: option.splits prod.splits)

lemma parseIfStatement_ok:
  assumes "stmtOK this"
  shows "okNode (parseIfStatement_body n this s)"
  unfolding parseIfStatement_body_def Let_def ok_defs
  by (auto intro!: okResult_andThen_typed okResult_withToken okResult_someNode okResult_catchError
        okResult_forClause leaf_wellformed stmtOKD [OF assms(1)]
      split: option.splits prod.splits)

lemma parseWhileStatement_ok:
  assumes "stmtOK this"
  shows "okNode (parseWhileStatement_body n this s)"
  unfolding parseWhileStatement_body_def Let_def ok_defs
  by (auto intro!: okResult_andThen_typed okResult_withToken okResult_someNode okResult_catchError
        okResult_forClause leaf_wellformed stmtOKD [OF assms(1)]
      split: option.splits prod.splits)

lemma parseForStatement_ok:
  assumes "stmtOK this"
  shows "okNode (parseForStatement_body n this s)"
  unfolding parseForStatement_body_def Let_def ok_defs
  by (auto intro!: okResult_andThen_typed okResult_withToken okResult_someNode okResult_catchError
        okResult_forClause leaf_wellformed stmtOKD [OF assms(1)]
      split: option.splits prod.splits)

lemma parseFunctionDeclaration_ok:
  assumes "stmtOK this"
  shows "okNode (parseFunctionDeclaration_body n this s)"
  unfolding parseFunctionDeclaration_body_def Let_def ok_defs
  by (auto intro!: okResult_andThen_typed okResult_withToken okResult_someNode okResult_catchError
        okResult_forClause leaf_wellformed stmtOKD [OF assms(1)]
      split: option.splits prod.splits)

lemma parseClassDeclaration_ok:
  assumes "stmtOK this"
  shows "okNode (parseClassDeclaration_body n this s)"
  unfolding parseClassDeclaration_body_def Let_def ok_defs
  by (auto intro!: okResult_andThen_typed okResult_withToken okResult_someNode okResult_catchError
        okResult_forClause leaf_wellformed stmtOKD [OF assms(1)]
      split: option.splits prod.splits)

lemma parseDoWhileStatement_ok:
  assumes "stmtOK this"
  shows "okNode (parseDoWhileStatement_body n this s)"
  unfolding parseDoWhileStatement_body_def Let_def ok_defs
  by (auto intro!: okResult_andThen_typed okResult_withToken okResult_someNode okResult_catchError
        okResult_forClause leaf_wellformed stmtOKD [OF assms(1)]
      split: option.splits prod.splits)

lemma parseMatchStatement_ok:
  assumes "stmtOK this"
  shows "okNode (parseMatchStatement_body n this s)"
  unfolding parseMatchStatement_body_def Let_def ok_defs
  by (auto intro!: okResult_andThen_typed okResult_withToken okResult_someNode okResult_catchError
        okResult_forClause leaf_wellformed stmtOKD [OF assms(1)]
      split: option.splits prod.splits)

lemma parseMatchLoop_ok:
  assumes "stmtOK this" and "(\<forall>x \<in> set nds. declaredTypesOK x)"
  shows "okNodes (parseMatchLoop_body n this nds s)"
  unfolding parseMatchLoop_body_def Let_def ok_defs
  using assms(2-)
  by (auto intro!: okResult_andThen_typed okResult_withToken okResult_someNode okResult_catchError
        okResult_forClause leaf_wellformed stmtOKD [OF assms(1)]
      split: option.splits prod.splits)

lemma parseMatchCase_ok:
  assumes "stmtOK this"
  shows "okNode (parseMatchCase_body n this s)"
  unfolding parseMatchCase_body_def Let_def ok_defs
  by (auto intro!: okResult_andThen_typed okResult_withToken okResult_someNode okResult_catchError
        okResult_forClause leaf_wellformed stmtOKD [OF assms(1)]
      split: option.splits prod.splits)

lemma parseMatchDefault_ok:
  assumes "stmtOK this"
  shows "okNode (parseMatchDefault_body n this s)"
  unfolding parseMatchDefault_body_def Let_def ok_defs
  by (auto intro!: okResult_andThen_typed okResult_withToken okResult_someNode okResult_catchError
        okResult_forClause leaf_wellformed stmtOKD [OF assms(1)]
      split: option.splits prod.splits)

lemma parseRetryStatement_ok:
  assumes "stmtOK this"
  shows "okNode (parseRetryStatement_body n this s)"
  unfolding parseRetryStatement_body_def Let_def ok_defs
  by (auto intro!: okResult_andThen_typed okResult_withToken okResult_someNode okResult_catchError
        okResult_forClause leaf_wellformed stmtOKD [OF assms(1)]
      split: option.splits prod.splits)

lemma parseTryStatement_ok:
  assumes "stmtOK this"
  shows "okNode (parseTryStatement_body n this s)"
  unfolding parseTryStatement_body_def Let_def ok_defs
  by (auto intro!: okResult_andThen_typed okResult_withToken okResult_someNode okResult_catchError
        okResult_forClause leaf_wellformed stmtOKD [OF assms(1)]
      split: option.splits prod.splits)

lemma parseCatchClause_ok:
  assumes "stmtOK this"
  shows "okNode (parseCatchClause_body n this s)"
  unfolding parseCatchClause_body_def Let_def ok_defs
  by (auto intro!: okResult_andThen_typed okResult_withToken okResult_someNode okResult_catchError
        okResult_forClause leaf_wellformed stmtOKD [OF assms(1)]
      split: option.splits prod.splits)

lemma parseFinallyClause_ok:
  assumes "stmtOK this"
  shows "okNode (parseFinallyClause_body n this s)"
  unfolding parseFinallyClause_body_def Let_def ok_defs
  by (auto intro!: okResult_andThen_typed okResult_withToken okResult_someNode okResult_catchError
        okResult_forClause leaf_wellformed stmtOKD [OF assms(1)]
      split: option.splits prod.splits)

lemma stmtOK_at: "stmtOK (stmtMethodsAt n)"
proof (induction n)
  case 0
  show ?case by (simp add: stmtOK_def stmtMethodsAt.simps ok_defs)
next
  case (Suc n)
  show ?case
    unfolding stmtOK_def stmtMethodsAt.simps Let_def
    by (simp add: parseStatement_ok [OF Suc] parseBlock_ok [OF Suc] parseBlockLoop_ok [OF Suc] parseIfStatement_ok [OF Suc] parseWhileStatement_ok [OF Suc] parseForStatement_ok [OF Suc] parseFunctionDeclaration_ok [OF Suc] parseClassDeclaration_ok [OF Suc] parseDoWhileStatement_ok [OF Suc] parseMatchStatement_ok [OF Suc] parseMatchLoop_ok [OF Suc] parseMatchCase_ok [OF Suc] parseMatchDefault_ok [OF Suc] parseRetryStatement_ok [OF Suc] parseTryStatement_ok [OF Suc] parseCatchClause_ok [OF Suc] parseFinallyClause_ok [OF Suc])
qed

lemma parseStatement_wellformed:
  "okResult (\<lambda>no. \<forall>x \<in> set_option no. declaredTypesOK x) (parseStatement n s)"
  using stmtOKD(1) [OF stmtOK_at, of n s] by (simp add: parseStatement_def)

lemma parseLoop_wellformed:
  "\<forall>x \<in> set statements. declaredTypesOK x
     \<Longrightarrow> okResult (\<lambda>nds. \<forall>x \<in> set nds. declaredTypesOK x) (parseLoop n statements s)"
proof (induction n arbitrary: statements s)
  case 0
  show ?case by simp
next
  case (Suc n)
  show ?case
    using Suc.prems
    by (auto intro!: okResult_andThen_typed parseStatement_wellformed Suc.IH split: option.splits)
qed

lemma parse_wellformed:
  assumes "parse n p inp = Normal ast p'"
  shows "\<forall>x \<in> set (body ast). declaredTypesOK x"
proof (cases "isBlank inp")
  case True
  with assms show ?thesis by (auto simp: parse_def)
next
  case False
  with assms obtain toks where
    run: "andThen (parseLoop n [] (p\<lparr>input := inp, tokens := toks, position := 0\<rparr>))
            (\<lambda>statements s'. Normal \<lparr>body = statements, prog_errors = Some (errors s')\<rparr> s')
          = Normal ast p'"
    by (auto simp: parse_def split: sum.splits)
  have "okResult (\<lambda>nds. \<forall>x \<in> set nds. declaredTypesOK x)
          (parseLoop n [] (p\<lparr>input := inp, tokens := toks, position := 0\<rparr>))"
    by (rule parseLoop_wellformed) simp
  with run show ?thesis
    by (cases "parseLoop n [] (p\<lparr>input := inp, tokens := toks, position := 0\<rparr>)")
       (auto simp: andThen_def)
qed

text \<open>
  C7. While no name is recorded with the type \<^verbatim>\<open>nil\<close>, \<^verbatim>\<open>inferType\<close> never returns
  \<^verbatim>\<open>nil\<close> (a nil literal infers as \<^verbatim>\<open>any\<close>), so on an inferred actual type
  \<^verbatim>\<open>isCompatibleType\<close> decides by its other three cases alone. The symbol table is in
  that condition throughout \<^verbatim>\<open>check\<close>: it starts empty, checking a node whose declared
  types are type keywords keeps it so, and every program returned by \<^verbatim>\<open>parse\<close> has
  only such declared types.
\<close>

theorem inferType_never_nil:
  assumes "nilFree (symbolTable s)"
  shows "inferType (symbolTable s) e \<noteq> ''nil''
         \<and> (isCompatibleType expected (inferType (symbolTable s) e) \<longleftrightarrow>
              expected = inferType (symbolTable s) e \<or> expected = ''any''
              \<or> inferType (symbolTable s) e = ''any''
              \<or> (expected = ''float'' \<and> inferType (symbolTable s) e = ''int''))
         \<and> inferType (symbolTable s) (Literal JNull raw a b) = ''any''
         \<and> (declaredTypesOK nd \<longrightarrow> nilFree (symbolTable (checkNode doc nd s)))
         \<and> (parse n p inp = Normal ast p' \<longrightarrow>
              (\<forall>x \<in> set (body ast). declaredTypesOK x)
              \<and> nilFree (symbolTable (check ast doc errs)))"
proof (intro conjI impI)
  show nonnil: "inferType (symbolTable s) e \<noteq> ''nil''"
    using assms by (rule inferType_not_nil)
  then show "isCompatibleType expected (inferType (symbolTable s) e) \<longleftrightarrow>
              expected = inferType (symbolTable s) e \<or> expected = ''any''
              \<or> inferType (symbolTable s) e = ''any''
              \<or> (expected = ''float'' \<and> inferType (symbolTable s) e = ''int'')"
    by (simp add: isCompatibleType_def)
  show "inferType (symbolTable s) (Literal JNull raw a b) = ''any''"
    by simp
  show "nilFree (symbolTable (checkNode doc nd s))" if "declaredTypesOK nd"
    using assms that by (rule check_nilFree(1))
  show "\<forall>x \<in> set (body ast). declaredTypesOK x" if "parse n p inp = Normal ast p'"
    using that by (rule parse_wellformed)
  show "nilFree (symbolTable (check ast doc errs))" if "parse n p inp = Normal ast p'"
    unfolding check_def
    using parse_wellformed [OF that] by (intro check_nilFree(3)) simp_all
qed

theorem inferType_never_nil_witness:
  "inferType
     (symbolTable \<lparr>symbolTable = Map.empty, staticVariables = {}, assignedVariables = {},
                   ck_errors = []\<rparr>)
     (Literal JNull ''nil'' (Some 8) (Some 11)) \<noteq> ''nil''
   \<and> nilFree (symbolTable
        (checkNode ''var float y = 1; y = 2;''
           (VariableDeclaration (Some ''int'') ''x''
              (Some (Literal JNull ''nil'' (Some 12) (Some 15))) False (Some 0) (Some 16))
           \<lparr>symbolTable = Map.empty, staticVariables = {}, assignedVariables = {}, ck_errors = []\<rparr>))
   \<and> nilFree (symbolTable
        (check \<lparr>body =
                 [VariableDeclaration (Some ''float'') ''y''
                    (Some (Literal (JNumber ''1'') ''1'' (Some 14) (Some 15))) False (Some 0) (Some 17),
                  AssignmentExpression (Identifier ''y'' (Some 17) (Some 18))
                    (Literal (JNumber ''2'') ''2'' (Some 21) (Some 22)) (Some 17) (Some 23)],
                prog_errors = Some []\<rparr>
           ''var float y = 1; y = 2;'' []))"
proof -
  let ?s = "\<lparr>symbolTable = Map.empty, staticVariables = {}, assignedVariables = {}, ck_errors = []\<rparr>"
  have init: "nilFree (symbolTable ?s)" by simp
  have ok: "declaredTypesOK (VariableDeclaration (Some ''int'') ''x''
              (Some (Literal JNull ''nil'' (Some 12) (Some 15))) False (Some 0) (Some 16))"
    by (simp add: isTypeKeyword_def)
  note th = inferType_never_nil [OF init,
      where e = "Literal JNull ''nil'' (Some 8) (Some 11)"
        and nd = "VariableDeclaration (Some ''int'') ''x''
              (Some (Literal JNull ''nil'' (Some 12) (Some 15))) False (Some 0) (Some 16)"
        and doc = "''var float y = 1; y = 2;''" and n = 100 and p = newParser
        and inp = "''var float y = 1; y = 2;''" and errs = "[]"]
  show ?thesis
  proof (intro conjI)
    show "inferType (symbolTable ?s) (Literal JNull ''nil'' (Some 8) (Some 11)) \<noteq> ''nil''"
      by (rule th [THEN conjunct1])
    show "nilFree (symbolTable
        (checkNode ''var float y = 1; y = 2;''
           (VariableDeclaration (Some ''int'') ''x''
              (Some (Literal JNull ''nil'' (Some 12) (Some 15))) False (Some 0) (Some 16)) ?s))"
      by (rule th [THEN conjunct2, THEN conjunct2, THEN conjunct2, THEN conjunct1, THEN mp, OF ok])
    show "nilFree (symbolTable
        (check \<lparr>body =
                 [VariableDeclaration (Some ''float'') ''y''
                    (Some (Literal (JNumber ''1'') ''1'' (Some 14) (Some 15))) False (Some 0) (Some 17),
                  AssignmentExpression (Identifier ''y'' (Some 17) (Some 18))
                    (Literal (JNumber ''2'') ''2'' (Some 21) (Some 22)) (Some 17) (Some 23)],
                prog_errors = Some []\<rparr>
           ''var float y = 1; y = 2;'' []))"
      by (rule th [THEN conjunct2, THEN conjunct2, THEN conjunct2, THEN conjunct2, THEN mp,
                   OF parse_widening, THEN conjunct2])
  qed
qed

end
